theory Spec2Isabelle
  imports Complex_Main "HOL-Library.AList" "HOL-Library.Sublist"
begin

section \<open>JavaScript values\<close>

subsection \<open>Numbers\<close>

text \<open>
  A JavaScript Number is modelled as a real number or one of the three special values
  NaN, +Infinity and -Infinity. Arithmetic on finite values is exact: rounding to the
  nearest double, overflow to an infinity and the sign of zero are not modelled (zero
  counts as +0). Division by zero, the arithmetic of the infinities and the propagation
  of NaN follow IEEE 754 as JavaScript has them.
\<close>

datatype jsnum = Fin real | NaN | PInf | NInf

instantiation jsnum :: "{plus, minus, uminus, times, inverse}"
begin

fun uminus_jsnum :: "jsnum \<Rightarrow> jsnum" where
  "uminus_jsnum (Fin a) = Fin (- a)"
| "uminus_jsnum NaN = NaN"
| "uminus_jsnum PInf = NInf"
| "uminus_jsnum NInf = PInf"

fun plus_jsnum :: "jsnum \<Rightarrow> jsnum \<Rightarrow> jsnum" where
  "plus_jsnum (Fin a) (Fin b) = Fin (a + b)"
| "plus_jsnum NaN _ = NaN"
| "plus_jsnum _ NaN = NaN"
| "plus_jsnum PInf NInf = NaN"
| "plus_jsnum NInf PInf = NaN"
| "plus_jsnum PInf _ = PInf"
| "plus_jsnum _ PInf = PInf"
| "plus_jsnum NInf _ = NInf"
| "plus_jsnum _ NInf = NInf"

definition minus_jsnum :: "jsnum \<Rightarrow> jsnum \<Rightarrow> jsnum" where
  "minus_jsnum a b = a + (- b)"

fun times_jsnum :: "jsnum \<Rightarrow> jsnum \<Rightarrow> jsnum" where
  "times_jsnum (Fin a) (Fin b) = Fin (a * b)"
| "times_jsnum NaN _ = NaN"
| "times_jsnum _ NaN = NaN"
| "times_jsnum (Fin a) PInf = (if a = 0 then NaN else if 0 < a then PInf else NInf)"
| "times_jsnum (Fin a) NInf = (if a = 0 then NaN else if 0 < a then NInf else PInf)"
| "times_jsnum PInf (Fin b) = (if b = 0 then NaN else if 0 < b then PInf else NInf)"
| "times_jsnum NInf (Fin b) = (if b = 0 then NaN else if 0 < b then NInf else PInf)"
| "times_jsnum PInf PInf = PInf"
| "times_jsnum PInf NInf = NInf"
| "times_jsnum NInf PInf = NInf"
| "times_jsnum NInf NInf = PInf"

fun divide_jsnum :: "jsnum \<Rightarrow> jsnum \<Rightarrow> jsnum" where
  "divide_jsnum (Fin a) (Fin b) =
     (if b = 0 then (if a = 0 then NaN else if 0 < a then PInf else NInf)
      else Fin (a / b))"
| "divide_jsnum NaN _ = NaN"
| "divide_jsnum _ NaN = NaN"
| "divide_jsnum (Fin a) PInf = Fin 0"
| "divide_jsnum (Fin a) NInf = Fin 0"
| "divide_jsnum PInf (Fin b) = (if 0 \<le> b then PInf else NInf)"
| "divide_jsnum NInf (Fin b) = (if 0 \<le> b then NInf else PInf)"
| "divide_jsnum PInf PInf = NaN"
| "divide_jsnum PInf NInf = NaN"
| "divide_jsnum NInf PInf = NaN"
| "divide_jsnum NInf NInf = NaN"

fun inverse_jsnum :: "jsnum \<Rightarrow> jsnum" where
  "inverse_jsnum (Fin b) = (if b = 0 then PInf else Fin (1 / b))"
| "inverse_jsnum NaN = NaN"
| "inverse_jsnum PInf = Fin 0"
| "inverse_jsnum NInf = Fin 0"

instance ..

end

text \<open>The comparisons \<open>a < b\<close> and \<open>a <= b\<close>; \<open>a > b\<close> is \<open>js_lt b a\<close>. A comparison with NaN is false.\<close>

fun js_lt :: "jsnum \<Rightarrow> jsnum \<Rightarrow> bool" where
  "js_lt (Fin a) (Fin b) = (a < b)"
| "js_lt NaN _ = False"
| "js_lt _ NaN = False"
| "js_lt _ NInf = False"
| "js_lt PInf _ = False"
| "js_lt NInf _ = True"
| "js_lt _ PInf = True"

fun js_le :: "jsnum \<Rightarrow> jsnum \<Rightarrow> bool" where
  "js_le (Fin a) (Fin b) = (a \<le> b)"
| "js_le NaN _ = False"
| "js_le _ NaN = False"
| "js_le NInf _ = True"
| "js_le _ PInf = True"
| "js_le _ NInf = False"
| "js_le PInf _ = False"

text \<open>Strict equality \<open>a === b\<close> of two numbers: NaN is not equal to itself.\<close>

fun js_eq :: "jsnum \<Rightarrow> jsnum \<Rightarrow> bool" where
  "js_eq NaN _ = False"
| "js_eq _ NaN = False"
| "js_eq a b = (a = b)"

text \<open>\<open>isNaN\<close> and the truthiness of a number (\<open>0\<close> and NaN are falsy).\<close>

fun isNaN :: "jsnum \<Rightarrow> bool" where
  "isNaN NaN = True"
| "isNaN _ = False"

fun truthy_num :: "jsnum \<Rightarrow> bool" where
  "truthy_num (Fin a) = (a \<noteq> 0)"
| "truthy_num NaN = False"
| "truthy_num _ = True"

text \<open>\<open>a || b\<close> on numbers.\<close>

definition num_or :: "jsnum \<Rightarrow> jsnum \<Rightarrow> jsnum" where
  "num_or a b = (if truthy_num a then a else b)"

text \<open>
  \<open>Math.max\<close> and \<open>Math.min\<close>: NaN if an argument is NaN; with no argument
  \<open>Math.max()\<close> is -Infinity and \<open>Math.min()\<close> is +Infinity.
\<close>

fun js_max :: "jsnum \<Rightarrow> jsnum \<Rightarrow> jsnum" where
  "js_max NaN _ = NaN"
| "js_max _ NaN = NaN"
| "js_max a b = (if js_lt a b then b else a)"

fun js_min :: "jsnum \<Rightarrow> jsnum \<Rightarrow> jsnum" where
  "js_min NaN _ = NaN"
| "js_min _ NaN = NaN"
| "js_min a b = (if js_lt b a then b else a)"

definition Math_max :: "jsnum list \<Rightarrow> jsnum" where
  "Math_max xs = foldr js_max xs NInf"

definition Math_min :: "jsnum list \<Rightarrow> jsnum" where
  "Math_min xs = foldr js_min xs PInf"

text \<open>\<open>Math.floor\<close>, \<open>Math.ceil\<close> and \<open>Math.round\<close> (which rounds a half up).\<close>

fun Math_floor :: "jsnum \<Rightarrow> jsnum" where
  "Math_floor (Fin a) = Fin (of_int \<lfloor>a\<rfloor>)"
| "Math_floor a = a"

fun Math_ceil :: "jsnum \<Rightarrow> jsnum" where
  "Math_ceil (Fin a) = Fin (of_int \<lceil>a\<rceil>)"
| "Math_ceil a = a"

fun Math_round :: "jsnum \<Rightarrow> jsnum" where
  "Math_round (Fin a) = Fin (of_int \<lfloor>a + 1 / 2\<rfloor>)"
| "Math_round a = a"

text \<open>\<open>Math.cos\<close> and \<open>Math.sin\<close>: NaN outside the finite numbers.\<close>

fun Math_cos :: "jsnum \<Rightarrow> jsnum" where
  "Math_cos (Fin a) = Fin (cos a)"
| "Math_cos _ = NaN"

fun Math_sin :: "jsnum \<Rightarrow> jsnum" where
  "Math_sin (Fin a) = Fin (sin a)"
| "Math_sin _ = NaN"

text \<open>
  The remainder \<open>i % m\<close> for an index \<open>i\<close> (a non-negative integer): NaN when \<open>m\<close> is 0
  or NaN, \<open>i\<close> itself when \<open>m\<close> is infinite.
\<close>

fun js_rem :: "nat \<Rightarrow> jsnum \<Rightarrow> jsnum" where
  "js_rem i (Fin k) = (if k = 0 then NaN else Fin (real i - \<bar>k\<bar> * of_int \<lfloor>real i / \<bar>k\<bar>\<rfloor>))"
| "js_rem i NaN = NaN"
| "js_rem i PInf = Fin (real i)"
| "js_rem i NInf = Fin (real i)"

text \<open>An array index or a length as a number.\<close>

definition num :: "nat \<Rightarrow> jsnum" where
  "num n = Fin (real n)"

subsection \<open>Primitive values, data items and the host's built-in conversions\<close>

text \<open>
  A data item is a primitive value or a plain object whose fields hold primitive values
  (the shapes of data point the engines read). A field that is absent reads as
  \<open>undefined\<close>.
\<close>

datatype prim = PUndefined | PNull | PBool bool | PNum jsnum | PStr string

datatype item = Prim prim | Obj "(string \<times> prim) list"

datatype js_error = TypeError | RangeError

text \<open>
  The conversions that the language runtime provides and the source only calls are
  parameters of the model: the text of a number (\<open>String(n)\<close>, template
  interpolation), the number read from a string (\<open>Number(s)\<close>), \<open>toFixed\<close>,
  \<open>toLocaleString\<close>, and the results of \<open>Math.random()\<close> (indexed by the data item
  that the call is made for).
\<close>

record js_host =
  num_to_string :: "jsnum \<Rightarrow> string"
  string_to_num :: "string \<Rightarrow> jsnum"
  to_fixed :: "nat \<Rightarrow> jsnum \<Rightarrow> string"
  to_locale_string :: "jsnum \<Rightarrow> string"
  random :: "nat \<Rightarrow> jsnum"

fun truthy :: "prim \<Rightarrow> bool" where
  "truthy PUndefined = False"
| "truthy PNull = False"
| "truthy (PBool b) = b"
| "truthy (PNum n) = truthy_num n"
| "truthy (PStr s) = (s \<noteq> [])"

text \<open>\<open>String(v)\<close> and \<open>Number(v)\<close> of a primitive value.\<close>

fun to_string :: "js_host \<Rightarrow> prim \<Rightarrow> string" where
  "to_string h PUndefined = ''undefined''"
| "to_string h PNull = ''null''"
| "to_string h (PBool b) = (if b then ''true'' else ''false'')"
| "to_string h (PNum n) = num_to_string h n"
| "to_string h (PStr s) = s"

fun to_number :: "js_host \<Rightarrow> prim \<Rightarrow> jsnum" where
  "to_number h PUndefined = NaN"
| "to_number h PNull = Fin 0"
| "to_number h (PBool b) = (if b then Fin 1 else Fin 0)"
| "to_number h (PNum n) = n"
| "to_number h (PStr s) = string_to_num h s"

text \<open>\<open>Number(item)\<close>: a plain object converts to NaN.\<close>

fun item_to_number :: "js_host \<Rightarrow> item \<Rightarrow> jsnum" where
  "item_to_number h (Prim p) = to_number h p"
| "item_to_number h (Obj fs) = NaN"

text \<open>The property read \<open>item.f\<close> on an object.\<close>

definition field :: "(string \<times> prim) list \<Rightarrow> string \<Rightarrow> prim" where
  "field fs f = (case map_of fs f of Some v \<Rightarrow> v | None \<Rightarrow> PUndefined)"

text \<open>
  The value of \<open>options.data\<close> as the engines test it with \<open>Array.isArray\<close>: an array
  of items, or some other value.
\<close>

datatype jsdata = DataArray "item list" | NotArray item

text \<open>Running a step over a list, stopping at the first exception.\<close>

fun traverse :: "('a \<Rightarrow> js_error + 'b) \<Rightarrow> 'a list \<Rightarrow> js_error + 'b list" where
  "traverse f [] = Inr []"
| "traverse f (x # xs) =
     (case f x of
        Inl e \<Rightarrow> Inl e
      | Inr y \<Rightarrow> (case traverse f xs of Inl e \<Rightarrow> Inl e | Inr ys \<Rightarrow> Inr (y # ys)))"

section \<open>Markup\<close>

text \<open>
  Every template literal of the source that emits markup has the form
  \<open><tag a="v" ... />\<close> or \<open><tag a="v" ...>body</tag>\<close>. An element records the tag,
  the attributes in order and the body; attribute values and bodies are sequences of
  literal text and interpolated values. \<open>render_elem\<close> gives the element's text.
\<close>

datatype piece =
    Lit string
  | Str string
  | Num jsnum
  | Val prim
  | Fixed nat jsnum
  | Locale jsnum

datatype elem = Elem (tag: string) (attrs: "(string \<times> piece list) list") (body: "piece list option")

fun render_piece :: "js_host \<Rightarrow> piece \<Rightarrow> string" where
  "render_piece h (Lit s) = s"
| "render_piece h (Str s) = s"
| "render_piece h (Num n) = num_to_string h n"
| "render_piece h (Val v) = to_string h v"
| "render_piece h (Fixed d n) = to_fixed h d n"
| "render_piece h (Locale n) = to_locale_string h n"

definition render_pieces :: "js_host \<Rightarrow> piece list \<Rightarrow> string" where
  "render_pieces h ps = concat (map (render_piece h) ps)"

definition dq :: string where
  "dq = [CHR 0x22]"

definition newline :: string where
  "newline = [CHR 0x0A]"

fun render_attr :: "js_host \<Rightarrow> string \<times> piece list \<Rightarrow> string" where
  "render_attr h (k, v) = '' '' @ k @ ''='' @ dq @ render_pieces h v @ dq"

fun render_elem :: "js_host \<Rightarrow> elem \<Rightarrow> string" where
  "render_elem h (Elem t as None) = ''<'' @ t @ concat (map (render_attr h) as) @ ''/>''"
| "render_elem h (Elem t as (Some b)) =
     ''<'' @ t @ concat (map (render_attr h) as) @ ''>'' @ render_pieces h b @ ''</'' @ t @ ''>''"

definition render :: "js_host \<Rightarrow> elem list \<Rightarrow> string" where
  "render h es = concat (map (render_elem h) es)"

text \<open>The attribute \<open>a\<close> of an element, if it has one.\<close>

definition attr :: "string \<Rightarrow> elem \<Rightarrow> piece list option" where
  "attr a e = map_of (attrs e) a"

section \<open>The request\<close>

text \<open>
  The options object with its documented optional fields; \<open>None\<close> is an absent field.
  A series of the dual-axes chart carries its type tag, its numbers and an optional axis
  title.
\<close>

record series =
  series_type :: string
  series_data :: "jsnum list"
  series_axisYTitle :: "string option"

record options =
  width :: "jsnum option"
  height :: "jsnum option"
  title :: "string option"
  axisXTitle :: "string option"
  axisYTitle :: "string option"
  bins :: "jsnum option"
  series :: "series list option"
  categories :: "string list option"
  data :: "jsdata option"

text \<open>\<open>options.f || d\<close> for a numeric and for a string field, and the truthiness of a string field.\<close>

fun num_field_or :: "jsnum option \<Rightarrow> jsnum \<Rightarrow> jsnum" where
  "num_field_or None d = d"
| "num_field_or (Some n) d = num_or n d"

fun str_field_or :: "string option \<Rightarrow> string \<Rightarrow> string" where
  "str_field_or None d = d"
| "str_field_or (Some s) d = (if s \<noteq> [] then s else d)"

fun truthy_str_field :: "string option \<Rightarrow> bool" where
  "truthy_str_field None = False"
| "truthy_str_field (Some s) = (s \<noteq> [])"

text \<open>The test \<open>!Array.isArray(data) || data.length === 0\<close> and the items of an array.\<close>

fun no_data :: "jsdata \<Rightarrow> bool" where
  "no_data (NotArray v) = True"
| "no_data (DataArray xs) = (xs = [])"

fun items_of :: "jsdata \<Rightarrow> item list" where
  "items_of (DataArray xs) = xs"
| "items_of (NotArray v) = []"

text \<open>The chart area \<open>{x, y, width, height}\<close> inside the margins.\<close>

record area =
  area_x :: jsnum
  area_y :: jsnum
  area_width :: jsnum
  area_height :: jsnum

definition chartArea :: "jsnum \<Rightarrow> jsnum \<Rightarrow> area" where
  "chartArea w h =
     \<lparr>area_x = Fin 80, area_y = Fin 60, area_width = w - Fin 140, area_height = h - Fin 140\<rparr>"

definition funnelArea :: "jsnum \<Rightarrow> jsnum \<Rightarrow> area" where
  "funnelArea w h =
     \<lparr>area_x = Fin 100, area_y = Fin 80, area_width = w - Fin 200, area_height = h - Fin 160\<rparr>"

section \<open>Shared markup of the engines\<close>

text \<open>The placeholder text element that the engines return on degenerate input.\<close>

definition placeholder :: "string \<Rightarrow> elem list" where
  "placeholder msg =
     [Elem ''text''
        [(''x'', [Lit ''400'']), (''y'', [Lit ''300'']), (''text-anchor'', [Lit ''middle'']),
         (''class'', [Lit ''axis-label''])]
        (Some [Lit msg])]"

text \<open>The vertical and the horizontal axis line that most engines draw.\<close>

definition axes :: "area \<Rightarrow> elem list" where
  "axes a =
     [Elem ''line''
        [(''x1'', [Num (area_x a)]), (''y1'', [Num (area_y a)]), (''x2'', [Num (area_x a)]),
         (''y2'', [Num (area_y a + area_height a)]), (''class'', [Lit ''axis''])] None,
      Elem ''line''
        [(''x1'', [Num (area_x a)]), (''y1'', [Num (area_y a + area_height a)]),
         (''x2'', [Num (area_x a + area_width a)]), (''y2'', [Num (area_y a + area_height a)]),
         (''class'', [Lit ''axis''])] None]"

text \<open>The optional titles of the x axis and of the y axis (column and line engines).\<close>

definition axisXTitle_elem :: "area \<Rightarrow> string \<Rightarrow> elem" where
  "axisXTitle_elem a t =
     Elem ''text''
       [(''x'', [Num (area_x a + area_width a / Fin 2)]),
        (''y'', [Num (area_y a + area_height a + Fin 50)]),
        (''text-anchor'', [Lit ''middle'']), (''class'', [Lit ''axis-title''])]
       (Some [Str t])"

definition axisYTitle_elem :: "area \<Rightarrow> string \<Rightarrow> elem" where
  "axisYTitle_elem a t =
     Elem ''text''
       [(''x'', [Lit ''30'']), (''y'', [Num (area_y a + area_height a / Fin 2)]),
        (''text-anchor'', [Lit ''middle'']), (''class'', [Lit ''axis-title'']),
        (''transform'',
           [Lit ''rotate(-90 30 '', Num (area_y a + area_height a / Fin 2), Lit '')''])]
       (Some [Str t])"

definition axis_titles :: "area \<Rightarrow> options \<Rightarrow> elem list" where
  "axis_titles a opts =
     (if truthy_str_field (axisXTitle opts) then [axisXTitle_elem a (the (axisXTitle opts))] else [])
     @ (if truthy_str_field (axisYTitle opts) then [axisYTitle_elem a (the (axisYTitle opts))] else [])"

section \<open>Column engine\<close>

text \<open>
  \<open>categories\<close> and \<open>groups\<close> are insertion-ordered sets, \<open>groupedData\<close> an
  insertion-ordered map from a category to the insertion-ordered map of its groups:
  association lists, where \<open>set_add\<close> appends a new member and \<open>AList.update\<close> replaces
  the value of an existing key in place or appends a new entry.
\<close>

definition set_add :: "'a \<Rightarrow> 'a list \<Rightarrow> 'a list" where
  "set_add v xs = (if v \<in> set xs then xs else xs @ [v])"

type_synonym grouped = "(string \<times> (prim \<times> jsnum) list) list"

fun fold_err :: "('a \<Rightarrow> 's \<Rightarrow> js_error + 's) \<Rightarrow> 'a list \<Rightarrow> 's \<Rightarrow> js_error + 's" where
  "fold_err f [] s = Inr s"
| "fold_err f (v # vs) s = (case f v s of Inl e \<Rightarrow> Inl e | Inr s' \<Rightarrow> fold_err f vs s')"

text \<open>
  The body of \<open>data.forEach\<close>. An object with a truthy \<open>category\<close> and a
  \<open>value\<close> contributes the cell (category, group, value), where the group defaults to
  \<open>'Series 1'\<close>; other items contribute nothing. \<open>typeof null\<close> is \<open>'object'\<close>, so
  reading \<open>item.category\<close> of a \<open>null\<close> item throws.
\<close>

fun column_cell :: "js_host \<Rightarrow> item \<Rightarrow> (string \<times> prim \<times> jsnum) option" where
  "column_cell h (Prim p) = None"
| "column_cell h (Obj fs) =
     (if truthy (field fs ''category'') \<and> field fs ''value'' \<noteq> PUndefined then
        Some (to_string h (field fs ''category''),
              if truthy (field fs ''group'') then field fs ''group'' else PStr ''Series 1'',
              to_number h (field fs ''value''))
      else None)"

fun column_item ::
  "js_host \<Rightarrow> item \<Rightarrow> string list \<times> prim list \<times> grouped
     \<Rightarrow> js_error + string list \<times> prim list \<times> grouped" where
  "column_item h (Prim PNull) st = Inl TypeError"
| "column_item h it (cats, groups, groupedData) =
     Inr (case column_cell h it of
            None \<Rightarrow> (cats, groups, groupedData)
          | Some (category, grp, v) \<Rightarrow>
              (set_add category cats, set_add grp groups,
               AList.update category
                 (AList.update grp v
                    (case map_of groupedData category of Some m \<Rightarrow> m | None \<Rightarrow> []))
                 groupedData))"

definition column_colors :: "string list" where
  "column_colors = [''#4285f4'', ''#ea4335'', ''#fbbc04'', ''#34a853'', ''#9aa0a6'', ''#ff6d01'']"

text \<open>\<open>maxValue\<close>: the maximum over all cells and 0, replaced by 1 when it is 0.\<close>

definition column_maxValue :: "grouped \<Rightarrow> jsnum" where
  "column_maxValue groupedData =
     (let m = fold (\<lambda>v m. js_max m v) (concat (map (\<lambda>(c, cm). map snd cm) groupedData)) (Fin 0)
      in if js_eq m (Fin 0) then Fin 1 else m)"

text \<open>The rect of one (category, group) cell and, if the bar is higher than 20, its value label.\<close>

definition column_bar ::
  "area \<Rightarrow> jsnum \<Rightarrow> jsnum \<Rightarrow> jsnum \<Rightarrow> nat \<Rightarrow> jsnum \<Rightarrow> (prim \<times> jsnum) list
     \<Rightarrow> nat \<times> prim \<Rightarrow> elem list" where
  "column_bar a maxValue categoryWidth barWidth groupCount categoryX categoryData =
     (\<lambda>(groupIndex, group).
        let v = (case map_of categoryData group of Some n \<Rightarrow> num_or n (Fin 0) | None \<Rightarrow> Fin 0);
            barHeight = (v / maxValue) * area_height a;
            barX = categoryX + num groupIndex * barWidth
                   + (categoryWidth - num groupCount * barWidth) / Fin 2;
            barY = area_y a + area_height a - barHeight;
            color = column_colors ! (groupIndex mod length column_colors)
        in Elem ''rect''
             [(''x'', [Num barX]), (''y'', [Num barY]), (''width'', [Num barWidth]),
              (''height'', [Num barHeight]), (''fill'', [Lit color]),
              (''class'', [Lit ''chart-bar''])] None
           # (if js_lt (Fin 20) barHeight then
                [Elem ''text''
                   [(''x'', [Num (barX + barWidth / Fin 2)]), (''y'', [Num (barY - Fin 5)]),
                    (''text-anchor'', [Lit ''middle'']), (''class'', [Lit ''axis-label''])]
                   (Some [Num v])]
              else []))"

text \<open>The bars of one category followed by the category label.\<close>

definition column_category ::
  "area \<Rightarrow> jsnum \<Rightarrow> jsnum \<Rightarrow> jsnum \<Rightarrow> prim list \<Rightarrow> grouped \<Rightarrow> nat \<times> string \<Rightarrow> elem list" where
  "column_category a maxValue categoryWidth barWidth groupArray groupedData =
     (\<lambda>(catIndex, category).
        case map_of groupedData category of
          None \<Rightarrow> []
        | Some categoryData \<Rightarrow>
            let categoryX = area_x a + num catIndex * categoryWidth
            in concat (map (column_bar a maxValue categoryWidth barWidth (length groupArray)
                              categoryX categoryData)
                         (enumerate 0 groupArray))
               @ [Elem ''text''
                    [(''x'', [Num (categoryX + categoryWidth / Fin 2)]),
                     (''y'', [Num (area_y a + area_height a + Fin 20)]),
                     (''text-anchor'', [Lit ''middle'']), (''class'', [Lit ''axis-label''])]
                    (Some [Str category])])"

text \<open>The legend entry of a group: a colour swatch and the group's name.\<close>

definition column_legend_entry :: "area \<Rightarrow> nat \<times> prim \<Rightarrow> elem list" where
  "column_legend_entry a =
     (\<lambda>(index, group).
        let legendY = area_y a - Fin 30;
            legendX = area_x a + num index * Fin 120;
            color = column_colors ! (index mod length column_colors)
        in [Elem ''rect''
              [(''x'', [Num legendX]), (''y'', [Num legendY]), (''width'', [Lit ''12'']),
               (''height'', [Lit ''12'']), (''fill'', [Lit color])] None,
            Elem ''text''
              [(''x'', [Num (legendX + Fin 18)]), (''y'', [Num (legendY + Fin 9)]),
               (''class'', [Lit ''legend-text''])]
              (Some [Val group])])"

definition column_chart :: "area \<Rightarrow> options \<Rightarrow> string list \<times> prim list \<times> grouped \<Rightarrow> elem list" where
  "column_chart a opts =
     (\<lambda>(categoryArray, groupArray, groupedData).
        let maxValue = column_maxValue groupedData;
            categoryWidth = area_width a / num (length categoryArray);
            barWidth = categoryWidth / (num (length groupArray) * Fin (12 / 10));
            bars = concat (map (column_category a maxValue categoryWidth barWidth groupArray
                                  groupedData)
                             (enumerate 0 categoryArray));
            legend = (if 1 < length groupArray
                      then concat (map (column_legend_entry a) (enumerate 0 groupArray))
                      else [])
        in legend @ bars @ axes a @ axis_titles a opts)"

definition generateColumnChart ::
  "js_host \<Rightarrow> jsdata \<Rightarrow> jsnum \<Rightarrow> jsnum \<Rightarrow> options \<Rightarrow> js_error + elem list" where
  "generateColumnChart h d w ht opts =
     (if no_data d then Inr (placeholder ''No data available'')
      else case fold_err (column_item h) (items_of d) ([], [], []) of
             Inl e \<Rightarrow> Inl e
           | Inr st \<Rightarrow> Inr (column_chart (chartArea w ht) opts st))"

section \<open>Line engine\<close>

text \<open>
  The normalisation of an item to \<open>{label, value}\<close>, a pair here: \<open>time\<close> is preferred
  to \<open>category\<close>, and any other item becomes \<open>'Unknown'\<close> with \<open>Number(item) || 0\<close>.
  The area engine repeats the same code.
\<close>

fun line_point :: "js_host \<Rightarrow> item \<Rightarrow> js_error + string \<times> jsnum" where
  "line_point h (Prim PNull) = Inl TypeError"
| "line_point h (Prim p) = Inr (''Unknown'', num_or (to_number h p) (Fin 0))"
| "line_point h (Obj fs) =
     Inr (if field fs ''time'' \<noteq> PUndefined \<and> field fs ''value'' \<noteq> PUndefined then
            (to_string h (field fs ''time''), to_number h (field fs ''value''))
          else if field fs ''category'' \<noteq> PUndefined \<and> field fs ''value'' \<noteq> PUndefined then
            (to_string h (field fs ''category''), to_number h (field fs ''value''))
          else (''Unknown'', num_or (item_to_number h (Obj fs)) (Fin 0)))"

text \<open>The pixel position of the point at \<open>index\<close> among \<open>n\<close> points.\<close>

definition line_xy :: "area \<Rightarrow> nat \<Rightarrow> jsnum \<Rightarrow> jsnum \<Rightarrow> nat \<times> string \<times> jsnum \<Rightarrow> jsnum \<times> jsnum" where
  "line_xy a n minValue rng =
     (\<lambda>(index, label, v).
        (area_x a + (num index / js_max (num n - Fin 1) (Fin 1)) * area_width a,
         area_y a + area_height a - ((v - minValue) / rng) * area_height a))"

text \<open>
  Path data: \<open>M x y\<close> for the first point and \<open> L x y\<close> for every later one
  (\<open>path_ML\<close>), or \<open> L x y\<close> for every point (\<open>path_L\<close>).
\<close>

fun path_L :: "(jsnum \<times> jsnum) list \<Rightarrow> piece list" where
  "path_L [] = []"
| "path_L ((px, py) # ps) = [Lit '' L '', Num px, Lit '' '', Num py] @ path_L ps"

fun path_ML :: "(jsnum \<times> jsnum) list \<Rightarrow> piece list" where
  "path_ML [] = []"
| "path_ML ((px, py) # ps) = [Lit ''M '', Num px, Lit '' '', Num py] @ path_L ps"

definition line_circle :: "jsnum \<times> jsnum \<Rightarrow> elem" where
  "line_circle = (\<lambda>(px, py).
     Elem ''circle''
       [(''cx'', [Num px]), (''cy'', [Num py]), (''r'', [Lit ''4'']), (''fill'', [Lit ''#4285f4'']),
        (''class'', [Lit ''chart-point''])] None)"

text \<open>
  The labels of one point: the axis label on every \<open>ceil(n/8)\<close>-th point, and the value
  label on every point.
\<close>

definition line_axis_label :: "area \<Rightarrow> jsnum \<Rightarrow> string \<Rightarrow> elem" where
  "line_axis_label a px label =
     Elem ''text''
       [(''x'', [Num px]), (''y'', [Num (area_y a + area_height a + Fin 20)]),
        (''text-anchor'', [Lit ''middle'']), (''class'', [Lit ''axis-label''])]
       (Some [Str label])"

definition line_value_label :: "jsnum \<Rightarrow> jsnum \<Rightarrow> jsnum \<Rightarrow> elem" where
  "line_value_label px py v =
     Elem ''text''
       [(''x'', [Num px]), (''y'', [Num (py - Fin 10)]), (''text-anchor'', [Lit ''middle'']),
        (''class'', [Lit ''axis-label'']), (''font-size'', [Lit ''10''])]
       (Some [Num v])"

definition line_labels :: "area \<Rightarrow> nat \<Rightarrow> jsnum \<Rightarrow> jsnum \<Rightarrow> nat \<times> string \<times> jsnum \<Rightarrow> elem list" where
  "line_labels a n minValue rng =
     (\<lambda>(index, label, v).
        let (px, py) = line_xy a n minValue rng (index, label, v)
        in (if js_eq (js_rem index (Math_ceil (num n / Fin 8))) (Fin 0)
            then [line_axis_label a px label] else [])
           @ [line_value_label px py v])"

definition line_chart :: "area \<Rightarrow> options \<Rightarrow> (string \<times> jsnum) list \<Rightarrow> elem list" where
  "line_chart a opts points =
     (let vals = map snd points;
          maxValue = Math_max vals;
          minValue = Math_min vals;
          rng = num_or (maxValue - minValue) (Fin 1);
          n = length points;
          indexed = enumerate 0 points;
          pathData = path_ML (map (line_xy a n minValue rng) indexed);
          pointElements = map (line_circle \<circ> line_xy a n minValue rng) indexed;
          labels = concat (map (line_labels a n minValue rng) indexed)
      in Elem ''path''
           [(''d'', pathData), (''stroke'', [Lit ''#4285f4'']), (''class'', [Lit ''chart-line''])] None
         # pointElements @ labels @ axes a @ axis_titles a opts)"

definition generateLineChart ::
  "js_host \<Rightarrow> jsdata \<Rightarrow> jsnum \<Rightarrow> jsnum \<Rightarrow> options \<Rightarrow> js_error + elem list" where
  "generateLineChart h d w ht opts =
     (if no_data d then Inr (placeholder ''No data available'')
      else case traverse (line_point h) (items_of d) of
             Inl e \<Rightarrow> Inl e
           | Inr points \<Rightarrow> Inr (line_chart (chartArea w ht) opts points))"

section \<open>Pie engine\<close>

text \<open>
  The normalisation of an item to \<open>{label, value}\<close> by \<open>category\<close>; the funnel engine
  repeats the same code.
\<close>

fun category_point :: "js_host \<Rightarrow> item \<Rightarrow> js_error + string \<times> jsnum" where
  "category_point h (Prim PNull) = Inl TypeError"
| "category_point h (Prim p) = Inr (''Unknown'', num_or (to_number h p) (Fin 0))"
| "category_point h (Obj fs) =
     Inr (if field fs ''category'' \<noteq> PUndefined \<and> field fs ''value'' \<noteq> PUndefined then
            (to_string h (field fs ''category''), to_number h (field fs ''value''))
          else (''Unknown'', num_or (item_to_number h (Obj fs)) (Fin 0)))"

definition pie_colors :: "string list" where
  "pie_colors = [''#4285f4'', ''#ea4335'', ''#fbbc04'', ''#34a853'', ''#9aa0a6'', ''#ff6d01'',
                 ''#ab47bc'', ''#26c6da'']"

definition pie_total :: "(string \<times> jsnum) list \<Rightarrow> jsnum" where
  "pie_total slices = foldl (\<lambda>sum slice. sum + snd slice) (Fin 0) slices"

text \<open>
  The sweep of \<open>slices.forEach\<close>: a slice whose value is not above 0 is skipped and
  leaves \<open>currentAngle\<close> as it is; every other slice is given its index, label, value,
  its start angle (the \<open>currentAngle\<close> it meets) and its \<open>sliceAngle\<close>, and moves
  \<open>currentAngle\<close> to its end angle.
\<close>

fun pie_sweep ::
  "jsnum \<Rightarrow> jsnum \<Rightarrow> (nat \<times> string \<times> jsnum) list
     \<Rightarrow> (nat \<times> string \<times> jsnum \<times> jsnum \<times> jsnum) list" where
  "pie_sweep tot currentAngle [] = []"
| "pie_sweep tot currentAngle ((index, label, v) # rest) =
     (if js_le v (Fin 0) then pie_sweep tot currentAngle rest
      else let sliceAngle = (v / tot) * Fin 2 * Fin pi;
               endAngle = currentAngle + sliceAngle
           in (index, label, v, currentAngle, sliceAngle) # pie_sweep tot endAngle rest)"

text \<open>The path of a slice and, if its angle is above 0.2, its percentage label.\<close>

definition pie_slice_elems ::
  "jsnum \<Rightarrow> jsnum \<Rightarrow> jsnum \<Rightarrow> jsnum \<Rightarrow> nat \<times> string \<times> jsnum \<times> jsnum \<times> jsnum \<Rightarrow> elem list" where
  "pie_slice_elems centerX centerY radius tot =
     (\<lambda>(index, label, v, currentAngle, sliceAngle).
        let endAngle = currentAngle + sliceAngle;
            x1 = centerX + radius * Math_cos currentAngle;
            y1 = centerY + radius * Math_sin currentAngle;
            x2 = centerX + radius * Math_cos endAngle;
            y2 = centerY + radius * Math_sin endAngle;
            largeArcFlag = (if js_lt (Fin pi) sliceAngle then Fin 1 else Fin 0);
            color = pie_colors ! (index mod length pie_colors);
            labelAngle = currentAngle + sliceAngle / Fin 2;
            labelRadius = radius * Fin (7 / 10);
            labelX = centerX + labelRadius * Math_cos labelAngle;
            labelY = centerY + labelRadius * Math_sin labelAngle;
            percentage = (v / tot) * Fin 100
        in Elem ''path''
             [(''d'', [Lit ''M '', Num centerX, Lit '' '', Num centerY, Lit '' L '', Num x1,
                       Lit '' '', Num y1, Lit '' A '', Num radius, Lit '' '', Num radius,
                       Lit '' 0 '', Num largeArcFlag, Lit '' 1 '', Num x2, Lit '' '', Num y2,
                       Lit '' Z'']),
              (''fill'', [Lit color]), (''stroke'', [Lit ''#fff'']), (''stroke-width'', [Lit ''2''])]
             None
           # (if js_lt (Fin (2 / 10)) sliceAngle then
                [Elem ''text''
                   [(''x'', [Num labelX]), (''y'', [Num labelY]), (''text-anchor'', [Lit ''middle'']),
                    (''class'', [Lit ''axis-label'']), (''fill'', [Lit ''white'']),
                    (''font-weight'', [Lit ''bold''])]
                   (Some [Fixed 1 percentage, Lit ''%''])]
              else []))"

text \<open>The legend entry of a slice.\<close>

definition pie_legend_elems ::
  "jsnum \<Rightarrow> jsnum \<Rightarrow> jsnum \<Rightarrow> nat \<times> string \<times> jsnum \<times> jsnum \<times> jsnum \<Rightarrow> elem list" where
  "pie_legend_elems centerX centerY radius =
     (\<lambda>(index, label, v, currentAngle, sliceAngle).
        let legendY = centerY - radius + num index * Fin 20;
            color = pie_colors ! (index mod length pie_colors)
        in [Elem ''rect''
              [(''x'', [Num (centerX + radius + Fin 30)]), (''y'', [Num (legendY - Fin 8)]),
               (''width'', [Lit ''12'']), (''height'', [Lit ''12'']), (''fill'', [Lit color])] None,
            Elem ''text''
              [(''x'', [Num (centerX + radius + Fin 48)]), (''y'', [Num (legendY + Fin 3)]),
               (''class'', [Lit ''legend-text''])]
              (Some [Str label, Lit '': '', Num v])])"

definition pie_chart :: "jsnum \<Rightarrow> jsnum \<Rightarrow> (string \<times> jsnum) list \<Rightarrow> elem list" where
  "pie_chart w ht slices =
     (let centerX = w / Fin 2;
          centerY = ht / Fin 2 + Fin 20;
          radius = js_min w ht / Fin 4;
          tot = pie_total slices
      in if js_le tot (Fin 0) then placeholder ''No valid data for pie chart''
         else let swept = pie_sweep tot (- Fin pi / Fin 2) (enumerate 0 slices)
              in concat (map (pie_slice_elems centerX centerY radius tot) swept)
                 @ concat (map (pie_legend_elems centerX centerY radius) swept))"

definition generatePieChart ::
  "js_host \<Rightarrow> jsdata \<Rightarrow> jsnum \<Rightarrow> jsnum \<Rightarrow> options \<Rightarrow> js_error + elem list" where
  "generatePieChart h d w ht opts =
     (if no_data d then Inr (placeholder ''No data available'')
      else case traverse (category_point h) (items_of d) of
             Inl e \<Rightarrow> Inl e
           | Inr slices \<Rightarrow> Inr (pie_chart w ht slices))"

section \<open>Area engine\<close>

definition area_chart :: "area \<Rightarrow> (string \<times> jsnum) list \<Rightarrow> elem list" where
  "area_chart a points =
     (let vals = map snd points;
          maxValue = Math_max vals;
          minValue = Math_min vals;
          rng = num_or (maxValue - minValue) (Fin 1);
          n = length points;
          xys = map (line_xy a n minValue rng) (enumerate 0 points);
          areaPath = [Lit ''M '', Num (area_x a), Lit '' '', Num (area_y a + area_height a)]
                     @ path_L xys
                     @ [Lit '' L '', Num (area_x a + area_width a), Lit '' '',
                        Num (area_y a + area_height a), Lit '' Z''];
          linePath = path_ML xys
      in [Elem ''path''
            [(''d'', areaPath), (''fill'', [Lit ''#4285f4'']), (''class'', [Lit ''chart-area''])] None,
          Elem ''path''
            [(''d'', linePath), (''stroke'', [Lit ''#4285f4'']), (''class'', [Lit ''chart-line''])] None]
         @ axes a)"

definition generateAreaChart ::
  "js_host \<Rightarrow> jsdata \<Rightarrow> jsnum \<Rightarrow> jsnum \<Rightarrow> options \<Rightarrow> js_error + elem list" where
  "generateAreaChart h d w ht opts =
     (if no_data d then Inr (placeholder ''No data available'')
      else case traverse (line_point h) (items_of d) of
             Inl e \<Rightarrow> Inl e
           | Inr points \<Rightarrow> Inr (area_chart (chartArea w ht) points))"

section \<open>Scatter engine\<close>

text \<open>
  The position of one item: scaled from \<open>x\<close> and \<open>y\<close> on a domain of 0 to 100 when the
  item has both, otherwise by index with a random height.
\<close>

fun scatter_xy :: "js_host \<Rightarrow> area \<Rightarrow> nat \<Rightarrow> nat \<times> item \<Rightarrow> js_error + jsnum \<times> jsnum" where
  "scatter_xy h a n (index, Prim PNull) = Inl TypeError"
| "scatter_xy h a n (index, Prim p) =
     Inr (area_x a + (num index / num n) * area_width a,
          area_y a + area_height a - (random h index * area_height a))"
| "scatter_xy h a n (index, Obj fs) =
     Inr (if field fs ''x'' \<noteq> PUndefined \<and> field fs ''y'' \<noteq> PUndefined then
            (area_x a + (to_number h (field fs ''x'') / Fin 100) * area_width a,
             area_y a + area_height a - (to_number h (field fs ''y'') / Fin 100) * area_height a)
          else
            (area_x a + (num index / num n) * area_width a,
             area_y a + area_height a - (random h index * area_height a)))"

definition scatter_circle :: "jsnum \<times> jsnum \<Rightarrow> elem" where
  "scatter_circle = (\<lambda>(px, py).
     Elem ''circle''
       [(''cx'', [Num px]), (''cy'', [Num py]), (''r'', [Lit ''5'']), (''fill'', [Lit ''#4285f4'']),
        (''class'', [Lit ''chart-point''])] None)"

definition generateScatterChart ::
  "js_host \<Rightarrow> jsdata \<Rightarrow> jsnum \<Rightarrow> jsnum \<Rightarrow> options \<Rightarrow> js_error + elem list" where
  "generateScatterChart h d w ht opts =
     (if no_data d then Inr (placeholder ''No data available'')
      else let a = chartArea w ht
           in case traverse (scatter_xy h a (length (items_of d))) (enumerate 0 (items_of d)) of
                Inl e \<Rightarrow> Inl e
              | Inr xys \<Rightarrow> Inr (map scatter_circle xys @ axes a))"

section \<open>Radar engine\<close>

type_synonym radar_grouped = "(string \<times> (string \<times> jsnum) list) list"

fun radar_item ::
  "js_host \<Rightarrow> item \<Rightarrow> string list \<times> radar_grouped \<Rightarrow> js_error + string list \<times> radar_grouped" where
  "radar_item h (Prim PNull) st = Inl TypeError"
| "radar_item h (Prim p) st = Inr st"
| "radar_item h (Obj fs) (dimensions, groupedData) =
     Inr (if truthy (field fs ''name'') \<and> truthy (field fs ''group'')
             \<and> field fs ''value'' \<noteq> PUndefined then
            let name = to_string h (field fs ''name'');
                group = to_string h (field fs ''group'');
                v = to_number h (field fs ''value'')
            in (set_add name dimensions,
                AList.update group
                  (AList.update name v
                     (case map_of groupedData group of Some m \<Rightarrow> m | None \<Rightarrow> []))
                  groupedData)
          else (dimensions, groupedData))"

definition radar_colors :: "string list" where
  "radar_colors = [''#4285f4'', ''#ea4335'', ''#fbbc04'', ''#34a853'']"

definition radar_angle :: "nat \<Rightarrow> nat \<Rightarrow> jsnum" where
  "radar_angle index n = (num index / num n) * Fin 2 * Fin pi - Fin pi / Fin 2"

definition radar_grid :: "jsnum \<Rightarrow> jsnum \<Rightarrow> jsnum \<Rightarrow> elem list" where
  "radar_grid centerX centerY radius =
     map (\<lambda>i. Elem ''circle''
                 [(''cx'', [Num centerX]), (''cy'', [Num centerY]),
                  (''r'', [Num ((radius * num i) / Fin 5)]), (''fill'', [Lit ''none'']),
                  (''stroke'', [Lit ''#ddd'']), (''stroke-width'', [Lit ''1''])] None)
         [1..<6]"

text \<open>The spoke of a dimension and its label.\<close>

definition radar_axis :: "jsnum \<Rightarrow> jsnum \<Rightarrow> jsnum \<Rightarrow> nat \<Rightarrow> nat \<times> string \<Rightarrow> elem list" where
  "radar_axis centerX centerY radius n =
     (\<lambda>(index, dimension).
        let angle = radar_angle index n;
            px = centerX + radius * Math_cos angle;
            py = centerY + radius * Math_sin angle;
            labelX = centerX + (radius + Fin 20) * Math_cos angle;
            labelY = centerY + (radius + Fin 20) * Math_sin angle
        in [Elem ''line''
              [(''x1'', [Num centerX]), (''y1'', [Num centerY]), (''x2'', [Num px]),
               (''y2'', [Num py]), (''stroke'', [Lit ''#ddd'']), (''stroke-width'', [Lit ''1''])] None,
            Elem ''text''
              [(''x'', [Num labelX]), (''y'', [Num labelY]), (''text-anchor'', [Lit ''middle'']),
               (''class'', [Lit ''axis-label''])]
              (Some [Str dimension])])"

text \<open>The vertex of a group's polygon on a dimension; a missing value counts as 0.\<close>

definition radar_vertex ::
  "jsnum \<Rightarrow> jsnum \<Rightarrow> jsnum \<Rightarrow> nat \<Rightarrow> (string \<times> jsnum) list \<Rightarrow> nat \<times> string \<Rightarrow> jsnum \<times> jsnum" where
  "radar_vertex centerX centerY radius n groupData =
     (\<lambda>(index, dimension).
        let v = (case map_of groupData dimension of Some m \<Rightarrow> num_or m (Fin 0) | None \<Rightarrow> Fin 0);
            normalizedValue = v / Fin 100;
            angle = radar_angle index n
        in (centerX + radius * normalizedValue * Math_cos angle,
            centerY + radius * normalizedValue * Math_sin angle))"

text \<open>The polygon of a group and its legend entry.\<close>

definition radar_group ::
  "jsnum \<Rightarrow> jsnum \<Rightarrow> jsnum \<Rightarrow> string list \<Rightarrow> nat \<times> string \<times> (string \<times> jsnum) list \<Rightarrow> elem list" where
  "radar_group centerX centerY radius dimensionArray =
     (\<lambda>(groupIndex, group, groupData).
        let color = radar_colors ! (groupIndex mod length radar_colors);
            pathData = path_ML (map (radar_vertex centerX centerY radius (length dimensionArray)
                                       groupData)
                                  (enumerate 0 dimensionArray))
                       @ [Lit '' Z''];
            legendY = Fin 100 + num groupIndex * Fin 20
        in [Elem ''path''
              [(''d'', pathData), (''fill'', [Lit color]), (''fill-opacity'', [Lit ''0.3'']),
               (''stroke'', [Lit color]), (''stroke-width'', [Lit ''2''])] None,
            Elem ''rect''
              [(''x'', [Lit ''20'']), (''y'', [Num (legendY - Fin 8)]), (''width'', [Lit ''12'']),
               (''height'', [Lit ''12'']), (''fill'', [Lit color])] None,
            Elem ''text''
              [(''x'', [Lit ''38'']), (''y'', [Num (legendY + Fin 3)]),
               (''class'', [Lit ''legend-text''])]
              (Some [Str group])])"

definition radar_chart :: "jsnum \<Rightarrow> jsnum \<Rightarrow> string list \<times> radar_grouped \<Rightarrow> elem list" where
  "radar_chart w ht =
     (\<lambda>(dimensionArray, groupedData).
        let centerX = w / Fin 2;
            centerY = ht / Fin 2;
            radius = js_min w ht / Fin 3
        in if dimensionArray = [] then placeholder ''No valid radar data''
           else radar_grid centerX centerY radius
                @ concat (map (radar_axis centerX centerY radius (length dimensionArray))
                            (enumerate 0 dimensionArray))
                @ concat (map (radar_group centerX centerY radius dimensionArray)
                            (enumerate 0 groupedData)))"

definition generateRadarChart ::
  "js_host \<Rightarrow> jsdata \<Rightarrow> jsnum \<Rightarrow> jsnum \<Rightarrow> options \<Rightarrow> js_error + elem list" where
  "generateRadarChart h d w ht opts =
     (if no_data d then Inr (placeholder ''No data available'')
      else case fold_err (radar_item h) (items_of d) ([], []) of
             Inl e \<Rightarrow> Inl e
           | Inr st \<Rightarrow> Inr (radar_chart w ht st))"

section \<open>Funnel engine\<close>

definition funnel_colors :: "string list" where
  "funnel_colors = [''#4285f4'', ''#5bb974'', ''#fbbc04'', ''#ea4335'', ''#9aa0a6'', ''#ff6d01'']"

text \<open>\<open>maxValue\<close>, \<open>widthRatio\<close> and \<open>stageWidth\<close> of the source.\<close>

definition funnel_maxValue :: "(string \<times> jsnum) list \<Rightarrow> jsnum" where
  "funnel_maxValue stages = Math_max (map snd stages)"

definition widthRatio :: "(string \<times> jsnum) list \<Rightarrow> jsnum \<Rightarrow> jsnum" where
  "widthRatio stages v = v / funnel_maxValue stages"

definition stageWidth :: "area \<Rightarrow> jsnum \<Rightarrow> jsnum" where
  "stageWidth a ratio = area_width a * ratio"

text \<open>The shape of a stage: a rectangle for the last stage, a trapezoid otherwise.\<close>

definition funnel_shape :: "area \<Rightarrow> (string \<times> jsnum) list \<Rightarrow> nat \<times> string \<times> jsnum \<Rightarrow> elem" where
  "funnel_shape a stages =
     (\<lambda>(index, label, v).
        let stageHeight = area_height a / num (length stages);
            sw = stageWidth a (widthRatio stages v);
            px = area_x a + (area_width a - sw) / Fin 2;
            py = area_y a + num index * stageHeight;
            color = funnel_colors ! (index mod length funnel_colors)
        in if index = length stages - 1 then
             Elem ''rect''
               [(''x'', [Num px]), (''y'', [Num py]), (''width'', [Num sw]),
                (''height'', [Num (stageHeight - Fin 10)]), (''fill'', [Lit color]),
                (''stroke'', [Lit ''#fff'']), (''stroke-width'', [Lit ''2''])] None
           else
             let nextWidthRatio =
                   (if index + 1 < length stages then widthRatio stages (snd (stages ! (index + 1)))
                    else widthRatio stages v * Fin (8 / 10));
                 nextStageWidth = area_width a * nextWidthRatio;
                 nextX = area_x a + (area_width a - nextStageWidth) / Fin 2
             in Elem ''polygon''
                  [(''points'',
                      [Num px, Lit '','', Num py, Lit '' '', Num (px + sw), Lit '','', Num py,
                       Lit '' '', Num (nextX + nextStageWidth), Lit '','',
                       Num (py + stageHeight - Fin 10), Lit '' '', Num nextX, Lit '','',
                       Num (py + stageHeight - Fin 10)]),
                   (''fill'', [Lit color]), (''stroke'', [Lit ''#fff'']),
                   (''stroke-width'', [Lit ''2''])] None)"

text \<open>The conversion-rate text of the stage at \<open>index > 0\<close>.\<close>

definition conversionRate :: "(string \<times> jsnum) list \<Rightarrow> nat \<Rightarrow> jsnum" where
  "conversionRate stages index =
     (snd (stages ! index) / snd (stages ! (index - 1))) * Fin 100"

definition funnel_conversion :: "area \<Rightarrow> (string \<times> jsnum) list \<Rightarrow> nat \<Rightarrow> elem" where
  "funnel_conversion a stages index =
     (let stageHeight = area_height a / num (length stages);
          py = area_y a + num index * stageHeight;
          labelY = py + stageHeight / Fin 2
      in Elem ''text''
           [(''x'', [Num (area_x a + area_width a + Fin 10)]), (''y'', [Num labelY]),
            (''class'', [Lit ''axis-label''])]
           (Some [Fixed 1 (conversionRate stages index), Lit ''%'']))"

text \<open>Everything drawn for one stage: shape, label, value and conversion rate.\<close>

definition funnel_stage :: "area \<Rightarrow> (string \<times> jsnum) list \<Rightarrow> nat \<times> string \<times> jsnum \<Rightarrow> elem list" where
  "funnel_stage a stages =
     (\<lambda>(index, label, v).
        let stageHeight = area_height a / num (length stages);
            py = area_y a + num index * stageHeight;
            labelX = area_x a + area_width a / Fin 2;
            labelY = py + stageHeight / Fin 2
        in [funnel_shape a stages (index, label, v),
            Elem ''text''
              [(''x'', [Num labelX]), (''y'', [Num (labelY - Fin 5)]),
               (''text-anchor'', [Lit ''middle'']), (''class'', [Lit ''axis-label'']),
               (''fill'', [Lit ''white'']), (''font-weight'', [Lit ''bold''])]
              (Some [Str label]),
            Elem ''text''
              [(''x'', [Num labelX]), (''y'', [Num (labelY + Fin 10)]),
               (''text-anchor'', [Lit ''middle'']), (''class'', [Lit ''axis-label'']),
               (''fill'', [Lit ''white''])]
              (Some [Locale v])]
           @ (if 0 < index then [funnel_conversion a stages index] else []))"

definition funnel_chart :: "area \<Rightarrow> (string \<times> jsnum) list \<Rightarrow> elem list" where
  "funnel_chart a stages = concat (map (funnel_stage a stages) (enumerate 0 stages))"

definition generateFunnelChart ::
  "js_host \<Rightarrow> jsdata \<Rightarrow> jsnum \<Rightarrow> jsnum \<Rightarrow> options \<Rightarrow> js_error + elem list" where
  "generateFunnelChart h d w ht opts =
     (if no_data d then Inr (placeholder ''No data available'')
      else case traverse (category_point h) (items_of d) of
             Inl e \<Rightarrow> Inl e
           | Inr stages \<Rightarrow> Inr (funnel_chart (funnelArea w ht) stages))"

section \<open>Dual-axes engine\<close>

text \<open>\<open>a || b || c\<close> on primitive values.\<close>

definition prim_or :: "prim \<Rightarrow> prim \<Rightarrow> prim" where
  "prim_or a b = (if truthy a then a else b)"

text \<open>A row of the legacy format: category, bar value and line value.\<close>

fun dual_row :: "js_host \<Rightarrow> item \<Rightarrow> js_error + string \<times> jsnum \<times> jsnum" where
  "dual_row h (Prim PNull) = Inl TypeError"
| "dual_row h (Prim p) = Inr (''Unknown'', Fin 0, Fin 0)"
| "dual_row h (Obj fs) =
     Inr (to_string h (prim_or (field fs ''category'') (prim_or (field fs ''time'') (PStr ''Unknown''))),
          to_number h (prim_or (field fs ''bar'') (prim_or (field fs ''value'') (PNum (Fin 0)))),
          to_number h (prim_or (field fs ''line'') (prim_or (field fs ''value2'') (PNum (Fin 0)))))"

text \<open>
  \<open>barData\<close>, \<open>lineData\<close> and \<open>categories\<close>: from the series of the options when
  \<open>options.series\<close> and \<open>options.categories\<close> are both given, otherwise from the rows
  of a non-empty data array, otherwise empty.
\<close>

definition dual_input ::
  "js_host \<Rightarrow> jsdata \<Rightarrow> options \<Rightarrow> js_error + jsnum list \<times> jsnum list \<times> string list" where
  "dual_input h d opts =
     (case (series opts, categories opts) of
        (Some ss, Some cs) \<Rightarrow>
          Inr (case find (\<lambda>s. series_type s = ''column'') ss of
                 Some columnSeries \<Rightarrow> series_data columnSeries | None \<Rightarrow> [],
               case find (\<lambda>s. series_type s = ''line'') ss of
                 Some lineSeries \<Rightarrow> series_data lineSeries | None \<Rightarrow> [],
               cs)
      | _ \<Rightarrow>
          if \<not> no_data d then
            (case traverse (dual_row h) (items_of d) of
               Inl e \<Rightarrow> Inl e
             | Inr processedData \<Rightarrow>
                 Inr (map (\<lambda>(c, b, l). b) processedData, map (\<lambda>(c, b, l). l) processedData,
                      map (\<lambda>(c, b, l). c) processedData))
          else Inr ([], [], []))"

definition maxBarValue :: "jsnum list \<Rightarrow> jsnum" where
  "maxBarValue barData = Math_max (barData @ [Fin 1])"

definition maxLineValue :: "jsnum list \<Rightarrow> jsnum" where
  "maxLineValue lineData = Math_max (lineData @ [Fin 1])"

definition dual_x :: "area \<Rightarrow> nat \<Rightarrow> nat \<Rightarrow> jsnum" where
  "dual_x a dataLength i = area_x a + (Fin (real i + 1 / 2)) * (area_width a / num dataLength)"

text \<open>The bar (if the value is above 0) and the category label at position \<open>i\<close>.\<close>

definition dual_bar :: "area \<Rightarrow> jsnum list \<Rightarrow> string list \<Rightarrow> nat \<Rightarrow> nat \<Rightarrow> elem list" where
  "dual_bar a barData cats dataLength i =
     (let px = dual_x a dataLength i;
          barWidth = area_width a / (num dataLength * Fin (15 / 10))
      in (if i < length barData \<and> js_lt (Fin 0) (barData ! i) then
            let barHeight = (barData ! i / maxBarValue barData) * area_height a;
                py = area_y a + area_height a - barHeight
            in Elem ''rect''
                 [(''x'', [Num (px - barWidth / Fin 2)]), (''y'', [Num py]),
                  (''width'', [Num barWidth]), (''height'', [Num barHeight]),
                  (''fill'', [Lit ''#4285f4'']), (''stroke'', [Lit ''#fff'']),
                  (''stroke-width'', [Lit ''1''])] None
               # (if js_lt (Fin 20) barHeight then
                    [Elem ''text''
                       [(''x'', [Num px]), (''y'', [Num (py - Fin 5)]),
                        (''text-anchor'', [Lit ''middle'']), (''class'', [Lit ''axis-label'']),
                        (''font-size'', [Lit ''10''])]
                       (Some [Num (barData ! i)])]
                  else [])
          else [])
         @ (if i < length cats then
              [Elem ''text''
                 [(''x'', [Num px]), (''y'', [Num (area_y a + area_height a + Fin 20)]),
                  (''text-anchor'', [Lit ''middle'']), (''class'', [Lit ''axis-label''])]
                 (Some [Str (cats ! i)])]
            else []))"

definition dual_line_xy :: "area \<Rightarrow> jsnum list \<Rightarrow> nat \<Rightarrow> nat \<Rightarrow> jsnum \<times> jsnum" where
  "dual_line_xy a lineData dataLength i =
     (dual_x a dataLength i,
      area_y a + area_height a - (lineData ! i / maxLineValue lineData) * area_height a)"

text \<open>The marker and the value label of the line point at position \<open>i\<close>.\<close>

definition dual_point :: "area \<Rightarrow> jsnum list \<Rightarrow> nat \<Rightarrow> nat \<Rightarrow> elem list" where
  "dual_point a lineData dataLength i =
     (let (px, py) = dual_line_xy a lineData dataLength i
      in [Elem ''circle''
            [(''cx'', [Num px]), (''cy'', [Num py]), (''r'', [Lit ''4'']), (''fill'', [Lit ''#ea4335'']),
             (''stroke'', [Lit ''#fff'']), (''stroke-width'', [Lit ''2''])] None,
          Elem ''text''
            [(''x'', [Num px]), (''y'', [Num (py - Fin 10)]), (''text-anchor'', [Lit ''middle'']),
             (''class'', [Lit ''axis-label'']), (''font-size'', [Lit ''10''])]
            (Some [Num (lineData ! i)])])"

definition dual_axes_lines :: "area \<Rightarrow> elem list" where
  "dual_axes_lines a =
     [Elem ''line''
        [(''x1'', [Num (area_x a)]), (''y1'', [Num (area_y a)]), (''x2'', [Num (area_x a)]),
         (''y2'', [Num (area_y a + area_height a)]), (''class'', [Lit ''axis''])] None,
      Elem ''line''
        [(''x1'', [Num (area_x a + area_width a)]), (''y1'', [Num (area_y a)]),
         (''x2'', [Num (area_x a + area_width a)]), (''y2'', [Num (area_y a + area_height a)]),
         (''class'', [Lit ''axis''])] None,
      Elem ''line''
        [(''x1'', [Num (area_x a)]), (''y1'', [Num (area_y a + area_height a)]),
         (''x2'', [Num (area_x a + area_width a)]), (''y2'', [Num (area_y a + area_height a)]),
         (''class'', [Lit ''axis''])] None]"

text \<open>
  The label and (above the baseline) the tick mark of the left axis at step \<open>i\<close>, for the
  bars: the value is \<open>(maxBarValue / 5) * i\<close>, rounded to an integer.
\<close>

definition left_tick :: "area \<Rightarrow> jsnum \<Rightarrow> nat \<Rightarrow> elem list" where
  "left_tick a maxBar i =
     (let v = (maxBar / Fin 5) * num i;
          py = area_y a + area_height a - (num i / Fin 5) * area_height a
      in Elem ''text''
           [(''x'', [Num (area_x a - Fin 10)]), (''y'', [Num (py + Fin 4)]),
            (''text-anchor'', [Lit ''end'']), (''class'', [Lit ''axis-label''])]
           (Some [Num (Math_round v)])
         # (if 0 < i then
              [Elem ''line''
                 [(''x1'', [Num (area_x a - Fin 5)]), (''y1'', [Num py]), (''x2'', [Num (area_x a)]),
                  (''y2'', [Num py]), (''stroke'', [Lit ''#ddd'']), (''stroke-width'', [Lit ''1''])]
                 None]
            else []))"

text \<open>The same for the right axis, for the line: the value is shown with two decimals.\<close>

definition right_tick :: "area \<Rightarrow> jsnum \<Rightarrow> nat \<Rightarrow> elem list" where
  "right_tick a maxLine i =
     (let v = (maxLine / Fin 5) * num i;
          py = area_y a + area_height a - (num i / Fin 5) * area_height a
      in Elem ''text''
           [(''x'', [Num (area_x a + area_width a + Fin 10)]), (''y'', [Num (py + Fin 4)]),
            (''text-anchor'', [Lit ''start'']), (''class'', [Lit ''axis-label''])]
           (Some [Fixed 2 v])
         # (if 0 < i then
              [Elem ''line''
                 [(''x1'', [Num (area_x a + area_width a)]), (''y1'', [Num py]),
                  (''x2'', [Num (area_x a + area_width a + Fin 5)]), (''y2'', [Num py]),
                  (''stroke'', [Lit ''#ddd'']), (''stroke-width'', [Lit ''1''])]
                 None]
            else []))"

text \<open>The titles of the two value axes (from the first and the second series) and of the x axis.\<close>

definition dual_titles :: "area \<Rightarrow> options \<Rightarrow> elem list" where
  "dual_titles a opts =
     (case series opts of
        Some (s0 # rest) \<Rightarrow>
          (if truthy_str_field (series_axisYTitle s0) then
             [Elem ''text''
                [(''x'', [Num (area_x a - Fin 50)]), (''y'', [Num (area_y a + area_height a / Fin 2)]),
                 (''text-anchor'', [Lit ''middle'']), (''class'', [Lit ''axis-title'']),
                 (''transform'',
                    [Lit ''rotate(-90, '', Num (area_x a - Fin 50), Lit '', '',
                     Num (area_y a + area_height a / Fin 2), Lit '')''])]
                (Some [Str (the (series_axisYTitle s0))])]
           else [])
          @ (case rest of
               s1 # rest' \<Rightarrow>
                 (if truthy_str_field (series_axisYTitle s1) then
                    [Elem ''text''
                       [(''x'', [Num (area_x a + area_width a + Fin 60)]),
                        (''y'', [Num (area_y a + area_height a / Fin 2)]),
                        (''text-anchor'', [Lit ''middle'']), (''class'', [Lit ''axis-title'']),
                        (''transform'',
                           [Lit ''rotate(90, '', Num (area_x a + area_width a + Fin 60), Lit '', '',
                            Num (area_y a + area_height a / Fin 2), Lit '')''])]
                       (Some [Str (the (series_axisYTitle s1))])]
                  else [])
             | [] \<Rightarrow> [])
      | _ \<Rightarrow> [])
     @ (if truthy_str_field (axisXTitle opts) then [axisXTitle_elem a (the (axisXTitle opts))] else [])"

definition dual_legend :: "area \<Rightarrow> elem list" where
  "dual_legend a =
     [Elem ''rect''
        [(''x'', [Num (area_x a)]), (''y'', [Num (area_y a - Fin 40)]), (''width'', [Lit ''12'']),
         (''height'', [Lit ''12'']), (''fill'', [Lit ''#4285f4''])] None,
      Elem ''text''
        [(''x'', [Num (area_x a + Fin 18)]), (''y'', [Num (area_y a - Fin 31)]),
         (''class'', [Lit ''legend-text''])] (Some [Lit ''Bars'']),
      Elem ''line''
        [(''x1'', [Num (area_x a + Fin 80)]), (''y1'', [Num (area_y a - Fin 34)]),
         (''x2'', [Num (area_x a + Fin 92)]), (''y2'', [Num (area_y a - Fin 34)]),
         (''stroke'', [Lit ''#ea4335'']), (''stroke-width'', [Lit ''2''])] None,
      Elem ''circle''
        [(''cx'', [Num (area_x a + Fin 86)]), (''cy'', [Num (area_y a - Fin 34)]), (''r'', [Lit ''3'']),
         (''fill'', [Lit ''#ea4335''])] None,
      Elem ''text''
        [(''x'', [Num (area_x a + Fin 98)]), (''y'', [Num (area_y a - Fin 31)]),
         (''class'', [Lit ''legend-text''])] (Some [Lit ''Line''])]"

definition dual_chart :: "area \<Rightarrow> options \<Rightarrow> jsnum list \<times> jsnum list \<times> string list \<Rightarrow> elem list" where
  "dual_chart a opts =
     (\<lambda>(barData, lineData, cats).
        if barData = [] \<and> lineData = [] then placeholder ''No data available''
        else
          let dataLength = max (max (length barData) (length lineData)) (length cats)
          in concat (map (dual_bar a barData cats dataLength) [0..<dataLength])
             @ concat (map (dual_point a lineData dataLength)
                         [0..<min (length lineData) dataLength])
             @ [Elem ''path''
                  [(''d'', path_ML (map (dual_line_xy a lineData dataLength)
                                     [0..<min (length lineData) dataLength])),
                   (''stroke'', [Lit ''#ea4335'']), (''fill'', [Lit ''none'']),
                   (''stroke-width'', [Lit ''2''])] None]
             @ dual_axes_lines a
             @ concat (map (left_tick a (maxBarValue barData)) [0..<6])
             @ concat (map (right_tick a (maxLineValue lineData)) [0..<6])
             @ dual_titles a opts
             @ dual_legend a)"

definition generateDualAxesChart ::
  "js_host \<Rightarrow> jsdata \<Rightarrow> jsnum \<Rightarrow> jsnum \<Rightarrow> options \<Rightarrow> js_error + elem list" where
  "generateDualAxesChart h d w ht opts =
     (case dual_input h d opts of
        Inl e \<Rightarrow> Inl e
      | Inr input \<Rightarrow> Inr (dual_chart (chartArea w ht) opts input))"

section \<open>Histogram engine\<close>

text \<open>
  The value of an item for binning: \<open>Number(item.value)\<close> for an object that has a
  \<open>value\<close>, otherwise \<open>Number(item) || 0\<close>.
\<close>

fun histogram_value :: "js_host \<Rightarrow> item \<Rightarrow> js_error + jsnum" where
  "histogram_value h (Prim PNull) = Inl TypeError"
| "histogram_value h (Prim p) = Inr (num_or (to_number h p) (Fin 0))"
| "histogram_value h (Obj fs) =
     Inr (if field fs ''value'' \<noteq> PUndefined then to_number h (field fs ''value'')
          else num_or (item_to_number h (Obj fs)) (Fin 0))"

text \<open>
  \<open>Array(bins)\<close> throws a RangeError unless \<open>bins\<close> is an integer from 0 to
  \<open>2^32 - 1\<close>.
\<close>

fun array_length :: "jsnum \<Rightarrow> js_error + nat" where
  "array_length (Fin r) =
     (if r = of_int \<lfloor>r\<rfloor> \<and> 0 \<le> r \<and> r < 2 ^ 32 then Inr (nat \<lfloor>r\<rfloor>) else Inl RangeError)"
| "array_length _ = Inl RangeError"

definition binWidth :: "jsnum \<Rightarrow> jsnum list \<Rightarrow> jsnum" where
  "binWidth nbins vals = (Math_max vals - Math_min vals) / nbins"

definition binIndex :: "jsnum \<Rightarrow> jsnum list \<Rightarrow> jsnum \<Rightarrow> jsnum" where
  "binIndex nbins vals v =
     js_min (Math_floor ((v - Math_min vals) / binWidth nbins vals)) (nbins - Fin 1)"

text \<open>
  \<open>histogram[binIndex]++\<close>: the counter at an index inside the array is incremented. An
  index that is NaN, negative or not an integer names a property that is no element of
  the array, so the elements stay as they are. (\<open>binIndex\<close> is NaN or at most
  \<open>bins - 1\<close>, so the array is never extended.)
\<close>

fun increment :: "jsnum \<Rightarrow> nat list \<Rightarrow> nat list" where
  "increment (Fin r) hist =
     (if r = of_int \<lfloor>r\<rfloor> \<and> 0 \<le> r \<and> nat \<lfloor>r\<rfloor> < length hist
      then hist[nat \<lfloor>r\<rfloor> := Suc (hist ! nat \<lfloor>r\<rfloor>)] else hist)"
| "increment _ hist = hist"

definition histogram :: "jsnum \<Rightarrow> nat \<Rightarrow> jsnum list \<Rightarrow> nat list" where
  "histogram nbins n vals = fold (\<lambda>v hist. increment (binIndex nbins vals v) hist) vals (replicate n 0)"

text \<open>The bar of a bin, its bin-start label on every \<open>ceil(bins/6)\<close>-th bin and its frequency label.\<close>

definition histogram_bar ::
  "area \<Rightarrow> jsnum \<Rightarrow> jsnum list \<Rightarrow> jsnum \<Rightarrow> nat \<times> nat \<Rightarrow> elem list" where
  "histogram_bar a nbins vals maxFrequency =
     (\<lambda>(index, frequency).
        let barWidth = area_width a / nbins;
            px = area_x a + num index * barWidth;
            barHeight = (num frequency / js_max maxFrequency (Fin 1)) * area_height a;
            py = area_y a + area_height a - barHeight;
            binStart = Math_min vals + num index * binWidth nbins vals
        in Elem ''rect''
             [(''x'', [Num px]), (''y'', [Num py]), (''width'', [Num (barWidth - Fin 2)]),
              (''height'', [Num barHeight]), (''fill'', [Lit ''#4285f4'']),
              (''stroke'', [Lit ''#fff'']), (''stroke-width'', [Lit ''1''])] None
           # (if js_eq (js_rem index (Math_ceil (nbins / Fin 6))) (Fin 0) then
                [Elem ''text''
                   [(''x'', [Num (px + barWidth / Fin 2)]),
                    (''y'', [Num (area_y a + area_height a + Fin 20)]),
                    (''text-anchor'', [Lit ''middle'']), (''class'', [Lit ''axis-label''])]
                   (Some [Fixed 1 binStart])]
              else [])
           @ (if js_lt (Fin 15) barHeight then
                [Elem ''text''
                   [(''x'', [Num (px + barWidth / Fin 2)]), (''y'', [Num (py - Fin 5)]),
                    (''text-anchor'', [Lit ''middle'']), (''class'', [Lit ''axis-label''])]
                   (Some [Num (num frequency)])]
              else []))"

definition histogram_chart :: "area \<Rightarrow> jsnum \<Rightarrow> nat \<Rightarrow> jsnum list \<Rightarrow> elem list" where
  "histogram_chart a nbins n vals =
     (let hist = histogram nbins n vals;
          maxFrequency = Math_max (map num hist)
      in concat (map (histogram_bar a nbins vals maxFrequency) (enumerate 0 hist))
         @ axes a
         @ [axisXTitle_elem a ''Value Range'', axisYTitle_elem a ''Frequency''])"

definition generateHistogramChart ::
  "js_host \<Rightarrow> jsdata \<Rightarrow> jsnum \<Rightarrow> jsnum \<Rightarrow> options \<Rightarrow> js_error + elem list" where
  "generateHistogramChart h d w ht opts =
     (if no_data d then Inr (placeholder ''No data available'')
      else case traverse (histogram_value h) (items_of d) of
             Inl e \<Rightarrow> Inl e
           | Inr raw \<Rightarrow>
               let vals = filter (\<lambda>v. \<not> isNaN v) raw
               in if vals = [] then Inr (placeholder ''No valid numeric data'')
                  else let nbins = num_field_or (bins opts) (Fin 10)
                       in case array_length nbins of
                            Inl e \<Rightarrow> Inl e
                          | Inr n \<Rightarrow> Inr (histogram_chart (chartArea w ht) nbins n vals))"

section \<open>Dispatcher and document assembler\<close>

text \<open>
  \<open>toLowerCase\<close> and \<open>toUpperCase\<close> on the letters A to Z and a to z; every other
  character is left as it is (strings are sequences of 8-bit characters here).
\<close>

definition toLowerCase_char :: "char \<Rightarrow> char" where
  "toLowerCase_char c =
     (case map_of (zip ''ABCDEFGHIJKLMNOPQRSTUVWXYZ'' ''abcdefghijklmnopqrstuvwxyz'') c of
        Some l \<Rightarrow> l | None \<Rightarrow> c)"

definition toUpperCase_char :: "char \<Rightarrow> char" where
  "toUpperCase_char c =
     (case map_of (zip ''abcdefghijklmnopqrstuvwxyz'' ''ABCDEFGHIJKLMNOPQRSTUVWXYZ'') c of
        Some u \<Rightarrow> u | None \<Rightarrow> c)"

definition toLowerCase :: "string \<Rightarrow> string" where
  "toLowerCase s = map toLowerCase_char s"

text \<open>\<open>type.charAt(0).toUpperCase() + type.slice(1)\<close>, followed by \<open>' Chart'\<close>.\<close>

fun default_title :: "string \<Rightarrow> string" where
  "default_title [] = '' Chart''"
| "default_title (c # cs) = toUpperCase_char c # cs @ '' Chart''"

text \<open>\<open>options.data || []\<close>.\<close>

fun truthy_item :: "item \<Rightarrow> bool" where
  "truthy_item (Prim p) = truthy p"
| "truthy_item (Obj fs) = True"

fun data_or_empty :: "jsdata option \<Rightarrow> jsdata" where
  "data_or_empty None = DataArray []"
| "data_or_empty (Some (DataArray xs)) = DataArray xs"
| "data_or_empty (Some (NotArray v)) = (if truthy_item v then NotArray v else DataArray [])"

text \<open>The \<open>switch\<close> on the lower-cased type; an unknown type draws a column chart.\<close>

definition chartElements ::
  "js_host \<Rightarrow> string \<Rightarrow> jsdata \<Rightarrow> jsnum \<Rightarrow> jsnum \<Rightarrow> options \<Rightarrow> js_error + elem list" where
  "chartElements h type d w ht opts =
     (let t = toLowerCase type
      in if t = ''bar'' \<or> t = ''column'' then generateColumnChart h d w ht opts
         else if t = ''line'' then generateLineChart h d w ht opts
         else if t = ''pie'' then generatePieChart h d w ht opts
         else if t = ''area'' then generateAreaChart h d w ht opts
         else if t = ''scatter'' then generateScatterChart h d w ht opts
         else if t = ''radar'' then generateRadarChart h d w ht opts
         else if t = ''funnel'' then generateFunnelChart h d w ht opts
         else if t = ''dual-axes'' then generateDualAxesChart h d w ht opts
         else if t = ''histogram'' then generateHistogramChart h d w ht opts
         else generateColumnChart h d w ht opts)"

text \<open>The pieces of the document template.\<close>

definition xml_declaration :: string where
  \<open>xml_declaration = ''<?xml version="1.0" encoding="UTF-8"?>''\<close>

definition svg_open :: "js_host \<Rightarrow> jsnum \<Rightarrow> jsnum \<Rightarrow> string" where
  \<open>svg_open h w ht =
     ''<svg width="'' @ num_to_string h w @ ''" height="'' @ num_to_string h ht
     @ ''" xmlns="http://www.w3.org/2000/svg">''\<close>

definition style_block :: string where
  "style_block =
     ''  <style>'' @ newline
     @ ''    .chart-title { font-family: Arial, sans-serif; font-size: 20px; font-weight: bold; text-anchor: middle; fill: #333; }'' @ newline
     @ ''    .axis-label { font-family: Arial, sans-serif; font-size: 12px; fill: #666; }'' @ newline
     @ ''    .axis-title { font-family: Arial, sans-serif; font-size: 14px; font-weight: bold; fill: #333; }'' @ newline
     @ ''    .chart-bar { stroke: #fff; stroke-width: 1; }'' @ newline
     @ ''    .chart-line { fill: none; stroke-width: 2; }'' @ newline
     @ ''    .chart-point { stroke-width: 2; }'' @ newline
     @ ''    .chart-area { fill-opacity: 0.3; }'' @ newline
     @ ''    .axis { stroke: #333; stroke-width: 1; }'' @ newline
     @ ''    .legend-text { font-family: Arial, sans-serif; font-size: 12px; fill: #333; }'' @ newline
     @ ''  </style>''"

definition title_elem :: "jsnum \<Rightarrow> string \<Rightarrow> elem" where
  "title_elem w t =
     Elem ''text''
       [(''x'', [Num (w / Fin 2)]), (''y'', [Lit ''30'']), (''class'', [Lit ''chart-title''])]
       (Some [Str t])"

definition footer_text :: string where
  "footer_text = ''Generated locally - No remote uploads''"

definition footer_elem :: "jsnum \<Rightarrow> elem" where
  "footer_elem ht =
     Elem ''text''
       [(''x'', [Lit ''10'']), (''y'', [Num (ht - Fin 10)]), (''class'', [Lit ''axis-label'']),
        (''fill'', [Lit ''#888''])]
       (Some [Lit footer_text])"

definition document :: "js_host \<Rightarrow> jsnum \<Rightarrow> jsnum \<Rightarrow> string \<Rightarrow> string \<Rightarrow> string" where
  "document h w ht t content =
     xml_declaration @ newline
     @ svg_open h w ht @ newline
     @ style_block @ newline
     @ ''  '' @ newline
     @ ''  <!-- Chart Title -->'' @ newline
     @ ''  '' @ render_elem h (title_elem w t) @ newline
     @ ''  '' @ newline
     @ ''  <!-- Chart Content -->'' @ newline
     @ ''  '' @ content @ newline
     @ ''  '' @ newline
     @ ''  <!-- Generated locally notice -->'' @ newline
     @ ''  '' @ render_elem h (footer_elem ht) @ newline
     @ ''</svg>''"

text \<open>
  \<open>generateSvgContent(type, options)\<close>: the document, or the exception that an engine
  throws. (The \<open>console.log\<close> calls are left out.)
\<close>

definition generateSvgContent :: "js_host \<Rightarrow> string \<Rightarrow> options \<Rightarrow> js_error + string" where
  "generateSvgContent h type opts =
     (let w = num_field_or (width opts) (Fin 800);
          ht = num_field_or (height opts) (Fin 600);
          t = str_field_or (title opts) (default_title type);
          d = data_or_empty (data opts)
      in case chartElements h type d w ht opts of
           Inl e \<Rightarrow> Inl e
         | Inr es \<Rightarrow> Inr (document h w ht t (render h es)))"

section \<open>A sample host\<close>

text \<open>
  A host to run the model on examples. An integer prints in decimal, as JavaScript
  prints it (below \<open>10^21\<close>); \<open>toFixed\<close> rounds to the nearest decimal of the given
  length, a half away from zero. Any other finite number prints as its \<open>toFixed(6)\<close>
  and \<open>toLocaleString\<close> prints as \<open>String\<close> does; a string of decimal digits reads
  as its number, the empty string as 0 and any other string as NaN; \<open>Math.random()\<close>
  is always one half.
\<close>

fun digits :: "nat \<Rightarrow> string" where
  "digits n = (if n < 10 then [''0123456789'' ! n] else digits (n div 10) @ [''0123456789'' ! (n mod 10)])"

declare digits.simps [simp del]

definition pad_left :: "nat \<Rightarrow> string \<Rightarrow> string" where
  "pad_left d s = replicate (d - length s) (CHR ''0'') @ s"

definition fixed_real :: "nat \<Rightarrow> real \<Rightarrow> string" where
  "fixed_real d r =
     (let n = nat \<lfloor>\<bar>r\<bar> * 10 ^ d + 1 / 2\<rfloor>
      in (if r < 0 then ''-'' else [])
         @ digits (n div 10 ^ d)
         @ (if d = 0 then [] else ''.'' @ pad_left d (digits (n mod 10 ^ d))))"

fun sample_num_to_string :: "jsnum \<Rightarrow> string" where
  "sample_num_to_string (Fin r) =
     (if r = of_int \<lfloor>r\<rfloor> then (if r < 0 then ''-'' else []) @ digits (nat \<lfloor>\<bar>r\<bar>\<rfloor>)
      else fixed_real 6 r)"
| "sample_num_to_string NaN = ''NaN''"
| "sample_num_to_string PInf = ''Infinity''"
| "sample_num_to_string NInf = ''-Infinity''"

fun sample_to_fixed :: "nat \<Rightarrow> jsnum \<Rightarrow> string" where
  "sample_to_fixed d (Fin r) = fixed_real d r"
| "sample_to_fixed d v = sample_num_to_string v"

fun digit_value :: "char \<Rightarrow> nat option" where
  "digit_value c = map_of (zip ''0123456789'' [0, 1, 2, 3, 4, 5, 6, 7, 8, 9]) c"

fun sample_string_to_num_from :: "nat \<Rightarrow> string \<Rightarrow> jsnum" where
  "sample_string_to_num_from acc [] = Fin (real acc)"
| "sample_string_to_num_from acc (c # cs) =
     (case digit_value c of
        None \<Rightarrow> NaN
      | Some v \<Rightarrow> sample_string_to_num_from (10 * acc + v) cs)"

definition sample_host :: js_host where
  "sample_host =
     \<lparr>num_to_string = sample_num_to_string,
      string_to_num = sample_string_to_num_from 0,
      to_fixed = sample_to_fixed,
      to_locale_string = sample_num_to_string,
      random = (\<lambda>i. Fin (1 / 2))\<rparr>"

section \<open>Notions used to state the properties\<close>

text \<open>The options object with no field, \<open>{}\<close>.\<close>

definition empty_options :: options where
  "empty_options =
     \<lparr>width = None, height = None, title = None, axisXTitle = None, axisYTitle = None,
      bins = None, series = None, categories = None, data = None\<rparr>"

text \<open>
  The bars of the column engine are its rects of class \<open>chart-bar\<close> (the rects of the
  legend have no class).
\<close>

definition is_bar :: "elem \<Rightarrow> bool" where
  "is_bar e = (tag e = ''rect'' \<and> attr ''class'' e = Some [Lit ''chart-bar''])"

text \<open>
  The cells that the items of a column chart contribute, and the sets of the categories
  and of the groups that occur in them.
\<close>

definition column_cells :: "js_host \<Rightarrow> item list \<Rightarrow> (string \<times> prim \<times> jsnum) list" where
  "column_cells h items = List.map_filter (column_cell h) items"

definition column_categories :: "js_host \<Rightarrow> item list \<Rightarrow> string set" where
  "column_categories h items = fst ` set (column_cells h items)"

definition column_groups :: "js_host \<Rightarrow> item list \<Rightarrow> prim set" where
  "column_groups h items = (fst \<circ> snd) ` set (column_cells h items)"

text \<open>
  An example input of the column engine: two items, of the categories Q1 and Q2 and of
  the groups A and B.
\<close>

definition two_cells_example :: "item list" where
  "two_cells_example =
     [Obj [(''category'', PStr ''Q1''), (''group'', PStr ''A''), (''value'', PNum (Fin 10))],
      Obj [(''category'', PStr ''Q2''), (''group'', PStr ''B''), (''value'', PNum (Fin 20))]]"

text \<open>
  Notions for the line engine: the markers are its circles, the value labels its texts
  with \<open>font-size="10"\<close>, and an item carries a label and a value when it is an
  object that has \<open>time\<close> or \<open>category\<close>, and \<open>value\<close>.
\<close>

definition is_circle :: "elem \<Rightarrow> bool" where
  "is_circle e = (tag e = ''circle'')"

definition is_value_label :: "elem \<Rightarrow> bool" where
  "is_value_label e = (tag e = ''text'' \<and> attr ''font-size'' e = Some [Lit ''10''])"

definition is_path :: "elem \<Rightarrow> bool" where
  "is_path e = (tag e = ''path'')"

fun carries_label_and_value :: "item \<Rightarrow> bool" where
  "carries_label_and_value (Obj fs) =
     ((field fs ''time'' \<noteq> PUndefined \<or> field fs ''category'' \<noteq> PUndefined)
      \<and> field fs ''value'' \<noteq> PUndefined)"
| "carries_label_and_value (Prim p) = False"

text \<open>
  An example input of the line engine: a labelled point, a bare number and an object
  without label and value.
\<close>

definition line_example :: "item list" where
  "line_example =
     [Obj [(''time'', PStr ''Jan''), (''value'', PNum (Fin 22))], Prim (PNum (Fin 7)),
      Obj [(''note'', PStr ''n'')]]"

text \<open>
  Notions for the dual-axes engine. The labels of the left axis are the texts anchored
  at their end, those of the right axis the texts anchored at their start (every other
  text of the engine is anchored in the middle or not at all). \<open>left_tick_label\<close> and
  \<open>right_tick_label\<close> are the labels at step \<open>i\<close>, as functions of the chart area and
  of the one series that the axis belongs to.
\<close>

definition left_tick_labels :: "elem list \<Rightarrow> elem list" where
  "left_tick_labels es =
     filter (\<lambda>e. tag e = ''text'' \<and> attr ''text-anchor'' e = Some [Lit ''end'']) es"

definition right_tick_labels :: "elem list \<Rightarrow> elem list" where
  "right_tick_labels es =
     filter (\<lambda>e. tag e = ''text'' \<and> attr ''text-anchor'' e = Some [Lit ''start'']) es"

definition left_tick_label :: "area \<Rightarrow> jsnum list \<Rightarrow> nat \<Rightarrow> elem" where
  "left_tick_label a barData i =
     Elem ''text''
       [(''x'', [Num (area_x a - Fin 10)]),
        (''y'', [Num (area_y a + area_height a - (num i / Fin 5) * area_height a + Fin 4)]),
        (''text-anchor'', [Lit ''end'']), (''class'', [Lit ''axis-label''])]
       (Some [Num (Math_round ((maxBarValue barData / Fin 5) * num i))])"

definition right_tick_label :: "area \<Rightarrow> jsnum list \<Rightarrow> nat \<Rightarrow> elem" where
  "right_tick_label a lineData i =
     Elem ''text''
       [(''x'', [Num (area_x a + area_width a + Fin 10)]),
        (''y'', [Num (area_y a + area_height a - (num i / Fin 5) * area_height a + Fin 4)]),
        (''text-anchor'', [Lit ''start'']), (''class'', [Lit ''axis-label''])]
       (Some [Fixed 2 ((maxLineValue lineData / Fin 5) * num i)])"

text \<open>
  An example request of the dual-axes engine in the series format, with the given
  numbers of the column series and of the line series.
\<close>

definition dual_example :: "jsnum list \<Rightarrow> jsnum list \<Rightarrow> options" where
  "dual_example columnData lineData =
     empty_options
       \<lparr>series := Some [\<lparr>series_type = ''column'', series_data = columnData,
                          series_axisYTitle = None\<rparr>,
                        \<lparr>series_type = ''line'', series_data = lineData,
                          series_axisYTitle = None\<rparr>],
        categories := Some [''a'', ''b'']\<rparr>"

text \<open>
  Notions for the funnel engine: the conversion-rate texts are its texts without a
  \<open>text-anchor\<close> (the label and the value of a stage are anchored in the middle), and
  the shapes of the stages are its rects and polygons.
\<close>

definition is_conversion :: "elem \<Rightarrow> bool" where
  "is_conversion e = (tag e = ''text'' \<and> attr ''text-anchor'' e = None)"

definition is_stage_shape :: "elem \<Rightarrow> bool" where
  "is_stage_shape e = (tag e = ''rect'' \<or> tag e = ''polygon'')"

text \<open>
  An example input of the funnel engine: two stages, of the values 100 and 33.
\<close>

definition funnel_example :: "item list" where
  "funnel_example =
     [Obj [(''category'', PStr ''Visitors''), (''value'', PNum (Fin 100))],
      Obj [(''category'', PStr ''Buyers''), (''value'', PNum (Fin 33))]]"

text \<open>
  An example input of the pie engine: the three slices of the values 45, 30 and 15.
\<close>

definition pie_example :: "item list" where
  "pie_example =
     [Obj [(''category'', PStr ''Mobile''), (''value'', PNum (Fin 45))],
      Obj [(''category'', PStr ''Desktop''), (''value'', PNum (Fin 30))],
      Obj [(''category'', PStr ''Tablet''), (''value'', PNum (Fin 15))]]"

text \<open>
  Two inputs on which a denominator is zero: a histogram of two equal values, and a
  funnel whose one stage has the value 0.
\<close>

definition equal_values_example :: "item list" where
  "equal_values_example = [Prim (PNum (Fin 5)), Prim (PNum (Fin 5))]"

definition zero_stage_example :: "item list" where
  "zero_stage_example = [Obj [(''category'', PStr ''A''), (''value'', PNum (Fin 0))]]"

text \<open>
  The requests on which no engine finds anything to throw on: the data, when it is an
  array, has no \<open>null\<close> item (the items are objects, numbers or other primitive
  values), and \<open>bins\<close>, when given, is a bin count: \<open>options.bins || 10\<close> is an
  integer that \<open>Array(bins)\<close> accepts. The other optional fields have the types of
  the \<open>options\<close> record.
\<close>

definition no_null_items :: "jsdata \<Rightarrow> bool" where
  "no_null_items d = list_all (\<lambda>it. it \<noteq> Prim PNull) (items_of d)"

definition valid_bins :: "options \<Rightarrow> bool" where
  "valid_bins opts =
     (case array_length (num_field_or (bins opts) (Fin 10)) of Inr n \<Rightarrow> True | Inl e \<Rightarrow> False)"

definition well_formed :: "options \<Rightarrow> bool" where
  "well_formed opts = (no_null_items (data_or_empty (data opts)) \<and> valid_bins opts)"

text \<open>
  An example request: a histogram of two items in five bins on a canvas of width 400.
\<close>

definition histogram_request :: options where
  "histogram_request =
     empty_options
       \<lparr>width := Some (Fin 400), bins := Some (Fin 5),
        data := Some (DataArray [Prim (PNum (Fin 1)), Obj [(''value'', PNum (Fin 4))]])\<rparr>"

text \<open>
  The document around the placeholder text \<open>msg\<close>, for a request of the given type and
  options.
\<close>

definition placeholder_document :: "js_host \<Rightarrow> string \<Rightarrow> options \<Rightarrow> string \<Rightarrow> string" where
  "placeholder_document h type opts msg =
     document h (num_field_or (width opts) (Fin 800)) (num_field_or (height opts) (Fin 600))
       (str_field_or (title opts) (default_title type)) (render h (placeholder msg))"

text \<open>
  Two degenerate requests: a pie whose one slice has the value 0, and a histogram whose
  one item has a value that is no number.
\<close>

definition zero_pie_request :: options where
  "zero_pie_request =
     empty_options\<lparr>data := Some (DataArray [Obj [(''category'', PStr ''A''), (''value'', PNum (Fin 0))]])\<rparr>"

definition text_histogram_request :: options where
  "text_histogram_request =
     empty_options\<lparr>data := Some (DataArray [Obj [(''value'', PStr ''abc'')]])\<rparr>"




text \<open>
  Requests of a histogram of the two values 1 and 2 with the given \<open>bins\<close>, and of a
  chart of the given items.
\<close>

definition bins_request :: "real \<Rightarrow> options" where
  "bins_request b =
     empty_options
       \<lparr>bins := Some (Fin b), data := Some (DataArray [Prim (PNum (Fin 1)), Prim (PNum (Fin 2))])\<rparr>"

definition data_request :: "item list \<Rightarrow> options" where
  "data_request items = empty_options\<lparr>data := Some (DataArray items)\<rparr>"

text \<open>
  Notions to say what the column engine draws, in terms of the cells of the input. The
  members of a list in the order of their first occurrence; the value of the pair of a
  category and a group, which is that of its last cell (a later cell replaces an earlier
  one), if the pair has a cell; the groups that have a cell in a category; and the
  scale \<open>maxValue\<close>: the largest of 0 and the values of the pairs, or 1 when that is 0.
\<close>

definition first_seen :: "'a list \<Rightarrow> 'a list" where
  "first_seen xs = rev (remdups (rev xs))"

definition pair_value :: "(string \<times> prim \<times> jsnum) list \<Rightarrow> string \<Rightarrow> prim \<Rightarrow> jsnum option" where
  "pair_value cells c g = map_of (rev (map (\<lambda>(c, g, v). ((c, g), v)) cells)) (c, g)"

definition groups_in :: "(string \<times> prim \<times> jsnum) list \<Rightarrow> string \<Rightarrow> prim list" where
  "groups_in cells c = first_seen (map (fst \<circ> snd) (filter (\<lambda>x. fst x = c) cells))"

definition pair_values :: "(string \<times> prim \<times> jsnum) list \<Rightarrow> jsnum list" where
  "pair_values cells =
     concat (map (\<lambda>c. map (\<lambda>g. the (pair_value cells c g)) (groups_in cells c))
               (first_seen (map fst cells)))"

definition largest_value :: "(string \<times> prim \<times> jsnum) list \<Rightarrow> jsnum" where
  "largest_value cells =
     (let m = fold (\<lambda>v m. js_max m v) (pair_values cells) (Fin 0)
      in if js_eq m (Fin 0) then Fin 1 else m)"

text \<open>The grouped data that the engine builds, as a function of the cells.\<close>

definition grouped_of :: "(string \<times> prim \<times> jsnum) list \<Rightarrow> grouped" where
  "grouped_of cells =
     map (\<lambda>c. (c, map (\<lambda>g. (g, the (pair_value cells c g))) (groups_in cells c)))
       (first_seen (map fst cells))"

text \<open>
  The normalisation of an item to a stage or slice \<open>{label, value}\<close> as the
  specification describes it: the category and the number of the value of an object that
  has both, otherwise \<open>'Unknown'\<close> and \<open>Number(item) || 0\<close> (which is 0 for an
  object).
\<close>

fun normalized :: "js_host \<Rightarrow> item \<Rightarrow> string \<times> jsnum" where
  "normalized h (Obj fs) =
     (if field fs ''category'' \<noteq> PUndefined \<and> field fs ''value'' \<noteq> PUndefined
      then (to_string h (field fs ''category''), to_number h (field fs ''value''))
      else (''Unknown'', Fin 0))"
| "normalized h (Prim p) = (''Unknown'', num_or (to_number h p) (Fin 0))"

text \<open>
  A length of the data array that is well inside the number of arguments that the
  engines in use accept in one call, as in \<open>Math.max(...values)\<close>.
\<close>

definition spread_safe :: "item list \<Rightarrow> bool" where
  "spread_safe items = (length items \<le> 10000)"

text \<open>
  Two funnels on a canvas of width 100: one stage of the value 10, and the two stages of
  the values 10 and 5.
\<close>

definition one_stage_example :: "item list" where
  "one_stage_example = [Obj [(''category'', PStr ''A''), (''value'', PNum (Fin 10))]]"

definition two_stage_example :: "item list" where
  "two_stage_example =
     [Obj [(''category'', PStr ''A''), (''value'', PNum (Fin 10))],
      Obj [(''category'', PStr ''B''), (''value'', PNum (Fin 5))]]"

text \<open>
  Notions for the pie engine: the percentage labels are its texts in bold (the texts of
  the legend are not), and the slices are its paths. An example of a slice whose value
  is above 0 and not finite.
\<close>

definition is_percentage_label :: "elem \<Rightarrow> bool" where
  "is_percentage_label e = (tag e = ''text'' \<and> attr ''font-weight'' e = Some [Lit ''bold''])"

definition infinite_slice_example :: "item list" where
  "infinite_slice_example = [Obj [(''category'', PStr ''A''), (''value'', PNum PInf)]]"

section \<open>Properties of the column engine\<close>

lemma length_filter_concat:
  "length (filter P (concat xss)) = sum_list (map (\<lambda>xs. length (filter P xs)) xss)"
  by (induction xss) auto

lemma filter_concat_map_single:
  "(\<And>x. filter P (f x) = [g x]) \<Longrightarrow> filter P (concat (map f xs)) = map g xs"
  by (induction xs) auto

lemma sum_list_ones: "(\<Sum>x\<leftarrow>xs. Suc 0) = length xs"
  by (induction xs) auto

lemma column_bar_count:
  "length (filter is_bar (column_bar a m cw bw gc cx cd ig)) = 1"
  by (cases ig) (simp add: column_bar_def is_bar_def attr_def Let_def)

lemma column_category_count:
  assumes "map_of gd c = Some cd"
  shows "length (filter is_bar (column_category a m cw bw groups gd (ci, c))) = length groups"
  using assms
  by (simp add: column_category_def Let_def length_filter_concat column_bar_count comp_def
      is_bar_def attr_def sum_list_ones)

lemma column_legend_no_bar:
  "filter is_bar (concat (map (column_legend_entry a) xs)) = []"
  by (induction xs) (auto simp: column_legend_entry_def is_bar_def attr_def Let_def)

lemma axes_no_bar: "filter is_bar (axes a) = []"
  by (simp add: axes_def is_bar_def attr_def)

lemma axis_titles_no_bar: "filter is_bar (axis_titles a opts) = []"
  by (simp add: axis_titles_def axisXTitle_elem_def axisYTitle_elem_def is_bar_def attr_def)

lemma update_keys_present: "k \<in> fst ` set al \<Longrightarrow> map fst (AList.update k v al) = map fst al"
  by (induction al) auto

lemma update_keys_absent: "k \<notin> fst ` set al \<Longrightarrow> map fst (AList.update k v al) = map fst al @ [k]"
  by (induction al) auto

lemma column_item_eq:
  "it \<noteq> Prim PNull \<Longrightarrow>
   column_item h it (cats, groups, gd) =
     Inr (case column_cell h it of
            None \<Rightarrow> (cats, groups, gd)
          | Some (c, g, v) \<Rightarrow>
              (set_add c cats, set_add g groups,
               AList.update c (AList.update g v (case map_of gd c of Some m \<Rightarrow> m | None \<Rightarrow> [])) gd))"
  by (cases "(h, it, (cats, groups, gd))" rule: column_item.cases) simp_all

lemma column_item_null: "column_item h (Prim PNull) st = Inl TypeError"
  by simp

lemma column_item_keys:
  assumes "column_item h it (cats, groups, gd) = Inr (cats', groups', gd')"
    and "map fst gd = cats"
  shows "map fst gd' = cats'"
proof -
  from assms(1) have nn: "it \<noteq> Prim PNull" by auto
  show ?thesis
  proof (cases "column_cell h it")
    case None
    with assms nn show ?thesis by (simp add: column_item_eq)
  next
    case (Some cell)
    obtain c g v where cell: "cell = (c, g, v)" by (cases cell)
    show ?thesis
    proof (cases "c \<in> set cats")
      case True
      with assms nn Some cell show ?thesis
        by (auto simp: column_item_eq set_add_def update_keys_present)
    next
      case False
      with assms nn Some cell show ?thesis
        by (auto simp: column_item_eq set_add_def update_keys_absent)
    qed
  qed
qed

lemma fold_err_column_keys:
  "fold_err (column_item h) items (cats, groups, gd) = Inr (cats', groups', gd')
   \<Longrightarrow> map fst gd = cats \<Longrightarrow> map fst gd' = cats'"
proof (induction items arbitrary: cats groups gd)
  case Nil
  then show ?case by simp
next
  case (Cons it items)
  from Cons.prems(1) obtain st where st: "column_item h it (cats, groups, gd) = Inr st"
    and rest: "fold_err (column_item h) items st = Inr (cats', groups', gd')"
    by (auto split: sum.splits)
  obtain c1 g1 gd1 where st1: "st = (c1, g1, gd1)" by (cases st)
  from column_item_keys[OF st[unfolded st1] Cons.prems(2)] have "map fst gd1 = c1" .
  from Cons.IH[OF rest[unfolded st1] this] show ?case .
qed

lemma column_cells_Nil: "column_cells h [] = []"
  by (simp add: column_cells_def map_filter_simps)

lemma column_cells_None: "column_cell h it = None \<Longrightarrow> column_cells h (it # items) = column_cells h items"
  by (simp add: column_cells_def map_filter_simps)

lemma column_cells_Some: "column_cell h it = Some c \<Longrightarrow> column_cells h (it # items) = c # column_cells h items"
  by (simp add: column_cells_def map_filter_simps)

lemma set_add_set: "set (set_add v xs) = insert v (set xs)"
  by (auto simp: set_add_def)

lemma set_add_distinct: "distinct xs \<Longrightarrow> distinct (set_add v xs)"
  by (auto simp: set_add_def)

lemma column_item_props:
  assumes "column_item h it (cats, groups, gd) = Inr (cats', groups', gd')"
  shows "set cats' = set cats \<union> fst ` set (column_cells h [it])"
    and "set groups' = set groups \<union> (fst \<circ> snd) ` set (column_cells h [it])"
    and "distinct cats \<Longrightarrow> distinct cats'"
    and "distinct groups \<Longrightarrow> distinct groups'"
proof -
  from assms have nn: "it \<noteq> Prim PNull" by auto
  show "set cats' = set cats \<union> fst ` set (column_cells h [it])"
    using assms nn
    by (cases "column_cell h it")
       (auto simp: column_item_eq column_cells_None column_cells_Some column_cells_Nil set_add_set)
  show "set groups' = set groups \<union> (fst \<circ> snd) ` set (column_cells h [it])"
    using assms nn
    by (cases "column_cell h it")
       (auto simp: column_item_eq column_cells_None column_cells_Some column_cells_Nil set_add_set)
  show "distinct cats \<Longrightarrow> distinct cats'"
    using assms nn
    by (cases "column_cell h it") (auto simp: column_item_eq set_add_distinct)
  show "distinct groups \<Longrightarrow> distinct groups'"
    using assms nn
    by (cases "column_cell h it") (auto simp: column_item_eq set_add_distinct)
qed

lemma column_cells_Cons_single:
  "column_cells h (it # items) = column_cells h [it] @ column_cells h items"
  by (cases "column_cell h it") (simp_all add: column_cells_None column_cells_Some column_cells_Nil)

lemma fold_err_column_props:
  "fold_err (column_item h) items (cats, groups, gd) = Inr (cats', groups', gd') \<Longrightarrow>
   set cats' = set cats \<union> fst ` set (column_cells h items)
   \<and> set groups' = set groups \<union> (fst \<circ> snd) ` set (column_cells h items)
   \<and> (distinct cats \<longrightarrow> distinct cats') \<and> (distinct groups \<longrightarrow> distinct groups')"
proof (induction items arbitrary: cats groups gd)
  case Nil
  then show ?case by (simp add: column_cells_Nil)
next
  case (Cons it items)
  from Cons.prems obtain st where st: "column_item h it (cats, groups, gd) = Inr st"
    and rest: "fold_err (column_item h) items st = Inr (cats', groups', gd')"
    by (auto split: sum.splits)
  obtain c1 g1 gd1 where st1: "st = (c1, g1, gd1)" by (cases st)
  note p = column_item_props[OF st[unfolded st1]]
  note ih = Cons.IH[OF rest[unfolded st1]]
  have a: "set cats' = set cats \<union> fst ` set (column_cells h (it # items))"
    using ih p(1) by (subst column_cells_Cons_single) (simp add: image_Un Un_assoc)
  have b: "set groups' = set groups \<union> (fst \<circ> snd) ` set (column_cells h (it # items))"
    using ih p(2) by (subst column_cells_Cons_single) (simp add: image_Un Un_assoc)
  have c: "distinct cats \<longrightarrow> distinct cats'" using ih p(3) by blast
  have d: "distinct groups \<longrightarrow> distinct groups'" using ih p(4) by blast
  from a b c d show ?case by blast
qed

lemma fold_err_column_ok:
  "\<forall>it\<in>set items. it \<noteq> Prim PNull \<Longrightarrow> \<exists>st'. fold_err (column_item h) items st = Inr st'"
proof (induction items arbitrary: st)
  case Nil
  show ?case by (rule exI[of _ st]) simp
next
  case (Cons it items)
  obtain cats groups gd where st: "st = (cats, groups, gd)" by (cases st) auto
  from Cons.prems have nn: "it \<noteq> Prim PNull" by simp
  from column_item_eq[OF nn, of h cats groups gd]
  obtain st1 where s1: "column_item h it st = Inr st1" unfolding st by blast
  from Cons.IH[of st1] Cons.prems obtain st' where "fold_err (column_item h) items st1 = Inr st'"
    by auto
  with s1 show ?case by (intro exI[of _ st']) simp
qed

lemma sum_list_const_on:
  "(\<And>x. x \<in> set xs \<Longrightarrow> f x = (k::nat)) \<Longrightarrow> sum_list (map f xs) = k * length xs"
  by (induction xs) auto

lemma column_chart_bars:
  assumes "map fst gd = cats"
  shows "length (filter is_bar (column_chart a opts (cats, groups, gd))) = length cats * length groups"
proof -
  have each: "length (filter is_bar (column_category a m cw bw groups gd x)) = length groups"
    if "x \<in> set (enumerate 0 cats)" for x m cw bw
  proof -
    obtain ci c where x: "x = (ci, c)" by (cases x)
    with that have "c \<in> set cats" by (auto simp: in_set_enumerate_eq)
    with assms have "c \<in> fst ` set gd" by (metis set_map)
    then obtain cd where "map_of gd c = Some cd"
      by (metis map_of_eq_None_iff not_Some_eq)
    then show ?thesis unfolding x by (rule column_category_count)
  qed
  show ?thesis
    by (simp add: column_chart_def Let_def length_filter_concat column_legend_no_bar axes_no_bar
        axis_titles_no_bar comp_def sum_list_const_on[OF each] mult.commute)
qed

lemma column_bars_grid_aux:
  assumes "items \<noteq> []" and "\<forall>it\<in>set items. it \<noteq> Prim PNull"
  shows "\<exists>es. generateColumnChart h (DataArray items) w ht opts = Inr es
              \<and> length (filter is_bar es)
                  = card (column_categories h items) * card (column_groups h items)"
proof -
  from fold_err_column_ok[OF assms(2), of h "([], [], [])"]
  obtain st where st: "fold_err (column_item h) items ([], [], []) = Inr st" by blast
  obtain cats groups gd where st3: "st = (cats, groups, gd)" by (cases st) auto
  note r = st[unfolded st3]
  from fold_err_column_keys[OF r] have keys: "map fst gd = cats" by simp
  from fold_err_column_props[OF r]
  have sets: "set cats = fst ` set (column_cells h items)"
    "set groups = (fst \<circ> snd) ` set (column_cells h items)"
    and dist: "distinct cats" "distinct groups"
    by simp_all
  have "card (column_categories h items) = length cats"
    using sets(1) dist(1) by (simp add: column_categories_def distinct_card[symmetric])
  moreover have "card (column_groups h items) = length groups"
    using sets(2) dist(2) by (simp add: column_groups_def distinct_card[symmetric])
  ultimately show ?thesis
    using assms(1) r column_chart_bars[OF keys, of a opts groups for a]
    by (simp add: generateColumnChart_def)
qed

lemma two_cells_fold:
  "fold_err (column_item h) two_cells_example ([], [], [])
   = Inr ([''Q1'', ''Q2''], [PStr ''A'', PStr ''B''],
          [(''Q1'', [(PStr ''A'', Fin 10)]), (''Q2'', [(PStr ''B'', Fin 20)])])"
  by (simp add: two_cells_example_def field_def set_add_def)

lemma two_cells_cells:
  "column_cells h two_cells_example = [(''Q1'', PStr ''A'', Fin 10), (''Q2'', PStr ''B'', Fin 20)]"
  by (simp add: two_cells_example_def column_cells_def map_filter_simps field_def)

lemma two_cells_chart:
  "generateColumnChart h (DataArray two_cells_example) w ht opts
   = Inr (column_chart (chartArea w ht) opts
            ([''Q1'', ''Q2''], [PStr ''A'', PStr ''B''],
             [(''Q1'', [(PStr ''A'', Fin 10)]), (''Q2'', [(PStr ''B'', Fin 20)])]))"
proof -
  have ne: "two_cells_example \<noteq> []" by (simp add: two_cells_example_def)
  show ?thesis
    by (simp only: generateColumnChart_def no_data.simps items_of.simps two_cells_fold ne
        if_False sum.case)
qed

text \<open>
  C3, as stated, fails. The input has the two cells (Q1, A) and (Q2, B), and the engine
  emits four bars: the pairs (Q1, B) and (Q2, A), which are absent from the input, get a
  rect each.
\<close>

theorem column_absent_pair_counterexample:
  "\<forall>h. \<exists>es. generateColumnChart h (DataArray two_cells_example) (Fin 800) (Fin 600) empty_options
               = Inr es
             \<and> length (column_cells h two_cells_example) = 2
             \<and> length (filter is_bar es) = 4"
proof
  fix h
  have "length (filter is_bar (column_chart (chartArea (Fin 800) (Fin 600)) empty_options
          ([''Q1'', ''Q2''], [PStr ''A'', PStr ''B''],
           [(''Q1'', [(PStr ''A'', Fin 10)]), (''Q2'', [(PStr ''B'', Fin 20)])]))) = 2 * 2"
    by (subst column_chart_bars) simp_all
  then show "\<exists>es. generateColumnChart h (DataArray two_cells_example) (Fin 800) (Fin 600)
                     empty_options = Inr es
                 \<and> length (column_cells h two_cells_example) = 2
                 \<and> length (filter is_bar es) = 4"
    by (simp only: two_cells_chart two_cells_cells) simp
qed

lemma first_seen_Nil: "first_seen [] = []"
  by (simp add: first_seen_def)

lemma first_seen_snoc:
  "first_seen (xs @ [x]) = (if x \<in> set xs then first_seen xs else first_seen xs @ [x])"
  by (simp add: first_seen_def)

lemma first_seen_set: "set (first_seen xs) = set xs"
  by (simp add: first_seen_def)

lemma first_seen_distinct: "distinct (first_seen xs)"
  by (simp add: first_seen_def)

lemma pair_value_Nil: "pair_value [] c g = None"
  by (simp add: pair_value_def)

lemma pair_value_snoc:
  "pair_value (cells @ [(c0, g0, v0)]) c g
     = (if c = c0 \<and> g = g0 then Some v0 else pair_value cells c g)"
  by (auto simp: pair_value_def)

lemma groups_in_snoc:
  "groups_in (cells @ [(c0, g0, v0)]) c
     = (if c = c0 then (if g0 \<in> set (groups_in cells c) then groups_in cells c
                        else groups_in cells c @ [g0])
        else groups_in cells c)"
  by (simp add: groups_in_def first_seen_snoc first_seen_set)

lemma groups_in_absent: "c \<notin> fst ` set cells \<Longrightarrow> groups_in cells c = []"
proof -
  assume "c \<notin> fst ` set cells"
  then have "filter (\<lambda>x. fst x = c) cells = []" by (auto simp: filter_empty_conv)
  then show ?thesis by (simp add: groups_in_def first_seen_Nil)
qed

lemma pair_value_present: "g \<in> set (groups_in cells c) \<longleftrightarrow> pair_value cells c g \<noteq> None"
proof (induction cells rule: rev_induct)
  case Nil
  then show ?case by (simp add: groups_in_def first_seen_Nil pair_value_Nil)
next
  case (snoc x cells)
  obtain c0 g0 v0 where x: "x = (c0, g0, v0)" by (cases x)
  show ?case unfolding x using snoc by (auto simp: groups_in_snoc pair_value_snoc)
qed

lemma update_map_keys:
  "distinct ks \<Longrightarrow>
   AList.update k v (map (\<lambda>x. (x, F x)) ks)
     = (if k \<in> set ks then map (\<lambda>x. (x, if x = k then v else F x)) ks
        else map (\<lambda>x. (x, F x)) ks @ [(k, v)])"
  by (induction ks) auto

lemma map_of_map_keys: "map_of (map (\<lambda>x. (x, F x)) ks) k = (if k \<in> set ks then Some (F k) else None)"
  by (induction ks) auto

lemma group_update:
  "AList.update g0 v0 (map (\<lambda>g. (g, the (pair_value cells c0 g))) (groups_in cells c0))
     = map (\<lambda>g. (g, the (pair_value (cells @ [(c0, g0, v0)]) c0 g)))
         (groups_in (cells @ [(c0, g0, v0)]) c0)"
proof -
  have d: "distinct (groups_in cells c0)" by (simp add: groups_in_def first_seen_distinct)
  show ?thesis
    by (simp add: update_map_keys[OF d] groups_in_snoc pair_value_snoc)
qed

lemma grouped_update:
  "AList.update c0
     (AList.update g0 v0 (case map_of (grouped_of cells) c0 of Some m \<Rightarrow> m | None \<Rightarrow> []))
     (grouped_of cells)
   = grouped_of (cells @ [(c0, g0, v0)])"
proof -
  let ?cats = "first_seen (map fst cells)"
  let ?F = "\<lambda>c. map (\<lambda>g. (g, the (pair_value cells c g))) (groups_in cells c)"
  let ?new = "map (\<lambda>g. (g, the (pair_value (cells @ [(c0, g0, v0)]) c0 g)))
                (groups_in (cells @ [(c0, g0, v0)]) c0)"
  have d: "distinct ?cats" by (rule first_seen_distinct)
  have other: "c \<noteq> c0 \<Longrightarrow>
      map (\<lambda>g. (g, the (pair_value (cells @ [(c0, g0, v0)]) c g)))
        (groups_in (cells @ [(c0, g0, v0)]) c) = ?F c" for c
    by (simp add: groups_in_snoc pair_value_snoc)
  show ?thesis
  proof (cases "c0 \<in> set ?cats")
    case True
    then have m: "map_of (grouped_of cells) c0 = Some (?F c0)"
      by (simp add: grouped_of_def map_of_map_keys)
    have "AList.update c0 (AList.update g0 v0 (?F c0)) (grouped_of cells)
            = map (\<lambda>x. (x, if x = c0 then ?new else ?F x)) ?cats"
      unfolding group_update grouped_of_def using True by (simp add: update_map_keys[OF d])
    also have "\<dots> = grouped_of (cells @ [(c0, g0, v0)])"
      using True by (auto simp: grouped_of_def first_seen_snoc first_seen_set other)
    finally show ?thesis by (simp add: m)
  next
    case False
    then have m: "map_of (grouped_of cells) c0 = None"
      by (simp add: grouped_of_def map_of_map_keys)
    from False have abs: "c0 \<notin> fst ` set cells" by (simp add: first_seen_set)
    have new: "?new = [(g0, v0)]"
      by (simp add: groups_in_snoc groups_in_absent[OF abs] pair_value_snoc)
    have "AList.update c0 (AList.update g0 v0 []) (grouped_of cells)
            = map (\<lambda>x. (x, ?F x)) ?cats @ [(c0, [(g0, v0)])]"
      unfolding grouped_of_def using False by (simp add: update_map_keys[OF d])
    also have "\<dots> = grouped_of (cells @ [(c0, g0, v0)])"
    proof -
      have "map (\<lambda>x. (x, ?F x)) ?cats
              = map (\<lambda>c. (c, map (\<lambda>g. (g, the (pair_value (cells @ [(c0, g0, v0)]) c g)))
                                (groups_in (cells @ [(c0, g0, v0)]) c))) ?cats"
      proof (intro map_cong refl)
        fix x assume "x \<in> set ?cats"
        with False have "x \<noteq> c0" by auto
        then show "(x, ?F x)
                = (x, map (\<lambda>g. (g, the (pair_value (cells @ [(c0, g0, v0)]) x g)))
                        (groups_in (cells @ [(c0, g0, v0)]) x))"
          by (simp add: other)
      qed
      with False new show ?thesis
        by (simp add: grouped_of_def first_seen_snoc first_seen_set)
    qed
    finally show ?thesis by (simp add: m)
  qed
qed

lemma column_fold_cells:
  assumes "\<forall>it\<in>set items. it \<noteq> Prim PNull"
  shows "fold_err (column_item h) items
           (first_seen (map fst cells0), first_seen (map (fst \<circ> snd) cells0), grouped_of cells0)
         = Inr (first_seen (map fst (cells0 @ column_cells h items)),
                first_seen (map (fst \<circ> snd) (cells0 @ column_cells h items)),
                grouped_of (cells0 @ column_cells h items))"
  using assms
proof (induction items arbitrary: cells0)
  case Nil
  then show ?case by (simp add: column_cells_Nil)
next
  case (Cons it items)
  from Cons.prems have nn: "it \<noteq> Prim PNull" and rest: "\<forall>it\<in>set items. it \<noteq> Prim PNull"
    by simp_all
  show ?case
  proof (cases "column_cell h it")
    case None
    with Cons.IH[OF rest, of cells0] nn show ?thesis
      by (simp add: column_item_eq column_cells_None)
  next
    case (Some cell)
    obtain c g v where cell: "cell = (c, g, v)" by (cases cell)
    have step: "column_item h it
                  (first_seen (map fst cells0), first_seen (map (fst \<circ> snd) cells0),
                   grouped_of cells0)
                = Inr (first_seen (map fst (cells0 @ [(c, g, v)])),
                       first_seen (map (fst \<circ> snd) (cells0 @ [(c, g, v)])),
                       grouped_of (cells0 @ [(c, g, v)]))"
      using nn Some cell
      by (simp add: column_item_eq set_add_def first_seen_snoc first_seen_set grouped_update
          image_image)
    have cc: "cells0 @ column_cells h (it # items) = (cells0 @ [(c, g, v)]) @ column_cells h items"
      using Some cell by (simp add: column_cells_Some)
    show ?thesis
      unfolding cc fold_err.simps step sum.case
      by (rule Cons.IH[OF rest])
  qed
qed

lemma column_fold:
  assumes "\<forall>it\<in>set items. it \<noteq> Prim PNull"
  shows "fold_err (column_item h) items ([], [], [])
         = Inr (first_seen (map fst (column_cells h items)),
                first_seen (map (fst \<circ> snd) (column_cells h items)),
                grouped_of (column_cells h items))"
  using column_fold_cells[OF assms, of h "[]"]
  by (simp add: first_seen_Nil grouped_of_def)

lemma column_maxValue_cells: "column_maxValue (grouped_of cells) = largest_value cells"
  by (simp add: column_maxValue_def largest_value_def pair_values_def grouped_of_def comp_def
      case_prod_unfold)

lemma map_of_grouped:
  assumes "c \<in> set (first_seen (map fst cells))"
  shows "\<exists>cd. map_of (grouped_of cells) c = Some cd \<and> (\<forall>g. map_of cd g = pair_value cells c g)"
proof -
  let ?cd = "map (\<lambda>g. (g, the (pair_value cells c g))) (groups_in cells c)"
  have "map_of (grouped_of cells) c = Some ?cd"
    using assms by (simp add: grouped_of_def map_of_map_keys)
  moreover have "map_of ?cd g = pair_value cells c g" for g
    using pair_value_present[of g cells c] by (auto simp: map_of_map_keys)
  ultimately show ?thesis by blast
qed

lemma column_bar_rect:
  "filter is_bar (column_bar a m cw bw gc cx cd (gi, g))
     = [Elem ''rect''
          [(''x'', [Num (cx + num gi * bw + (cw - num gc * bw) / Fin 2)]),
           (''y'', [Num (area_y a + area_height a
                         - ((case map_of cd g of Some n \<Rightarrow> num_or n (Fin 0) | None \<Rightarrow> Fin 0) / m)
                           * area_height a)]),
           (''width'', [Num bw]),
           (''height'', [Num (((case map_of cd g of Some n \<Rightarrow> num_or n (Fin 0) | None \<Rightarrow> Fin 0) / m)
                              * area_height a)]),
           (''fill'', [Lit (column_colors ! (gi mod length column_colors))]),
           (''class'', [Lit ''chart-bar''])] None]"
  by (simp add: column_bar_def Let_def is_bar_def attr_def)

lemma column_category_rects:
  assumes "c \<in> set (first_seen (map fst cells))"
  shows "filter is_bar (column_category a m cw bw groups (grouped_of cells) (ci, c))
     = map (\<lambda>(gi, g).
         Elem ''rect''
          [(''x'', [Num (area_x a + num ci * cw + num gi * bw + (cw - num (length groups) * bw) / Fin 2)]),
           (''y'', [Num (area_y a + area_height a
                         - ((case pair_value cells c g of Some n \<Rightarrow> num_or n (Fin 0) | None \<Rightarrow> Fin 0) / m)
                           * area_height a)]),
           (''width'', [Num bw]),
           (''height'', [Num (((case pair_value cells c g of Some n \<Rightarrow> num_or n (Fin 0) | None \<Rightarrow> Fin 0) / m)
                              * area_height a)]),
           (''fill'', [Lit (column_colors ! (gi mod length column_colors))]),
           (''class'', [Lit ''chart-bar''])] None)
        (enumerate 0 groups)"
proof -
  from map_of_grouped[OF assms] obtain cd where
    cd: "map_of (grouped_of cells) c = Some cd" "\<And>g. map_of cd g = pair_value cells c g"
    by blast
  have one: "filter is_bar (column_bar a m cw bw (length groups) (area_x a + num ci * cw) cd x)
     = [(\<lambda>(gi, g).
         Elem ''rect''
          [(''x'', [Num (area_x a + num ci * cw + num gi * bw + (cw - num (length groups) * bw) / Fin 2)]),
           (''y'', [Num (area_y a + area_height a
                         - ((case pair_value cells c g of Some n \<Rightarrow> num_or n (Fin 0) | None \<Rightarrow> Fin 0) / m)
                           * area_height a)]),
           (''width'', [Num bw]),
           (''height'', [Num (((case pair_value cells c g of Some n \<Rightarrow> num_or n (Fin 0) | None \<Rightarrow> Fin 0) / m)
                              * area_height a)]),
           (''fill'', [Lit (column_colors ! (gi mod length column_colors))]),
           (''class'', [Lit ''chart-bar''])] None) x]" for x
    by (cases x) (simp only: column_bar_rect cd(2) prod.case)
  show ?thesis
    by (simp add: column_category_def cd(1) Let_def filter_concat_map_single[OF one]
        is_bar_def[of "Elem _ _ _"])
qed

lemma filter_concat_map_on:
  "(\<And>x. x \<in> set xs \<Longrightarrow> filter P (f x) = g x) \<Longrightarrow> filter P (concat (map f xs)) = concat (map g xs)"
  by (induction xs) auto

lemma column_chart_rects:
  "filter is_bar (column_chart a opts (first_seen (map fst cells), groups, grouped_of cells))
     = concat (map (\<lambda>(ci, c).
         map (\<lambda>(gi, g).
           Elem ''rect''
            [(''x'', [Num (area_x a
                           + num ci * (area_width a / num (length (first_seen (map fst cells))))
                           + num gi * (area_width a / num (length (first_seen (map fst cells)))
                                       / (num (length groups) * Fin (12 / 10)))
                           + (area_width a / num (length (first_seen (map fst cells)))
                              - num (length groups)
                                * (area_width a / num (length (first_seen (map fst cells)))
                                   / (num (length groups) * Fin (12 / 10))))
                             / Fin 2)]),
             (''y'', [Num (area_y a + area_height a
                           - ((case pair_value cells c g of Some n \<Rightarrow> num_or n (Fin 0) | None \<Rightarrow> Fin 0)
                              / largest_value cells)
                             * area_height a)]),
             (''width'', [Num (area_width a / num (length (first_seen (map fst cells)))
                               / (num (length groups) * Fin (12 / 10)))]),
             (''height'', [Num (((case pair_value cells c g of Some n \<Rightarrow> num_or n (Fin 0) | None \<Rightarrow> Fin 0)
                                 / largest_value cells)
                                * area_height a)]),
             (''fill'', [Lit (column_colors ! (gi mod length column_colors))]),
             (''class'', [Lit ''chart-bar''])] None)
          (enumerate 0 groups))
        (enumerate 0 (first_seen (map fst cells))))"
proof -
  let ?cats = "first_seen (map fst cells)"
  let ?cw = "area_width a / num (length ?cats)"
  let ?bw = "?cw / (num (length groups) * Fin (12 / 10))"
  have each: "filter is_bar (column_category a (largest_value cells) ?cw ?bw groups (grouped_of cells) x)
     = (\<lambda>(ci, c).
         map (\<lambda>(gi, g).
           Elem ''rect''
            [(''x'', [Num (area_x a + num ci * ?cw + num gi * ?bw + (?cw - num (length groups) * ?bw) / Fin 2)]),
             (''y'', [Num (area_y a + area_height a
                           - ((case pair_value cells c g of Some n \<Rightarrow> num_or n (Fin 0) | None \<Rightarrow> Fin 0)
                              / largest_value cells)
                             * area_height a)]),
             (''width'', [Num ?bw]),
             (''height'', [Num (((case pair_value cells c g of Some n \<Rightarrow> num_or n (Fin 0) | None \<Rightarrow> Fin 0)
                                 / largest_value cells)
                                * area_height a)]),
             (''fill'', [Lit (column_colors ! (gi mod length column_colors))]),
             (''class'', [Lit ''chart-bar''])] None)
          (enumerate 0 groups)) x"
    if "x \<in> set (enumerate 0 ?cats)" for x
  proof -
    obtain ci c where x: "x = (ci, c)" by (cases x)
    with that have "c \<in> set ?cats" by (auto simp: in_set_enumerate_eq)
    from column_category_rects[OF this] show ?thesis unfolding x by simp
  qed
  have "filter is_bar (column_chart a opts (?cats, groups, grouped_of cells))
          = filter is_bar (concat (map (column_category a (largest_value cells) ?cw ?bw groups
                                          (grouped_of cells))
                                     (enumerate 0 ?cats)))"
    by (simp add: column_chart_def Let_def column_maxValue_cells column_legend_no_bar axes_no_bar
        axis_titles_no_bar)
  also note filter_concat_map_on[OF each]
  finally show ?thesis .
qed

lemma js_max_not_NaN: "a \<noteq> NaN \<Longrightarrow> b \<noteq> NaN \<Longrightarrow> js_max a b \<noteq> NaN"
  by (cases a; cases b) auto

lemma fold_js_max_not_NaN:
  "m \<noteq> NaN \<Longrightarrow> \<forall>v\<in>set vs. v \<noteq> NaN \<Longrightarrow> fold (\<lambda>v m. js_max m v) vs m \<noteq> NaN"
  by (induction vs arbitrary: m) (simp_all add: js_max_not_NaN)

lemma pair_value_in_cells: "pair_value cells c g = Some v \<Longrightarrow> (c, g, v) \<in> set cells"
  by (auto simp: pair_value_def dest!: map_of_SomeD)

lemma pair_values_in_cells:
  assumes "v \<in> set (pair_values cells)"
  shows "v \<in> (snd \<circ> snd) ` set cells"
proof -
  from assms obtain c g where g: "g \<in> set (groups_in cells c)" and v: "v = the (pair_value cells c g)"
    by (auto simp: pair_values_def)
  from g have "pair_value cells c g \<noteq> None" by (simp add: pair_value_present)
  with v have "pair_value cells c g = Some v" by auto
  from pair_value_in_cells[OF this] show ?thesis by force
qed

lemma largest_value_props:
  assumes "\<forall>x\<in>set cells. snd (snd x) \<noteq> NaN"
  shows "largest_value cells \<noteq> NaN \<and> largest_value cells \<noteq> Fin 0"
proof -
  let ?m = "fold (\<lambda>v m. js_max m v) (pair_values cells) (Fin 0)"
  have "\<forall>v\<in>set (pair_values cells). v \<noteq> NaN"
    using assms pair_values_in_cells[of _ cells] by fastforce
  then have "?m \<noteq> NaN" by (intro fold_js_max_not_NaN) simp_all
  then show ?thesis
    by (cases ?m) (auto simp: largest_value_def Let_def)
qed

lemma zero_over_largest:
  assumes "\<forall>x\<in>set cells. snd (snd x) \<noteq> NaN"
  shows "(Fin 0 / largest_value cells) * (Fin H - Fin 140) = Fin 0"
  using largest_value_props[OF assms]
  by (cases "largest_value cells") (auto simp: minus_jsnum_def)

text \<open>
  C3, amended. For every non-empty data array without a \<open>null\<close> item, the column engine
  draws one bar for every pair of a category and a group of the input, whether or not
  the pair has a cell: with C distinct categories and G distinct groups it draws C * G
  rects of class \<open>chart-bar\<close>, the categories in first-seen order and within each
  category the groups in first-seen order. The rect of the pair (c, g) has the height
  \<open>(value / maxValue) * chartArea.height\<close>, where the value is that of the pair's last
  cell (0 if that is falsy) and 0 for a pair without a cell, and \<open>maxValue\<close> is the
  largest of 0 and the values of the pairs, or 1 when that is 0; its position and width
  are those of the source. So the bar of an absent pair is not omitted: it is a rect of
  the height \<open>(0 / maxValue) * chartArea.height\<close>, which is 0 when no value of the input
  is NaN and the canvas height is finite.
\<close>

theorem column_draws_every_pair:
  assumes "items \<noteq> []" and "\<forall>it\<in>set items. it \<noteq> Prim PNull"
  shows
    "\<exists>es. generateColumnChart h (DataArray items) w ht opts = Inr es
       \<and> (let cells = column_cells h items;
               cats = first_seen (map fst cells);
               groups = first_seen (map (fst \<circ> snd) cells);
               categoryWidth = (w - Fin 140) / num (length cats);
               barWidth = categoryWidth / (num (length groups) * Fin (12 / 10))
           in filter is_bar es
              = concat (map (\<lambda>(catIndex, c).
                  map (\<lambda>(groupIndex, g).
                    Elem ''rect''
                      [(''x'', [Num (Fin 80 + num catIndex * categoryWidth + num groupIndex * barWidth
                                     + (categoryWidth - num (length groups) * barWidth) / Fin 2)]),
                       (''y'', [Num (Fin 60 + (ht - Fin 140)
                                     - ((case pair_value cells c g of
                                           Some n \<Rightarrow> num_or n (Fin 0) | None \<Rightarrow> Fin 0)
                                        / largest_value cells)
                                       * (ht - Fin 140))]),
                       (''width'', [Num barWidth]),
                       (''height'', [Num (((case pair_value cells c g of
                                              Some n \<Rightarrow> num_or n (Fin 0) | None \<Rightarrow> Fin 0)
                                           / largest_value cells)
                                          * (ht - Fin 140))]),
                       (''fill'', [Lit ([''#4285f4'', ''#ea4335'', ''#fbbc04'', ''#34a853'',
                                         ''#9aa0a6'', ''#ff6d01''] ! (groupIndex mod 6))]),
                       (''class'', [Lit ''chart-bar''])] None)
                   (enumerate 0 groups))
                 (enumerate 0 cats)))
       \<and> length (filter is_bar es)
           = card (column_categories h items) * card (column_groups h items)
       \<and> (\<forall>H. ht = Fin H \<and> (\<forall>x\<in>set (column_cells h items). snd (snd x) \<noteq> NaN)
              \<longrightarrow> (Fin 0 / largest_value (column_cells h items)) * (ht - Fin 140) = Fin 0)"
proof -
  let ?cells = "column_cells h items"
  let ?cats = "first_seen (map fst ?cells)"
  let ?groups = "first_seen (map (fst \<circ> snd) ?cells)"
  let ?es = "column_chart (chartArea w ht) opts (?cats, ?groups, grouped_of ?cells)"
  have gen: "generateColumnChart h (DataArray items) w ht opts = Inr ?es"
    using assms(1) by (simp add: generateColumnChart_def column_fold[OF assms(2)])
  note rects = column_chart_rects[of "chartArea w ht" opts ?cells ?groups]
  have bars: "let cells = column_cells h items;
               cats = first_seen (map fst cells);
               groups = first_seen (map (fst \<circ> snd) cells);
               categoryWidth = (w - Fin 140) / num (length cats);
               barWidth = categoryWidth / (num (length groups) * Fin (12 / 10))
           in filter is_bar ?es
              = concat (map (\<lambda>(catIndex, c).
                  map (\<lambda>(groupIndex, g).
                    Elem ''rect''
                      [(''x'', [Num (Fin 80 + num catIndex * categoryWidth + num groupIndex * barWidth
                                     + (categoryWidth - num (length groups) * barWidth) / Fin 2)]),
                       (''y'', [Num (Fin 60 + (ht - Fin 140)
                                     - ((case pair_value cells c g of
                                           Some n \<Rightarrow> num_or n (Fin 0) | None \<Rightarrow> Fin 0)
                                        / largest_value cells)
                                       * (ht - Fin 140))]),
                       (''width'', [Num barWidth]),
                       (''height'', [Num (((case pair_value cells c g of
                                              Some n \<Rightarrow> num_or n (Fin 0) | None \<Rightarrow> Fin 0)
                                           / largest_value cells)
                                          * (ht - Fin 140))]),
                       (''fill'', [Lit ([''#4285f4'', ''#ea4335'', ''#fbbc04'', ''#34a853'',
                                         ''#9aa0a6'', ''#ff6d01''] ! (groupIndex mod 6))]),
                       (''class'', [Lit ''chart-bar''])] None)
                   (enumerate 0 groups))
                 (enumerate 0 cats))"
    unfolding Let_def rects by (simp add: chartArea_def column_colors_def)
  have count: "length (filter is_bar ?es)
                 = card (column_categories h items) * card (column_groups h items)"
    using column_bars_grid_aux[OF assms, of h w ht opts] gen by auto
  have zero: "\<forall>H. ht = Fin H \<and> (\<forall>x\<in>set ?cells. snd (snd x) \<noteq> NaN)
              \<longrightarrow> (Fin 0 / largest_value ?cells) * (ht - Fin 140) = Fin 0"
    using zero_over_largest[of ?cells] by blast
  show ?thesis
    by (rule exI[of _ ?es]) (intro conjI gen bars count zero)
qed

text \<open>
  Witness for C3: the two cells (Q1, A) of the value 10 and (Q2, B) of the value 20 on a
  canvas of 800 by 600. The engine draws four rects; those of the absent pairs (Q1, B)
  and (Q2, A) have the height 0 and stand on the baseline, \<open>y = 520\<close>.
\<close>

theorem column_draws_every_pair_witness:
  "\<exists>es. generateColumnChart sample_host (DataArray two_cells_example) (Fin 800) (Fin 600)
           empty_options = Inr es
        \<and> filter is_bar es
            = [Elem ''rect''
                 [(''x'', [Num (Fin (215 / 2))]), (''y'', [Num (Fin 290)]),
                  (''width'', [Num (Fin (275 / 2))]), (''height'', [Num (Fin 230)]),
                  (''fill'', [Lit ''#4285f4'']), (''class'', [Lit ''chart-bar''])] None,
               Elem ''rect''
                 [(''x'', [Num (Fin 245)]), (''y'', [Num (Fin 520)]),
                  (''width'', [Num (Fin (275 / 2))]), (''height'', [Num (Fin 0)]),
                  (''fill'', [Lit ''#ea4335'']), (''class'', [Lit ''chart-bar''])] None,
               Elem ''rect''
                 [(''x'', [Num (Fin (875 / 2))]), (''y'', [Num (Fin 520)]),
                  (''width'', [Num (Fin (275 / 2))]), (''height'', [Num (Fin 0)]),
                  (''fill'', [Lit ''#4285f4'']), (''class'', [Lit ''chart-bar''])] None,
               Elem ''rect''
                 [(''x'', [Num (Fin 575)]), (''y'', [Num (Fin 60)]),
                  (''width'', [Num (Fin (275 / 2))]), (''height'', [Num (Fin 460)]),
                  (''fill'', [Lit ''#ea4335'']), (''class'', [Lit ''chart-bar''])] None]
        \<and> length (filter is_bar es) = 4
        \<and> (Fin 0 / largest_value (column_cells sample_host two_cells_example))
            * (Fin 600 - Fin 140) = Fin 0"
proof -
  have a: "two_cells_example \<noteq> []" "\<forall>it\<in>set two_cells_example. it \<noteq> Prim PNull"
    by (simp_all add: two_cells_example_def)
  from column_draws_every_pair[OF a, of sample_host "Fin 800" "Fin 600" empty_options]
  obtain es where
    gen: "generateColumnChart sample_host (DataArray two_cells_example) (Fin 800) (Fin 600)
            empty_options = Inr es"
    and bars: "let cells = column_cells sample_host two_cells_example;
               cats = first_seen (map fst cells);
               groups = first_seen (map (fst \<circ> snd) cells);
               categoryWidth = (Fin 800 - Fin 140) / num (length cats);
               barWidth = categoryWidth / (num (length groups) * Fin (12 / 10))
           in filter is_bar es
              = concat (map (\<lambda>(catIndex, c).
                  map (\<lambda>(groupIndex, g).
                    Elem ''rect''
                      [(''x'', [Num (Fin 80 + num catIndex * categoryWidth + num groupIndex * barWidth
                                     + (categoryWidth - num (length groups) * barWidth) / Fin 2)]),
                       (''y'', [Num (Fin 60 + (Fin 600 - Fin 140)
                                     - ((case pair_value cells c g of
                                           Some n \<Rightarrow> num_or n (Fin 0) | None \<Rightarrow> Fin 0)
                                        / largest_value cells)
                                       * (Fin 600 - Fin 140))]),
                       (''width'', [Num barWidth]),
                       (''height'', [Num (((case pair_value cells c g of
                                              Some n \<Rightarrow> num_or n (Fin 0) | None \<Rightarrow> Fin 0)
                                           / largest_value cells)
                                          * (Fin 600 - Fin 140))]),
                       (''fill'', [Lit ([''#4285f4'', ''#ea4335'', ''#fbbc04'', ''#34a853'',
                                         ''#9aa0a6'', ''#ff6d01''] ! (groupIndex mod 6))]),
                       (''class'', [Lit ''chart-bar''])] None)
                   (enumerate 0 groups))
                 (enumerate 0 cats))"
    and count: "length (filter is_bar es)
                  = card (column_categories sample_host two_cells_example)
                    * card (column_groups sample_host two_cells_example)"
    and zero: "\<forall>H. Fin 600 = Fin H
                  \<and> (\<forall>x\<in>set (column_cells sample_host two_cells_example). snd (snd x) \<noteq> NaN)
                \<longrightarrow> (Fin 0 / largest_value (column_cells sample_host two_cells_example))
                    * (Fin 600 - Fin 140) = Fin 0"
    by blast
  have lv: "largest_value [(''Q1'', PStr ''A'', Fin 10), (''Q2'', PStr ''B'', Fin 20)] = Fin 20"
    by (simp add: largest_value_def pair_values_def groups_in_def first_seen_def pair_value_def)
  have b: "filter is_bar es
            = [Elem ''rect''
                 [(''x'', [Num (Fin (215 / 2))]), (''y'', [Num (Fin 290)]),
                  (''width'', [Num (Fin (275 / 2))]), (''height'', [Num (Fin 230)]),
                  (''fill'', [Lit ''#4285f4'']), (''class'', [Lit ''chart-bar''])] None,
               Elem ''rect''
                 [(''x'', [Num (Fin 245)]), (''y'', [Num (Fin 520)]),
                  (''width'', [Num (Fin (275 / 2))]), (''height'', [Num (Fin 0)]),
                  (''fill'', [Lit ''#ea4335'']), (''class'', [Lit ''chart-bar''])] None,
               Elem ''rect''
                 [(''x'', [Num (Fin (875 / 2))]), (''y'', [Num (Fin 520)]),
                  (''width'', [Num (Fin (275 / 2))]), (''height'', [Num (Fin 0)]),
                  (''fill'', [Lit ''#4285f4'']), (''class'', [Lit ''chart-bar''])] None,
               Elem ''rect''
                 [(''x'', [Num (Fin 575)]), (''y'', [Num (Fin 60)]),
                  (''width'', [Num (Fin (275 / 2))]), (''height'', [Num (Fin 460)]),
                  (''fill'', [Lit ''#ea4335'']), (''class'', [Lit ''chart-bar''])] None]"
    using bars
    by (simp add: two_cells_cells Let_def lv first_seen_def pair_value_def num_def num_or_def
        minus_jsnum_def)
  have c: "length (filter is_bar es) = 4"
    using count by (simp add: column_categories_def column_groups_def two_cells_cells)
  have z: "(Fin 0 / largest_value (column_cells sample_host two_cells_example))
            * (Fin 600 - Fin 140) = Fin 0"
    using zero by (simp add: two_cells_cells)
  show ?thesis by (rule exI[of _ es]) (intro conjI gen b c z)
qed

section \<open>Properties of the line engine\<close>

lemma traverse_length: "traverse f xs = Inr ys \<Longrightarrow> length ys = length xs"
  by (induction xs arbitrary: ys) (auto split: sum.splits)

lemma traverse_nth: "traverse f xs = Inr ys \<Longrightarrow> i < length xs \<Longrightarrow> f (xs ! i) = Inr (ys ! i)"
proof (induction xs arbitrary: ys i)
  case Nil
  then show ?case by simp
next
  case (Cons x xs)
  then show ?case by (cases i) (auto split: sum.splits)
qed

lemma traverse_ok:
  "(\<And>x. x \<in> set xs \<Longrightarrow> \<exists>y. f x = Inr y) \<Longrightarrow> \<exists>ys. traverse f xs = Inr ys"
proof (induction xs)
  case Nil
  then show ?case by simp
next
  case (Cons x xs)
  from Cons.prems[of x] obtain y where y: "f x = Inr y" by auto
  from Cons.IH Cons.prems obtain ys where ys: "traverse f xs = Inr ys" by auto
  from y ys show ?case by simp
qed

lemma line_point_ok: "it \<noteq> Prim PNull \<Longrightarrow> \<exists>y. line_point h it = Inr y"
  by (cases "(h, it)" rule: line_point.cases) simp_all

lemma line_point_unknown:
  "it \<noteq> Prim PNull \<Longrightarrow> \<not> carries_label_and_value it \<Longrightarrow>
   line_point h it = Inr (''Unknown'', num_or (item_to_number h it) (Fin 0))"
  by (cases "(h, it)" rule: line_point.cases) auto

lemma filter_map_all: "(\<And>x. P (f x)) \<Longrightarrow> filter P (map f xs) = map f xs"
  by (induction xs) auto

lemma filter_map_none: "(\<And>x. \<not> P (f x)) \<Longrightarrow> filter P (map f xs) = []"
  by (induction xs) auto

lemma filter_concat_map_none:
  "(\<And>x. filter P (f x) = []) \<Longrightarrow> filter P (concat (map f xs)) = []"
  by (induction xs) auto

lemma length_filter_concat_map_one:
  "(\<And>x. length (filter P (f x)) = 1) \<Longrightarrow> length (filter P (concat (map f xs))) = length xs"
  by (induction xs) auto

lemma line_chart_circles:
  "length (filter is_circle (line_chart a opts points)) = length points"
proof -
  have c: "\<And>x. is_circle (line_circle x)" by (simp add: line_circle_def is_circle_def split: prod.splits)
  have l: "\<And>x n mn r. filter is_circle (line_labels a n mn r x) = []"
    by (simp add: line_labels_def is_circle_def line_axis_label_def line_value_label_def Let_def split: prod.splits)
  show ?thesis
    by (simp add: line_chart_def Let_def filter_map_all[of is_circle, OF c, unfolded comp_def] comp_def
        filter_concat_map_none[OF l] axes_def axis_titles_def axisXTitle_elem_def axisYTitle_elem_def is_circle_def[of "Elem _ _ _"])
qed

lemma line_chart_value_labels:
  "length (filter is_value_label (line_chart a opts points)) = length points"
proof -
  have c: "\<And>x. \<not> is_value_label (line_circle x)"
    by (simp add: line_circle_def is_value_label_def split: prod.splits)
  have l: "\<And>x n mn r. length (filter is_value_label (line_labels a n mn r x)) = 1"
    by (simp add: line_labels_def is_value_label_def line_axis_label_def line_value_label_def
        attr_def Let_def split: prod.splits)
  show ?thesis
    by (simp add: line_chart_def Let_def filter_map_none[of is_value_label, OF c] comp_def
        length_filter_concat_map_one[OF l] axes_def axis_titles_def axisXTitle_elem_def
        axisYTitle_elem_def is_value_label_def[of "Elem _ _ _"] attr_def)
qed

lemma line_chart_path:
  "\<exists>pts. length pts = length points
         \<and> filter is_path (line_chart a opts points)
             = [Elem ''path'' [(''d'', path_ML pts), (''stroke'', [Lit ''#4285f4'']),
                              (''class'', [Lit ''chart-line''])] None]"
proof -
  have c: "\<And>x. \<not> is_path (line_circle x)"
    by (simp add: line_circle_def is_path_def split: prod.splits)
  have l: "\<And>x n mn r. filter is_path (line_labels a n mn r x) = []"
    by (simp add: line_labels_def is_path_def line_axis_label_def line_value_label_def
        Let_def split: prod.splits)
  let ?pts = "map (line_xy a (length points) (Math_min (map snd points))
                    (num_or (Math_max (map snd points) - Math_min (map snd points)) (Fin 1)))
                  (enumerate 0 points)"
  have "filter is_path (line_chart a opts points)
             = [Elem ''path'' [(''d'', path_ML ?pts), (''stroke'', [Lit ''#4285f4'']),
                              (''class'', [Lit ''chart-line''])] None]"
    by (simp add: line_chart_def Let_def filter_map_none[of is_path, OF c] comp_def
        filter_concat_map_none[OF l] axes_def axis_titles_def axisXTitle_elem_def
        axisYTitle_elem_def is_path_def[of "Elem _ _ _"])
  moreover have "length ?pts = length points" by simp
  ultimately show ?thesis by blast
qed

text \<open>
  The rest of the engine does what C10 says. For every non-empty data array whose items
  are objects or primitive values other than \<open>null\<close>, the line engine returns a chart
  in which no item is dropped: the items are normalised to as many points; an item that
  is not an object carrying \<open>time\<close> or \<open>category\<close>, and \<open>value\<close>, becomes the
  point \<open>'Unknown'\<close> with the value \<open>Number(item) || 0\<close>; the chart has one circle
  and one value label per item; and its one path has as many coordinate pairs as there
  are items.
\<close>

lemma line_keeps_non_null_items:
  assumes "items \<noteq> []" and "\<forall>it\<in>set items. it \<noteq> Prim PNull"
  shows "\<exists>es points pts.
           generateLineChart h (DataArray items) w ht opts = Inr es
           \<and> traverse (line_point h) items = Inr points
           \<and> length points = length items
           \<and> (\<forall>i<length items. \<not> carries_label_and_value (items ! i) \<longrightarrow>
                 points ! i = (''Unknown'', num_or (item_to_number h (items ! i)) (Fin 0)))
           \<and> length (filter is_circle es) = length items
           \<and> length (filter is_value_label es) = length items
           \<and> length pts = length items
           \<and> filter is_path es
               = [Elem ''path'' [(''d'', path_ML pts), (''stroke'', [Lit ''#4285f4'']),
                                (''class'', [Lit ''chart-line''])] None]"
proof -
  from traverse_ok[of items "line_point h"] assms(2) line_point_ok
  obtain points where tr: "traverse (line_point h) items = Inr points" by blast
  have len: "length points = length items" by (rule traverse_length[OF tr])
  have unk: "\<forall>i<length items. \<not> carries_label_and_value (items ! i) \<longrightarrow>
                 points ! i = (''Unknown'', num_or (item_to_number h (items ! i)) (Fin 0))"
  proof (intro allI impI)
    fix i assume i: "i < length items" and nc: "\<not> carries_label_and_value (items ! i)"
    from assms(2) i have "items ! i \<noteq> Prim PNull" by simp
    from line_point_unknown[OF this nc, of h] traverse_nth[OF tr i]
    show "points ! i = (''Unknown'', num_or (item_to_number h (items ! i)) (Fin 0))" by simp
  qed
  have gen: "generateLineChart h (DataArray items) w ht opts
               = Inr (line_chart (chartArea w ht) opts points)"
    using assms(1) tr by (simp add: generateLineChart_def)
  from line_chart_path[of points "chartArea w ht" opts] obtain pts where
    pts: "length pts = length points"
      "filter is_path (line_chart (chartArea w ht) opts points)
         = [Elem ''path'' [(''d'', path_ML pts), (''stroke'', [Lit ''#4285f4'']),
                          (''class'', [Lit ''chart-line''])] None]"
    by blast
  show ?thesis
    apply (rule exI[of _ "line_chart (chartArea w ht) opts points"])
    apply (rule exI[of _ points])
    apply (rule exI[of _ pts])
    using gen tr len unk pts line_chart_circles[of "chartArea w ht" opts points]
      line_chart_value_labels[of "chartArea w ht" opts points]
    by simp
qed

text \<open>
  An example: an array of three items, two of which carry no label and value.
\<close>

lemma line_keeps_non_null_items_example:
  "\<exists>es points pts.
     generateLineChart sample_host (DataArray line_example) (Fin 800) (Fin 600) empty_options
       = Inr es
     \<and> traverse (line_point sample_host) line_example = Inr points
     \<and> length points = 3
     \<and> points ! 1 = (''Unknown'', Fin 7)
     \<and> points ! 2 = (''Unknown'', Fin 0)
     \<and> length (filter is_circle es) = 3
     \<and> length (filter is_value_label es) = 3
     \<and> length pts = 3
     \<and> filter is_path es
         = [Elem ''path'' [(''d'', path_ML pts), (''stroke'', [Lit ''#4285f4'']),
                          (''class'', [Lit ''chart-line''])] None]"
proof -
  have a: "line_example \<noteq> []" "\<forall>it\<in>set line_example. it \<noteq> Prim PNull"
    by (simp_all add: line_example_def)
  have len: "length line_example = 3" by (simp add: line_example_def)
  from line_keeps_non_null_items[OF a, of sample_host "Fin 800" "Fin 600" empty_options]
  obtain es points pts where
    r: "generateLineChart sample_host (DataArray line_example) (Fin 800) (Fin 600) empty_options
          = Inr es"
       "traverse (line_point sample_host) line_example = Inr points"
       "length points = length line_example"
       "\<forall>i<length line_example. \<not> carries_label_and_value (line_example ! i) \<longrightarrow>
          points ! i = (''Unknown'', num_or (item_to_number sample_host (line_example ! i)) (Fin 0))"
       "length (filter is_circle es) = length line_example"
       "length (filter is_value_label es) = length line_example"
       "length pts = length line_example"
       "filter is_path es
         = [Elem ''path'' [(''d'', path_ML pts), (''stroke'', [Lit ''#4285f4'']),
                          (''class'', [Lit ''chart-line''])] None]"
    by blast
  from r(4)[rule_format, of 1] have p1: "points ! 1 = (''Unknown'', Fin 7)"
    by (simp add: line_example_def num_or_def)
  from r(4)[rule_format, of 2] have p2: "points ! 2 = (''Unknown'', Fin 0)"
    by (simp add: line_example_def num_or_def field_def)
  from r p1 p2 len show ?thesis by auto
qed

lemma lower_line: "toLowerCase ''line'' = ''line''"
  by (simp add: toLowerCase_def toLowerCase_char_def)

text \<open>
  C10 fails on the code. \<open>null\<close> is an item that is no object carrying \<open>time\<close> or
  \<open>category\<close>, and \<open>value\<close>, and \<open>Number(null) || 0\<close> is 0; but \<open>typeof null\<close> is
  \<open>'object'\<close>, so the engine reads \<open>item.time\<close> of it and throws a TypeError. For the
  data \<open>[null]\<close>, and for a labelled point followed by \<open>null\<close>, the engine emits
  nothing: no circle, no label and no path.
\<close>

theorem line_null_item_throws:
  "\<forall>h w ht opts.
     generateLineChart h (DataArray [Prim PNull]) w ht opts = Inl TypeError
     \<and> generateLineChart h
         (DataArray [Obj [(''time'', PStr ''Jan''), (''value'', PNum (Fin 22))], Prim PNull])
         w ht opts = Inl TypeError
     \<and> generateSvgContent h ''line'' (data_request [Prim PNull]) = Inl TypeError
     \<and> num_or (to_number h PNull) (Fin 0) = Fin 0"
  by (simp add: generateSvgContent_def chartElements_def lower_line generateLineChart_def
      data_request_def empty_options_def Let_def num_or_def field_def)

section \<open>Properties of the dual-axes engine\<close>

lemma left_dual_bar: "left_tick_labels (dual_bar a b c n i) = []"
  by (simp add: left_tick_labels_def dual_bar_def Let_def attr_def)

lemma left_dual_point: "left_tick_labels (dual_point a l n i) = []"
  by (simp add: left_tick_labels_def dual_point_def Let_def attr_def split: prod.splits)

lemma left_dual_axes_lines: "left_tick_labels (dual_axes_lines a) = []"
  by (simp add: left_tick_labels_def dual_axes_lines_def)

lemma left_left_tick: "left_tick_labels (left_tick a (maxBarValue b) i) = [left_tick_label a b i]"
  by (simp add: left_tick_labels_def left_tick_def left_tick_label_def Let_def attr_def)

lemma left_right_tick: "left_tick_labels (right_tick a m i) = []"
  by (simp add: left_tick_labels_def right_tick_def Let_def attr_def)

lemma left_dual_titles: "left_tick_labels (dual_titles a opts) = []"
  by (simp add: left_tick_labels_def dual_titles_def axisXTitle_elem_def attr_def
      split: option.splits list.splits)

lemma left_dual_legend: "left_tick_labels (dual_legend a) = []"
  by (simp add: left_tick_labels_def dual_legend_def attr_def)

lemma left_placeholder: "left_tick_labels (placeholder m) = []"
  by (simp add: left_tick_labels_def placeholder_def attr_def)

lemma left_append: "left_tick_labels (xs @ ys) = left_tick_labels xs @ left_tick_labels ys"
  by (simp add: left_tick_labels_def)

lemma left_concat_none:
  "(\<And>x. left_tick_labels (f x) = []) \<Longrightarrow> left_tick_labels (concat (map f xs)) = []"
  unfolding left_tick_labels_def by (rule filter_concat_map_none)

lemma left_concat_single:
  "(\<And>x. left_tick_labels (f x) = [g x]) \<Longrightarrow> left_tick_labels (concat (map f xs)) = map g xs"
  unfolding left_tick_labels_def by (rule filter_concat_map_single)

lemma left_single_path: "left_tick_labels (Elem ''path'' as b # es) = left_tick_labels es"
  by (simp add: left_tick_labels_def)

lemma dual_chart_left:
  "left_tick_labels (dual_chart a opts (barData, lineData, cats)) =
     (if barData = [] \<and> lineData = [] then [] else map (left_tick_label a barData) [0..<6])"
  by (simp add: dual_chart_def Let_def left_append left_placeholder left_single_path
      left_concat_none[of "dual_bar a barData cats n" for n, OF left_dual_bar]
      left_concat_none[of "dual_point a lineData n" for n, OF left_dual_point]
      left_concat_none[of "right_tick a m" for m, OF left_right_tick]
      left_concat_single[of "left_tick a (maxBarValue barData)" "left_tick_label a barData", OF left_left_tick]
      left_dual_axes_lines left_dual_titles left_dual_legend del: upt.simps)

lemma right_dual_bar: "right_tick_labels (dual_bar a b c n i) = []"
  by (simp add: right_tick_labels_def dual_bar_def Let_def attr_def)

lemma right_dual_point: "right_tick_labels (dual_point a l n i) = []"
  by (simp add: right_tick_labels_def dual_point_def Let_def attr_def split: prod.splits)

lemma right_dual_axes_lines: "right_tick_labels (dual_axes_lines a) = []"
  by (simp add: right_tick_labels_def dual_axes_lines_def)

lemma right_right_tick:
  "right_tick_labels (right_tick a (maxLineValue l) i) = [right_tick_label a l i]"
  by (simp add: right_tick_labels_def right_tick_def right_tick_label_def Let_def attr_def)

lemma right_left_tick: "right_tick_labels (left_tick a m i) = []"
  by (simp add: right_tick_labels_def left_tick_def Let_def attr_def)

lemma right_dual_titles: "right_tick_labels (dual_titles a opts) = []"
  by (simp add: right_tick_labels_def dual_titles_def axisXTitle_elem_def attr_def
      split: option.splits list.splits)

lemma right_dual_legend: "right_tick_labels (dual_legend a) = []"
  by (simp add: right_tick_labels_def dual_legend_def attr_def)

lemma right_placeholder: "right_tick_labels (placeholder m) = []"
  by (simp add: right_tick_labels_def placeholder_def attr_def)

lemma right_append: "right_tick_labels (xs @ ys) = right_tick_labels xs @ right_tick_labels ys"
  by (simp add: right_tick_labels_def)

lemma right_concat_none:
  "(\<And>x. right_tick_labels (f x) = []) \<Longrightarrow> right_tick_labels (concat (map f xs)) = []"
  unfolding right_tick_labels_def by (rule filter_concat_map_none)

lemma right_concat_single:
  "(\<And>x. right_tick_labels (f x) = [g x]) \<Longrightarrow> right_tick_labels (concat (map f xs)) = map g xs"
  unfolding right_tick_labels_def by (rule filter_concat_map_single)

lemma right_single_path: "right_tick_labels (Elem ''path'' as b # es) = right_tick_labels es"
  by (simp add: right_tick_labels_def)

lemma dual_chart_right:
  "right_tick_labels (dual_chart a opts (barData, lineData, cats)) =
     (if barData = [] \<and> lineData = [] then [] else map (right_tick_label a lineData) [0..<6])"
  by (simp add: dual_chart_def Let_def right_append right_placeholder right_single_path
      right_concat_none[of "dual_bar a barData cats n" for n, OF right_dual_bar]
      right_concat_none[of "dual_point a lineData n" for n, OF right_dual_point]
      right_concat_none[of "left_tick a m" for m, OF right_left_tick]
      right_concat_single[of "right_tick a (maxLineValue lineData)" "right_tick_label a lineData", OF right_right_tick]
      right_dual_axes_lines right_dual_titles right_dual_legend del: upt.simps)

text \<open>
  C4. Take two requests of the dual-axes engine on the same canvas, and the bar series
  and the line series that the engine reads from each (\<open>barData\<close> and \<open>lineData\<close> of
  the source, from either input format). If the bar series are the same and the line
  series differ only in their values, the labels of the left axis are the same in the
  two outputs; if the line series are the same and the bar series differ only in their
  values, the labels of the right axis are the same. When a chart is drawn, the labels
  of an axis are those of the steps 0 to 5 (six labels, five intervals), computed from
  the chart area and the axis's own series only.
\<close>

theorem dual_axes_ticks_independent:
  assumes "dual_input h d1 o1 = Inr (barData1, lineData1, cats1)"
    and "dual_input h d2 o2 = Inr (barData2, lineData2, cats2)"
  shows "\<exists>es1 es2.
           generateDualAxesChart h d1 w ht o1 = Inr es1
           \<and> generateDualAxesChart h d2 w ht o2 = Inr es2
           \<and> (barData1 = barData2 \<and> length lineData1 = length lineData2
                \<longrightarrow> left_tick_labels es1 = left_tick_labels es2)
           \<and> (lineData1 = lineData2 \<and> length barData1 = length barData2
                \<longrightarrow> right_tick_labels es1 = right_tick_labels es2)
           \<and> (\<not> (barData1 = [] \<and> lineData1 = [])
                \<longrightarrow> left_tick_labels es1 = map (left_tick_label (chartArea w ht) barData1) [0..<6]
                    \<and> right_tick_labels es1 = map (right_tick_label (chartArea w ht) lineData1) [0..<6])"
proof -
  have g1: "generateDualAxesChart h d1 w ht o1
              = Inr (dual_chart (chartArea w ht) o1 (barData1, lineData1, cats1))"
    using assms(1) by (simp add: generateDualAxesChart_def)
  have g2: "generateDualAxesChart h d2 w ht o2
              = Inr (dual_chart (chartArea w ht) o2 (barData2, lineData2, cats2))"
    using assms(2) by (simp add: generateDualAxesChart_def)
  show ?thesis
    apply (rule exI[of _ "dual_chart (chartArea w ht) o1 (barData1, lineData1, cats1)"])
    apply (rule exI[of _ "dual_chart (chartArea w ht) o2 (barData2, lineData2, cats2)"])
    apply (simp only: g1 g2 dual_chart_left dual_chart_right)
    by auto
qed

lemma dual_example_input:
  "dual_input h d (dual_example columnData lineData) = Inr (columnData, lineData, [''a'', ''b''])"
  by (simp add: dual_input_def dual_example_def empty_options_def)

text \<open>
  Witness for C4: changing the line values from 1, 2 to 5, 50 leaves the left labels as
  they are, and changing the bar values from 10, 20 to 300, 7 leaves the right labels as
  they are.
\<close>

theorem dual_axes_ticks_independent_witness:
  "(\<exists>es1 es2.
      generateDualAxesChart sample_host (DataArray []) (Fin 800) (Fin 600)
        (dual_example [Fin 10, Fin 20] [Fin 1, Fin 2]) = Inr es1
      \<and> generateDualAxesChart sample_host (DataArray []) (Fin 800) (Fin 600)
          (dual_example [Fin 10, Fin 20] [Fin 5, Fin 50]) = Inr es2
      \<and> left_tick_labels es1 = left_tick_labels es2
      \<and> left_tick_labels es1
          = map (left_tick_label (chartArea (Fin 800) (Fin 600)) [Fin 10, Fin 20]) [0..<6]
      \<and> right_tick_labels es1
          = map (right_tick_label (chartArea (Fin 800) (Fin 600)) [Fin 1, Fin 2]) [0..<6])
   \<and> (\<exists>es1 es3.
        generateDualAxesChart sample_host (DataArray []) (Fin 800) (Fin 600)
          (dual_example [Fin 10, Fin 20] [Fin 1, Fin 2]) = Inr es1
        \<and> generateDualAxesChart sample_host (DataArray []) (Fin 800) (Fin 600)
            (dual_example [Fin 300, Fin 7] [Fin 1, Fin 2]) = Inr es3
        \<and> right_tick_labels es1 = right_tick_labels es3)"
proof -
  from dual_axes_ticks_independent[where w = "Fin 800" and ht = "Fin 600",
      OF dual_example_input[of sample_host "DataArray []" "[Fin 10, Fin 20]" "[Fin 1, Fin 2]"]
         dual_example_input[of sample_host "DataArray []" "[Fin 10, Fin 20]" "[Fin 5, Fin 50]"]]
  have a: "\<exists>es1 es2.
      generateDualAxesChart sample_host (DataArray []) (Fin 800) (Fin 600)
        (dual_example [Fin 10, Fin 20] [Fin 1, Fin 2]) = Inr es1
      \<and> generateDualAxesChart sample_host (DataArray []) (Fin 800) (Fin 600)
          (dual_example [Fin 10, Fin 20] [Fin 5, Fin 50]) = Inr es2
      \<and> left_tick_labels es1 = left_tick_labels es2
      \<and> left_tick_labels es1
          = map (left_tick_label (chartArea (Fin 800) (Fin 600)) [Fin 10, Fin 20]) [0..<6]
      \<and> right_tick_labels es1
          = map (right_tick_label (chartArea (Fin 800) (Fin 600)) [Fin 1, Fin 2]) [0..<6]"
    by (simp del: upt.simps)
  from dual_axes_ticks_independent[where w = "Fin 800" and ht = "Fin 600",
      OF dual_example_input[of sample_host "DataArray []" "[Fin 10, Fin 20]" "[Fin 1, Fin 2]"]
         dual_example_input[of sample_host "DataArray []" "[Fin 300, Fin 7]" "[Fin 1, Fin 2]"]]
  have b: "\<exists>es1 es3.
        generateDualAxesChart sample_host (DataArray []) (Fin 800) (Fin 600)
          (dual_example [Fin 10, Fin 20] [Fin 1, Fin 2]) = Inr es1
        \<and> generateDualAxesChart sample_host (DataArray []) (Fin 800) (Fin 600)
            (dual_example [Fin 300, Fin 7] [Fin 1, Fin 2]) = Inr es3
        \<and> right_tick_labels es1 = right_tick_labels es3"
    by (simp del: upt.simps) blast
  from a b show ?thesis by (rule conjI)
qed

section \<open>Properties of the funnel engine\<close>

lemma funnel_shape_tag:
  "tag (funnel_shape a stages x) = (if fst x = length stages - 1 then ''rect'' else ''polygon'')"
  by (cases x) (simp add: funnel_shape_def Let_def)

lemma funnel_stage_conversion:
  "filter is_conversion (funnel_stage a stages (i, l, v))
     = (if 0 < i then [funnel_conversion a stages i] else [])"
  by (simp add: funnel_stage_def Let_def is_conversion_def funnel_shape_tag attr_def
      funnel_conversion_def)

lemma funnel_stage_shape:
  "filter is_stage_shape (funnel_stage a stages x) = [funnel_shape a stages x]"
  by (cases x) (simp add: funnel_stage_def Let_def is_stage_shape_def funnel_shape_tag
      funnel_conversion_def)

lemma filter_concat_enumerate_pos:
  assumes "\<And>i x. filter P (f (i, x)) = (if 0 < i then [g i] else [])"
  shows "filter P (concat (map f (enumerate k xs))) = map g (filter (\<lambda>i. 0 < i) [k..<k + length xs])"
proof (induction xs arbitrary: k)
  case Nil
  then show ?case by simp
next
  case (Cons x xs)
  have "[k..<k + length (x # xs)] = k # [Suc k..<Suc k + length xs]"
    by (simp add: upt_rec)
  with Cons[of "Suc k"] assms[of k x] show ?case by simp
qed

lemma filter_pos_upt: "filter (\<lambda>i. 0 < i) [0..<n] = [1..<n]"
proof (cases n)
  case 0
  then show ?thesis by simp
next
  case (Suc m)
  have "[0..<Suc m] = 0 # [1..<Suc m]" by (simp add: upt_rec)
  then show ?thesis using Suc by (simp del: upt_Suc)
qed

lemma funnel_chart_conversions:
  "filter is_conversion (funnel_chart a stages) = map (funnel_conversion a stages) [1..<length stages]"
proof -
  have "filter is_conversion (concat (map (funnel_stage a stages) (enumerate 0 stages)))
          = map (funnel_conversion a stages) (filter (\<lambda>i. 0 < i) [0..<0 + length stages])"
  proof (rule filter_concat_enumerate_pos)
    fix i x
    show "filter is_conversion (funnel_stage a stages (i, x))
            = (if 0 < i then [funnel_conversion a stages i] else [])"
      by (cases x) (simp only: funnel_stage_conversion)
  qed
  then show ?thesis by (simp add: funnel_chart_def filter_pos_upt)
qed

lemma funnel_chart_shapes:
  "filter is_stage_shape (funnel_chart a stages) = map (funnel_shape a stages) (enumerate 0 stages)"
  unfolding funnel_chart_def by (rule filter_concat_map_single) (rule funnel_stage_shape)

lemma category_point_ok: "it \<noteq> Prim PNull \<Longrightarrow> \<exists>y. category_point h it = Inr y"
  by (cases "(h, it)" rule: category_point.cases) simp_all

lemma category_point_normalized:
  "it \<noteq> Prim PNull \<Longrightarrow> category_point h it = Inr (normalized h it)"
  by (cases "(h, it)" rule: category_point.cases) (simp_all add: num_or_def)

lemma traverse_map:
  "(\<And>x. x \<in> set xs \<Longrightarrow> f x = Inr (g x)) \<Longrightarrow> traverse f xs = Inr (map g xs)"
  by (induction xs) simp_all

lemma funnel_stages:
  "\<forall>it\<in>set items. it \<noteq> Prim PNull
   \<Longrightarrow> traverse (category_point h) items = Inr (map (normalized h) items)"
  by (rule traverse_map) (simp add: category_point_normalized)

lemma map_enumerate_cong:
  "(\<And>i. i < length xs \<Longrightarrow> f (i, xs ! i) = g (i, xs ! i))
   \<Longrightarrow> map f (enumerate 0 xs) = map g (enumerate 0 xs)"
  by (rule map_cong) (auto simp: in_set_enumerate_eq)

text \<open>
  C7, as stated, fails on a canvas narrower than the two margins of the funnel. With the
  canvas width 100, \<open>chartArea.width\<close> is -100: the rect of a last stage of the ratio
  \<open>value / maxValue = 1\<close> has the width -100, and that of a last stage of the ratio
  1/2 has the width -50. The width falls as the ratio grows.
\<close>

theorem funnel_narrow_canvas_counterexample:
  "\<forall>h. (\<exists>es. generateFunnelChart h (DataArray one_stage_example) (Fin 100) (Fin 600)
                 empty_options = Inr es
               \<and> map (attr ''width'') (filter is_stage_shape es) = [Some [Num (Fin (- 100))]])
       \<and> (\<exists>es. generateFunnelChart h (DataArray two_stage_example) (Fin 100) (Fin 600)
                   empty_options = Inr es
                 \<and> attr ''width'' (last (filter is_stage_shape es)) = Some [Num (Fin (- 50))])
       \<and> Fin 10 / Math_max [Fin 10] = Fin 1
       \<and> Fin 5 / Math_max [Fin 10, Fin 5] = Fin (1 / 2)
       \<and> \<not> js_le (Fin (- 50)) (Fin (- 100))"
proof
  fix h
  have g1: "generateFunnelChart h (DataArray one_stage_example) (Fin 100) (Fin 600) empty_options
              = Inr (funnel_chart (funnelArea (Fin 100) (Fin 600)) [(''A'', Fin 10)])"
    by (simp add: generateFunnelChart_def one_stage_example_def field_def)
  have g2: "generateFunnelChart h (DataArray two_stage_example) (Fin 100) (Fin 600) empty_options
              = Inr (funnel_chart (funnelArea (Fin 100) (Fin 600))
                       [(''A'', Fin 10), (''B'', Fin 5)])"
    by (simp add: generateFunnelChart_def two_stage_example_def field_def)
  have w1: "map (attr ''width'')
              (filter is_stage_shape (funnel_chart (funnelArea (Fin 100) (Fin 600)) [(''A'', Fin 10)]))
            = [Some [Num (Fin (- 100))]]"
    by (simp add: funnel_chart_shapes funnel_shape_def Let_def attr_def stageWidth_def
        widthRatio_def funnel_maxValue_def Math_max_def funnelArea_def minus_jsnum_def)
  have w2: "attr ''width''
              (last (filter is_stage_shape
                       (funnel_chart (funnelArea (Fin 100) (Fin 600))
                          [(''A'', Fin 10), (''B'', Fin 5)])))
            = Some [Num (Fin (- 50))]"
    by (simp add: funnel_chart_shapes funnel_shape_def Let_def attr_def stageWidth_def
        widthRatio_def funnel_maxValue_def Math_max_def funnelArea_def minus_jsnum_def)
  have r: "Fin 10 / Math_max [Fin 10] = Fin 1" "Fin 5 / Math_max [Fin 10, Fin 5] = Fin (1 / 2)"
    by (simp_all add: Math_max_def)
  show "(\<exists>es. generateFunnelChart h (DataArray one_stage_example) (Fin 100) (Fin 600)
                 empty_options = Inr es
               \<and> map (attr ''width'') (filter is_stage_shape es) = [Some [Num (Fin (- 100))]])
       \<and> (\<exists>es. generateFunnelChart h (DataArray two_stage_example) (Fin 100) (Fin 600)
                   empty_options = Inr es
                 \<and> attr ''width'' (last (filter is_stage_shape es)) = Some [Num (Fin (- 50))])
       \<and> Fin 10 / Math_max [Fin 10] = Fin 1
       \<and> Fin 5 / Math_max [Fin 10, Fin 5] = Fin (1 / 2)
       \<and> \<not> js_le (Fin (- 50)) (Fin (- 100))"
    using g1 g2 w1 w2 r by simp
qed

lemma funnel_conversion_explicit:
  "funnel_conversion (funnelArea w ht) stages i
     = Elem ''text''
         [(''x'', [Num (Fin 100 + (w - Fin 200) + Fin 10)]),
          (''y'', [Num (Fin 80 + num i * ((ht - Fin 160) / num (length stages))
                        + (ht - Fin 160) / num (length stages) / Fin 2)]),
          (''class'', [Lit ''axis-label''])]
         (Some [Fixed 1 ((snd (stages ! i) / snd (stages ! (i - 1))) * Fin 100), Lit ''%''])"
  by (simp add: funnel_conversion_def Let_def funnelArea_def conversionRate_def)

lemma funnel_shape_explicit:
  assumes "i < length stages"
  shows "funnel_shape (funnelArea w ht) stages (i, l, v)
     = (let stageWidth = (w - Fin 200) * (v / Math_max (map snd stages));
            x = Fin 100 + ((w - Fin 200) - stageWidth) / Fin 2;
            y = Fin 80 + num i * ((ht - Fin 160) / num (length stages));
            color = [''#4285f4'', ''#5bb974'', ''#fbbc04'', ''#ea4335'', ''#9aa0a6'',
                     ''#ff6d01''] ! (i mod 6)
        in if i = length stages - 1 then
             Elem ''rect''
               [(''x'', [Num x]), (''y'', [Num y]), (''width'', [Num stageWidth]),
                (''height'', [Num ((ht - Fin 160) / num (length stages) - Fin 10)]),
                (''fill'', [Lit color]),
                (''stroke'', [Lit ''#fff'']), (''stroke-width'', [Lit ''2''])] None
           else
             let nextStageWidth = (w - Fin 200) * (snd (stages ! (i + 1)) / Math_max (map snd stages));
                 nextX = Fin 100 + ((w - Fin 200) - nextStageWidth) / Fin 2
             in Elem ''polygon''
                  [(''points'',
                      [Num x, Lit '','', Num y, Lit '' '', Num (x + stageWidth), Lit '','',
                       Num y, Lit '' '', Num (nextX + nextStageWidth), Lit '','',
                       Num (y + (ht - Fin 160) / num (length stages) - Fin 10), Lit '' '',
                       Num nextX, Lit '','',
                       Num (y + (ht - Fin 160) / num (length stages) - Fin 10)]),
                   (''fill'', [Lit color]), (''stroke'', [Lit ''#fff'']),
                   (''stroke-width'', [Lit ''2''])] None)"
proof (cases "i = length stages - 1")
  case True
  then show ?thesis
    by (simp add: funnel_shape_def Let_def funnelArea_def stageWidth_def widthRatio_def
        funnel_maxValue_def funnel_colors_def)
next
  case False
  with assms have "i + 1 < length stages" by simp
  with False show ?thesis
    by (simp add: funnel_shape_def Let_def funnelArea_def stageWidth_def widthRatio_def
        funnel_maxValue_def funnel_colors_def)
qed

text \<open>
  C7, amended. For every non-empty data array without a \<open>null\<close> item (and of a length
  inside the argument limit of \<open>Math.max(...values)\<close>), the funnel engine returns a chart
  in which
  \<^item> the conversion-rate texts are exactly those of the stages 1 to n - 1, in order (the
    first stage has none); the text of stage \<open>i\<close> stands right of the chart area, at
    \<open>x = chartArea.x + chartArea.width + 10\<close>, at the height of the middle of its stage,
    \<open>y = chartArea.y + i * stageHeight + stageHeight / 2\<close>, and reads
    \<open>(value[i] / value[i-1]) * 100\<close> with one decimal (\<open>toFixed(1)\<close>), followed by
    \<open>%\<close>;
  \<^item> the shapes are those of the stages, in order: the last stage is a rect of the width
    \<open>chartArea.width * (value / maxValue)\<close>, and any other stage is a trapezoid whose
    top edge runs from \<open>x\<close> to \<open>x\<close> plus that width and whose bottom edge has the
    width of the next stage;
  \<^item> on a canvas at least as wide as the two margins of the funnel (\<open>width >= 200\<close>, so
    that \<open>chartArea.width = width - 200\<close> is not negative), the width
    \<open>chartArea.width * ratio\<close> is a non-decreasing function of the ratio
    \<open>value / maxValue\<close>.
  Here the stages are the items as the specification normalises them, and
  \<open>chartArea\<close> is \<open>{x: 100, y: 80, width: width - 200, height: height - 160}\<close>.
\<close>

theorem funnel_conversions_and_widths:
  assumes "items \<noteq> []" and "\<forall>it\<in>set items. it \<noteq> Prim PNull" and "spread_safe items"
  shows
    "\<exists>es. generateFunnelChart h (DataArray items) w ht opts = Inr es
       \<and> (let stages = map (normalized h) items;
               n = length items;
               maxValue = Math_max (map snd stages);
               stageHeight = (ht - Fin 160) / num n
           in filter is_conversion es
                = map (\<lambda>i. Elem ''text''
                             [(''x'', [Num (Fin 100 + (w - Fin 200) + Fin 10)]),
                              (''y'', [Num (Fin 80 + num i * stageHeight + stageHeight / Fin 2)]),
                              (''class'', [Lit ''axis-label''])]
                             (Some [Fixed 1 ((snd (stages ! i) / snd (stages ! (i - 1))) * Fin 100),
                                    Lit ''%'']))
                    [1..<n]
              \<and> filter is_stage_shape es
                  = map (\<lambda>(i, label, v).
                      let stageWidth = (w - Fin 200) * (v / maxValue);
                          x = Fin 100 + ((w - Fin 200) - stageWidth) / Fin 2;
                          y = Fin 80 + num i * stageHeight;
                          color = [''#4285f4'', ''#5bb974'', ''#fbbc04'', ''#ea4335'', ''#9aa0a6'',
                                   ''#ff6d01''] ! (i mod 6)
                      in if i = n - 1 then
                           Elem ''rect''
                             [(''x'', [Num x]), (''y'', [Num y]), (''width'', [Num stageWidth]),
                              (''height'', [Num (stageHeight - Fin 10)]), (''fill'', [Lit color]),
                              (''stroke'', [Lit ''#fff'']), (''stroke-width'', [Lit ''2''])] None
                         else
                           let nextStageWidth = (w - Fin 200) * (snd (stages ! (i + 1)) / maxValue);
                               nextX = Fin 100 + ((w - Fin 200) - nextStageWidth) / Fin 2
                           in Elem ''polygon''
                                [(''points'',
                                    [Num x, Lit '','', Num y, Lit '' '', Num (x + stageWidth), Lit '','',
                                     Num y, Lit '' '', Num (nextX + nextStageWidth), Lit '','',
                                     Num (y + stageHeight - Fin 10), Lit '' '', Num nextX, Lit '','',
                                     Num (y + stageHeight - Fin 10)]),
                                 (''fill'', [Lit color]), (''stroke'', [Lit ''#fff'']),
                                 (''stroke-width'', [Lit ''2''])] None)
                      (enumerate 0 stages))
       \<and> (\<forall>W r1 r2. w = Fin W \<and> 200 \<le> W \<and> r1 \<le> r2
             \<longrightarrow> js_le ((w - Fin 200) * Fin r1) ((w - Fin 200) * Fin r2))"
proof -
  let ?stages = "map (normalized h) items"
  let ?es = "funnel_chart (funnelArea w ht) ?stages"
  have gen: "generateFunnelChart h (DataArray items) w ht opts = Inr ?es"
    using assms(1) by (simp add: generateFunnelChart_def funnel_stages[OF assms(2)])
  have conv: "filter is_conversion ?es
      = map (\<lambda>i. Elem ''text''
                   [(''x'', [Num (Fin 100 + (w - Fin 200) + Fin 10)]),
                    (''y'', [Num (Fin 80 + num i * ((ht - Fin 160) / num (length items))
                                  + (ht - Fin 160) / num (length items) / Fin 2)]),
                    (''class'', [Lit ''axis-label''])]
                   (Some [Fixed 1 ((snd (?stages ! i) / snd (?stages ! (i - 1))) * Fin 100),
                          Lit ''%'']))
          [1..<length items]"
    unfolding funnel_chart_conversions
    by (rule map_cong) (simp_all add: funnel_conversion_explicit)
  have shape: "filter is_stage_shape ?es
      = map (\<lambda>(i, l, v). (let stageWidth = (w - Fin 200) * (v / Math_max (map snd ?stages));
            x = Fin 100 + ((w - Fin 200) - stageWidth) / Fin 2;
            y = Fin 80 + num i * ((ht - Fin 160) / num (length ?stages));
            color = [''#4285f4'', ''#5bb974'', ''#fbbc04'', ''#ea4335'', ''#9aa0a6'',
                     ''#ff6d01''] ! (i mod 6)
        in if i = length ?stages - 1 then
             Elem ''rect''
               [(''x'', [Num x]), (''y'', [Num y]), (''width'', [Num stageWidth]),
                (''height'', [Num ((ht - Fin 160) / num (length ?stages) - Fin 10)]),
                (''fill'', [Lit color]),
                (''stroke'', [Lit ''#fff'']), (''stroke-width'', [Lit ''2''])] None
           else
             let nextStageWidth = (w - Fin 200) * (snd (?stages ! (i + 1)) / Math_max (map snd ?stages));
                 nextX = Fin 100 + ((w - Fin 200) - nextStageWidth) / Fin 2
             in Elem ''polygon''
                  [(''points'',
                      [Num x, Lit '','', Num y, Lit '' '', Num (x + stageWidth), Lit '','',
                       Num y, Lit '' '', Num (nextX + nextStageWidth), Lit '','',
                       Num (y + (ht - Fin 160) / num (length ?stages) - Fin 10), Lit '' '',
                       Num nextX, Lit '','',
                       Num (y + (ht - Fin 160) / num (length ?stages) - Fin 10)]),
                   (''fill'', [Lit color]), (''stroke'', [Lit ''#fff'']),
                   (''stroke-width'', [Lit ''2''])] None)) (enumerate 0 ?stages)"
    unfolding funnel_chart_shapes
  proof (rule map_enumerate_cong)
    fix i assume i: "i < length ?stages"
    obtain l v where lv: "?stages ! i = (l, v)" by (cases "?stages ! i")
    from funnel_shape_explicit[OF i, of w ht l v]
    show "funnel_shape (funnelArea w ht) ?stages (i, ?stages ! i)
            = (\<lambda>(i, l, v). (let stageWidth = (w - Fin 200) * (v / Math_max (map snd ?stages));
            x = Fin 100 + ((w - Fin 200) - stageWidth) / Fin 2;
            y = Fin 80 + num i * ((ht - Fin 160) / num (length ?stages));
            color = [''#4285f4'', ''#5bb974'', ''#fbbc04'', ''#ea4335'', ''#9aa0a6'',
                     ''#ff6d01''] ! (i mod 6)
        in if i = length ?stages - 1 then
             Elem ''rect''
               [(''x'', [Num x]), (''y'', [Num y]), (''width'', [Num stageWidth]),
                (''height'', [Num ((ht - Fin 160) / num (length ?stages) - Fin 10)]),
                (''fill'', [Lit color]),
                (''stroke'', [Lit ''#fff'']), (''stroke-width'', [Lit ''2''])] None
           else
             let nextStageWidth = (w - Fin 200) * (snd (?stages ! (i + 1)) / Math_max (map snd ?stages));
                 nextX = Fin 100 + ((w - Fin 200) - nextStageWidth) / Fin 2
             in Elem ''polygon''
                  [(''points'',
                      [Num x, Lit '','', Num y, Lit '' '', Num (x + stageWidth), Lit '','',
                       Num y, Lit '' '', Num (nextX + nextStageWidth), Lit '','',
                       Num (y + (ht - Fin 160) / num (length ?stages) - Fin 10), Lit '' '',
                       Num nextX, Lit '','',
                       Num (y + (ht - Fin 160) / num (length ?stages) - Fin 10)]),
                   (''fill'', [Lit color]), (''stroke'', [Lit ''#fff'']),
                   (''stroke-width'', [Lit ''2''])] None)) (i, ?stages ! i)"
      unfolding lv by simp
  qed
  have mono: "\<forall>W r1 r2. w = Fin W \<and> 200 \<le> W \<and> r1 \<le> r2
             \<longrightarrow> js_le ((w - Fin 200) * Fin r1) ((w - Fin 200) * Fin r2)"
    by (auto simp: minus_jsnum_def mult_left_mono)
  have body: "(let stages = map (normalized h) items;
               n = length items;
               maxValue = Math_max (map snd stages);
               stageHeight = (ht - Fin 160) / num n
           in filter is_conversion ?es
                = map (\<lambda>i. Elem ''text''
                             [(''x'', [Num (Fin 100 + (w - Fin 200) + Fin 10)]),
                              (''y'', [Num (Fin 80 + num i * stageHeight + stageHeight / Fin 2)]),
                              (''class'', [Lit ''axis-label''])]
                             (Some [Fixed 1 ((snd (stages ! i) / snd (stages ! (i - 1))) * Fin 100),
                                    Lit ''%'']))
                    [1..<n]
              \<and> filter is_stage_shape ?es
                  = map (\<lambda>(i, label, v).
                      let stageWidth = (w - Fin 200) * (v / maxValue);
                          x = Fin 100 + ((w - Fin 200) - stageWidth) / Fin 2;
                          y = Fin 80 + num i * stageHeight;
                          color = [''#4285f4'', ''#5bb974'', ''#fbbc04'', ''#ea4335'', ''#9aa0a6'',
                                   ''#ff6d01''] ! (i mod 6)
                      in if i = n - 1 then
                           Elem ''rect''
                             [(''x'', [Num x]), (''y'', [Num y]), (''width'', [Num stageWidth]),
                              (''height'', [Num (stageHeight - Fin 10)]), (''fill'', [Lit color]),
                              (''stroke'', [Lit ''#fff'']), (''stroke-width'', [Lit ''2''])] None
                         else
                           let nextStageWidth = (w - Fin 200) * (snd (stages ! (i + 1)) / maxValue);
                               nextX = Fin 100 + ((w - Fin 200) - nextStageWidth) / Fin 2
                           in Elem ''polygon''
                                [(''points'',
                                    [Num x, Lit '','', Num y, Lit '' '', Num (x + stageWidth), Lit '','',
                                     Num y, Lit '' '', Num (nextX + nextStageWidth), Lit '','',
                                     Num (y + stageHeight - Fin 10), Lit '' '', Num nextX, Lit '','',
                                     Num (y + stageHeight - Fin 10)]),
                                 (''fill'', [Lit color]), (''stroke'', [Lit ''#fff'']),
                                 (''stroke-width'', [Lit ''2''])] None)
                      (enumerate 0 stages))"
    unfolding Let_def using conv shape[unfolded Let_def] by (simp only: length_map simp_thms)
  show ?thesis
    by (rule exI[of _ ?es]) (intro conjI gen body mono)
qed

text \<open>
  Witness for C7: the stages Visitors, 100, and Buyers, 33, on a canvas of 800 by 600.
  The one conversion-rate text is that of the second stage, 33 percent, at \<open>x = 710\<close>
  and \<open>y = 410\<close>; the first stage is a trapezoid from the width 600 to the width 198,
  and the last stage is a rect of the width 198.
\<close>

theorem funnel_conversions_and_widths_witness:
  "\<exists>es. generateFunnelChart sample_host (DataArray funnel_example) (Fin 800) (Fin 600)
           empty_options = Inr es
        \<and> filter is_conversion es
            = [Elem ''text''
                 [(''x'', [Num (Fin 710)]), (''y'', [Num (Fin 410)]), (''class'', [Lit ''axis-label''])]
                 (Some [Fixed 1 (Fin 33), Lit ''%''])]
        \<and> filter is_stage_shape es
            = [Elem ''polygon''
                 [(''points'',
                     [Num (Fin 100), Lit '','', Num (Fin 80), Lit '' '', Num (Fin 700), Lit '','',
                      Num (Fin 80), Lit '' '', Num (Fin 499), Lit '','', Num (Fin 290), Lit '' '',
                      Num (Fin 301), Lit '','', Num (Fin 290)]),
                  (''fill'', [Lit ''#4285f4'']), (''stroke'', [Lit ''#fff'']),
                  (''stroke-width'', [Lit ''2''])] None,
               Elem ''rect''
                 [(''x'', [Num (Fin 301)]), (''y'', [Num (Fin 300)]), (''width'', [Num (Fin 198)]),
                  (''height'', [Num (Fin 210)]), (''fill'', [Lit ''#5bb974'']),
                  (''stroke'', [Lit ''#fff'']), (''stroke-width'', [Lit ''2''])] None]
        \<and> js_le ((Fin 800 - Fin 200) * Fin (33 / 100)) ((Fin 800 - Fin 200) * Fin 1)"
proof -
  have a: "funnel_example \<noteq> []" "\<forall>it\<in>set funnel_example. it \<noteq> Prim PNull"
    "spread_safe funnel_example"
    by (simp_all add: funnel_example_def spread_safe_def)
  from funnel_conversions_and_widths[OF a, of sample_host "Fin 800" "Fin 600" empty_options]
  obtain es where
    gen: "generateFunnelChart sample_host (DataArray funnel_example) (Fin 800) (Fin 600) empty_options = Inr es"
    and body: "(let stages = map (normalized sample_host) funnel_example;
               n = length funnel_example;
               maxValue = Math_max (map snd stages);
               stageHeight = (Fin 600 - Fin 160) / num n
           in filter is_conversion es
                = map (\<lambda>i. Elem ''text''
                             [(''x'', [Num (Fin 100 + (Fin 800 - Fin 200) + Fin 10)]),
                              (''y'', [Num (Fin 80 + num i * stageHeight + stageHeight / Fin 2)]),
                              (''class'', [Lit ''axis-label''])]
                             (Some [Fixed 1 ((snd (stages ! i) / snd (stages ! (i - 1))) * Fin 100),
                                    Lit ''%'']))
                    [1..<n]
              \<and> filter is_stage_shape es
                  = map (\<lambda>(i, label, v).
                      let stageWidth = (Fin 800 - Fin 200) * (v / maxValue);
                          x = Fin 100 + ((Fin 800 - Fin 200) - stageWidth) / Fin 2;
                          y = Fin 80 + num i * stageHeight;
                          color = [''#4285f4'', ''#5bb974'', ''#fbbc04'', ''#ea4335'', ''#9aa0a6'',
                                   ''#ff6d01''] ! (i mod 6)
                      in if i = n - 1 then
                           Elem ''rect''
                             [(''x'', [Num x]), (''y'', [Num y]), (''width'', [Num stageWidth]),
                              (''height'', [Num (stageHeight - Fin 10)]), (''fill'', [Lit color]),
                              (''stroke'', [Lit ''#fff'']), (''stroke-width'', [Lit ''2''])] None
                         else
                           let nextStageWidth = (Fin 800 - Fin 200) * (snd (stages ! (i + 1)) / maxValue);
                               nextX = Fin 100 + ((Fin 800 - Fin 200) - nextStageWidth) / Fin 2
                           in Elem ''polygon''
                                [(''points'',
                                    [Num x, Lit '','', Num y, Lit '' '', Num (x + stageWidth), Lit '','',
                                     Num y, Lit '' '', Num (nextX + nextStageWidth), Lit '','',
                                     Num (y + stageHeight - Fin 10), Lit '' '', Num nextX, Lit '','',
                                     Num (y + stageHeight - Fin 10)]),
                                 (''fill'', [Lit color]), (''stroke'', [Lit ''#fff'']),
                                 (''stroke-width'', [Lit ''2''])] None)
                      (enumerate 0 stages))"
    and mono: "(\<forall>W r1 r2. Fin 800 = Fin W \<and> 200 \<le> W \<and> r1 \<le> r2
             \<longrightarrow> js_le ((Fin 800 - Fin 200) * Fin r1) ((Fin 800 - Fin 200) * Fin r2))"
    by blast
  have st: "map (normalized sample_host) funnel_example
              = [(''Visitors'', Fin 100), (''Buyers'', Fin 33)]"
    by (simp add: funnel_example_def field_def)
  have len: "length funnel_example = 2" by (simp add: funnel_example_def)
  have u: "[Suc 0..<2] = [Suc 0]" by (simp add: upt_rec)
  have c: "filter is_conversion es
            = [Elem ''text''
                 [(''x'', [Num (Fin 710)]), (''y'', [Num (Fin 410)]), (''class'', [Lit ''axis-label''])]
                 (Some [Fixed 1 (Fin 33), Lit ''%''])]"
    using body by (simp add: Let_def st len u minus_jsnum_def num_def)
  have sh: "filter is_stage_shape es
            = [Elem ''polygon''
                 [(''points'',
                     [Num (Fin 100), Lit '','', Num (Fin 80), Lit '' '', Num (Fin 700), Lit '','',
                      Num (Fin 80), Lit '' '', Num (Fin 499), Lit '','', Num (Fin 290), Lit '' '',
                      Num (Fin 301), Lit '','', Num (Fin 290)]),
                  (''fill'', [Lit ''#4285f4'']), (''stroke'', [Lit ''#fff'']),
                  (''stroke-width'', [Lit ''2''])] None,
               Elem ''rect''
                 [(''x'', [Num (Fin 301)]), (''y'', [Num (Fin 300)]), (''width'', [Num (Fin 198)]),
                  (''height'', [Num (Fin 210)]), (''fill'', [Lit ''#5bb974'']),
                  (''stroke'', [Lit ''#fff'']), (''stroke-width'', [Lit ''2''])] None]"
    using body by (simp add: Let_def st len minus_jsnum_def num_def Math_max_def)
  have m: "js_le ((Fin 800 - Fin 200) * Fin (33 / 100)) ((Fin 800 - Fin 200) * Fin 1)"
    using mono[rule_format, of 800 "33 / 100" 1] by simp
  show ?thesis by (rule exI[of _ es]) (intro conjI gen c sh m)
qed

section \<open>Properties of the pie engine\<close>

lemma pie_total_fin_from:
  "length labels = length vs \<Longrightarrow>
   foldl (\<lambda>sum slice. sum + snd slice) (Fin acc) (zip labels (map Fin vs)) = Fin (acc + sum_list vs)"
proof (induction vs arbitrary: labels acc)
  case Nil
  then show ?case by simp
next
  case (Cons v vs)
  then obtain l ls where l: "labels = l # ls" "length ls = length vs"
    by (cases labels) auto
  with Cons.IH[of ls "acc + v"] show ?case by (simp add: add.assoc)
qed

lemma pie_total_fin:
  "length labels = length vs \<Longrightarrow> pie_total (zip labels (map Fin vs)) = Fin (sum_list vs)"
  using pie_total_fin_from[of labels vs 0] by (simp add: pie_total_def)

lemma sum_list_pos: "vs \<noteq> [] \<Longrightarrow> \<forall>v\<in>set vs. (0::real) < v \<Longrightarrow> 0 < sum_list vs"
  by (induction vs) (auto intro: add_pos_nonneg sum_list_nonneg less_imp_le)

lemma sum_list_scaled: "(\<Sum>v\<leftarrow>vs. v / S * c) = sum_list vs / S * (c::real)"
  by (induction vs) (simp_all add: add_divide_distrib distrib_right)

lemma map_upt_Suc_shift: "map f [0..<Suc n] = f 0 # map (\<lambda>i. f (Suc i)) [0..<n]"
  by (simp add: map_upt_Suc del: upt_Suc)

lemma pie_sweep_closed:
  assumes "length labels = length vs" and "\<forall>v\<in>set vs. 0 < v" and "S \<noteq> 0"
  shows "pie_sweep (Fin S) (Fin c) (enumerate k (zip labels (map Fin vs)))
           = map (\<lambda>i. (k + i, labels ! i, Fin (vs ! i),
                        Fin (c + (\<Sum>v\<leftarrow>take i vs. v / S * 2 * pi)),
                        Fin (vs ! i / S * 2 * pi)))
               [0..<length vs]"
  using assms(1,2)
proof (induction vs arbitrary: labels c k)
  case Nil
  then show ?case by simp
next
  case (Cons v vs)
  then obtain l ls where l: "labels = l # ls" "length ls = length vs"
    by (cases labels) auto
  from Cons.prems(2) have v: "0 < v" and rest: "\<forall>v\<in>set vs. 0 < v" by auto
  have step: "pie_sweep (Fin S) (Fin c) (enumerate k (zip labels (map Fin (v # vs))))
     = (k, l, Fin v, Fin c, Fin (v / S * 2 * pi))
       # pie_sweep (Fin S) (Fin (c + v / S * 2 * pi)) (enumerate (Suc k) (zip ls (map Fin vs)))"
    using v assms(3) by (simp add: l Let_def)
  show ?case
    unfolding step Cons.IH[OF l(2) rest]
    by (simp add: l map_upt_Suc_shift add.assoc del: upt_Suc)
qed

text \<open>
  C6, as stated, fails for a slice whose value is +Infinity, which is above 0 and makes
  a total above 0: its angle \<open>(Infinity / Infinity) * 2 * pi\<close> is NaN. The engine draws
  the slice with an end point at NaN and without a percentage label; no sum of angles
  is \<open>2 * pi\<close>.
\<close>

theorem pie_infinite_value_counterexample:
  "\<forall>h. js_lt (Fin 0) PInf
       \<and> pie_total [(''A'', PInf)] = PInf
       \<and> js_lt (Fin 0) (pie_total [(''A'', PInf)])
       \<and> (PInf / pie_total [(''A'', PInf)]) * Fin 2 * Fin pi = NaN
       \<and> (\<exists>es. generatePieChart h (DataArray infinite_slice_example) (Fin 800) (Fin 600)
                   empty_options = Inr es
                 \<and> map (attr ''d'') (filter is_path es)
                     = [Some [Lit ''M '', Num (Fin 400), Lit '' '', Num (Fin 320), Lit '' L '',
                              Num (Fin 400), Lit '' '', Num (Fin 170), Lit '' A '', Num (Fin 150),
                              Lit '' '', Num (Fin 150), Lit '' 0 '', Num (Fin 0), Lit '' 1 '',
                              Num NaN, Lit '' '', Num NaN, Lit '' Z'']]
                 \<and> filter is_percentage_label es = [])"
proof
  fix h
  have t: "pie_total [(''A'', PInf)] = PInf" by (simp add: pie_total_def)
  have g: "generatePieChart h (DataArray infinite_slice_example) (Fin 800) (Fin 600) empty_options
             = Inr (pie_chart (Fin 800) (Fin 600) [(''A'', PInf)])"
    by (simp add: generatePieChart_def infinite_slice_example_def field_def)
  have sw: "pie_sweep PInf (- Fin pi / Fin 2) (enumerate 0 [(''A'', PInf)])
              = [(0, ''A'', PInf, Fin (- (pi / 2)), NaN)]"
    by (simp add: Let_def)
  have c: "pie_chart (Fin 800) (Fin 600) [(''A'', PInf)]
             = pie_slice_elems (Fin 400) (Fin 320) (Fin 150) PInf (0, ''A'', PInf, Fin (- (pi / 2)), NaN)
               @ pie_legend_elems (Fin 400) (Fin 320) (Fin 150) (0, ''A'', PInf, Fin (- (pi / 2)), NaN)"
    unfolding pie_chart_def Let_def t by (simp add: sw[unfolded Let_def])
  have p: "map (attr ''d'') (filter is_path (pie_chart (Fin 800) (Fin 600) [(''A'', PInf)]))
             = [Some [Lit ''M '', Num (Fin 400), Lit '' '', Num (Fin 320), Lit '' L '',
                      Num (Fin 400), Lit '' '', Num (Fin 170), Lit '' A '', Num (Fin 150),
                      Lit '' '', Num (Fin 150), Lit '' 0 '', Num (Fin 0), Lit '' 1 '',
                      Num NaN, Lit '' '', Num NaN, Lit '' Z'']]"
    unfolding c
    by (simp add: pie_slice_elems_def pie_legend_elems_def Let_def is_path_def attr_def)
  have l: "filter is_percentage_label (pie_chart (Fin 800) (Fin 600) [(''A'', PInf)]) = []"
    unfolding c
    by (simp add: pie_slice_elems_def pie_legend_elems_def Let_def is_percentage_label_def attr_def)
  show "js_lt (Fin 0) PInf
       \<and> pie_total [(''A'', PInf)] = PInf
       \<and> js_lt (Fin 0) (pie_total [(''A'', PInf)])
       \<and> (PInf / pie_total [(''A'', PInf)]) * Fin 2 * Fin pi = NaN
       \<and> (\<exists>es. generatePieChart h (DataArray infinite_slice_example) (Fin 800) (Fin 600)
                   empty_options = Inr es
                 \<and> map (attr ''d'') (filter is_path es)
                     = [Some [Lit ''M '', Num (Fin 400), Lit '' '', Num (Fin 320), Lit '' L '',
                              Num (Fin 400), Lit '' '', Num (Fin 170), Lit '' A '', Num (Fin 150),
                              Lit '' '', Num (Fin 150), Lit '' 0 '', Num (Fin 0), Lit '' 1 '',
                              Num NaN, Lit '' '', Num NaN, Lit '' Z'']]
                 \<and> filter is_percentage_label es = [])"
    using t g p l by simp
qed

lemma pie_slice_paths:
  "filter is_path (pie_slice_elems cx cy r tot (i, l, v, Fin st, Fin an))
     = [Elem ''path''
         [(''d'', [Lit ''M '', Num cx, Lit '' '', Num cy,
                   Lit '' L '', Num (cx + r * Fin (cos (st))),
                   Lit '' '', Num (cy + r * Fin (sin (st))),
                   Lit '' A '', Num r, Lit '' '', Num r, Lit '' 0 '',
                   Num (if pi < an then Fin 1 else Fin 0), Lit '' 1 '',
                   Num (cx + r * Fin (cos (st + an))),
                   Lit '' '', Num (cy + r * Fin (sin (st + an))), Lit '' Z'']),
          (''fill'', [Lit ([''#4285f4'', ''#ea4335'', ''#fbbc04'', ''#34a853'', ''#9aa0a6'',
                            ''#ff6d01'', ''#ab47bc'', ''#26c6da''] ! (i mod 8))]),
          (''stroke'', [Lit ''#fff'']), (''stroke-width'', [Lit ''2''])] None]"
  by (simp add: pie_slice_elems_def Let_def is_path_def pie_colors_def)

lemma pie_slice_labels:
  "S \<noteq> 0 \<Longrightarrow>
   filter is_percentage_label (pie_slice_elems cx cy r (Fin S) (i, l, Fin v, Fin st, Fin an))
     = (if 2 / 10 < an then [Elem ''text''
         [(''x'', [Num (cx + r * Fin (7 / 10) * Fin (cos (st + an / 2)))]),
          (''y'', [Num (cy + r * Fin (7 / 10) * Fin (sin (st + an / 2)))]),
          (''text-anchor'', [Lit ''middle'']), (''class'', [Lit ''axis-label'']),
          (''fill'', [Lit ''white'']), (''font-weight'', [Lit ''bold''])]
         (Some [Fixed 1 (Fin (v / S * 100)), Lit ''%''])] else [])"
  by (simp add: pie_slice_elems_def Let_def is_percentage_label_def attr_def)

lemma pie_legend_no_path: "filter is_path (pie_legend_elems cx cy r x) = []"
  by (cases x) (simp add: pie_legend_elems_def Let_def is_path_def)

lemma pie_legend_no_label: "filter is_percentage_label (pie_legend_elems cx cy r x) = []"
  by (cases x) (simp add: pie_legend_elems_def Let_def is_percentage_label_def attr_def)

lemma zip_map_fst_snd: "map f xs = ys \<Longrightarrow> zip (map fst (map g xs)) ys = map (\<lambda>x. (fst (g x), f x)) xs"
  by (induction xs arbitrary: ys) auto

text \<open>
  C6, amended. Let the items of a pie (a non-empty array without a \<open>null\<close> item)
  normalise to slices of the finite values \<open>vs\<close>, all above 0, with a total of at most
  \<open>10^308\<close> (so that the sum does not overflow as a double). Then the engine returns a
  chart that has one path per slice, in input order: slice \<open>i\<close> starts at the angle
  \<open>-pi/2\<close> plus the angles of the slices before it, spans the angle
  \<open>(value / total) * 2 * pi\<close> and is drawn with the sweep flag 1, which is clockwise on
  the screen. The percentage label of a slice, drawn when its angle is above 0.2, reads
  \<open>((value / total) * 100).toFixed(1)\<close> followed by \<open>%\<close>. The angles of the slices
  add up to \<open>2 * pi\<close>, and the ratios \<open>(value / total) * 100\<close> behind the percentage
  labels add up to 100. (Arithmetic is exact in the model, so the sums are equalities;
  the rounding of the floating-point operations is outside it.)
\<close>

theorem pie_slices_and_percentages:
  assumes "items \<noteq> []" and "\<forall>it\<in>set items. it \<noteq> Prim PNull"
    and "map (\<lambda>it. snd (normalized h it)) items = map Fin vs"
    and "\<forall>v\<in>set vs. 0 < v" and "sum_list vs \<le> 10 ^ 308"
  shows
    "\<exists>es. generatePieChart h (DataArray items) w ht opts = Inr es
       \<and> (let total = sum_list vs;
               centerX = w / Fin 2;
               centerY = ht / Fin 2 + Fin 20;
               radius = js_min w ht / Fin 4;
               angle = (\<lambda>i. vs ! i / total * 2 * pi);
               start = (\<lambda>i. - pi / 2 + (\<Sum>v\<leftarrow>take i vs. v / total * 2 * pi))
           in filter is_path es
                = map (\<lambda>i. Elem ''path''
         [(''d'', [Lit ''M '', Num centerX, Lit '' '', Num centerY,
                   Lit '' L '', Num (centerX + radius * Fin (cos (start i))),
                   Lit '' '', Num (centerY + radius * Fin (sin (start i))),
                   Lit '' A '', Num radius, Lit '' '', Num radius, Lit '' 0 '',
                   Num (if pi < angle i then Fin 1 else Fin 0), Lit '' 1 '',
                   Num (centerX + radius * Fin (cos (start i + angle i))),
                   Lit '' '', Num (centerY + radius * Fin (sin (start i + angle i))), Lit '' Z'']),
          (''fill'', [Lit ([''#4285f4'', ''#ea4335'', ''#fbbc04'', ''#34a853'', ''#9aa0a6'',
                            ''#ff6d01'', ''#ab47bc'', ''#26c6da''] ! (i mod 8))]),
          (''stroke'', [Lit ''#fff'']), (''stroke-width'', [Lit ''2''])] None) [0..<length vs]
              \<and> filter is_percentage_label es
                  = concat (map (\<lambda>i. if 2 / 10 < angle i then [Elem ''text''
         [(''x'', [Num (centerX + radius * Fin (7 / 10) * Fin (cos (start i + angle i / 2)))]),
          (''y'', [Num (centerY + radius * Fin (7 / 10) * Fin (sin (start i + angle i / 2)))]),
          (''text-anchor'', [Lit ''middle'']), (''class'', [Lit ''axis-label'']),
          (''fill'', [Lit ''white'']), (''font-weight'', [Lit ''bold''])]
         (Some [Fixed 1 (Fin (vs ! i / total * 100)), Lit ''%''])] else [])
                              [0..<length vs])
              \<and> (\<Sum>v\<leftarrow>vs. v / total * 2 * pi) = 2 * pi
              \<and> (\<Sum>v\<leftarrow>vs. v / total * 100) = 100)"
proof -
  let ?S = "sum_list vs"
  define labels where "labels = map fst (map (normalized h) items)"
  let ?cx = "w / Fin 2" and ?cy = "ht / Fin 2 + Fin 20" and ?r = "js_min w ht / Fin 4"
  let ?arc = "\<lambda>i. (i, labels ! i, Fin (vs ! i),
                    Fin (- pi / 2 + (\<Sum>v\<leftarrow>take i vs. v / ?S * 2 * pi)),
                    Fin (vs ! i / ?S * 2 * pi))"
  have len: "length vs = length items"
    using arg_cong[OF assms(3), of length] by simp
  then have ne: "vs \<noteq> []" using assms(1) by auto
  have ll: "length labels = length vs" using len by (simp add: labels_def)
  have slices: "map (normalized h) items = zip labels (map Fin vs)"
    using zip_map_fst_snd[OF assms(3), of "normalized h"] by (simp add: labels_def)
  have tr: "traverse (category_point h) items = Inr (zip labels (map Fin vs))"
    by (subst slices[symmetric]) (rule funnel_stages[OF assms(2)])
  have tot: "pie_total (zip labels (map Fin vs)) = Fin ?S" by (rule pie_total_fin[OF ll])
  have pos: "0 < ?S" by (rule sum_list_pos[OF ne assms(4)])
  then have nz: "?S \<noteq> 0" by simp
  have sweep: "pie_sweep (Fin ?S) (Fin (- (pi / 2))) (enumerate 0 (zip labels (map Fin vs)))
                 = map ?arc [0..<length vs]"
    using pie_sweep_closed[OF ll assms(4) nz, of "- (pi / 2)" 0] by simp
  let ?es = "concat (map (pie_slice_elems ?cx ?cy ?r (Fin ?S)) (map ?arc [0..<length vs]))
             @ concat (map (pie_legend_elems ?cx ?cy ?r) (map ?arc [0..<length vs]))"
  have gen: "generatePieChart h (DataArray items) w ht opts = Inr ?es"
    using assms(1) pos
    by (simp add: generatePieChart_def tr pie_chart_def tot Let_def sweep)
  have paths: "filter is_path ?es
      = map (\<lambda>i. Elem ''path''
         [(''d'', [Lit ''M '', Num ?cx, Lit '' '', Num ?cy,
                   Lit '' L '', Num (?cx + ?r * Fin (cos (- pi / 2 + (\<Sum>v\<leftarrow>take i vs. v / sum_list vs * 2 * pi)))),
                   Lit '' '', Num (?cy + ?r * Fin (sin (- pi / 2 + (\<Sum>v\<leftarrow>take i vs. v / sum_list vs * 2 * pi)))),
                   Lit '' A '', Num ?r, Lit '' '', Num ?r, Lit '' 0 '',
                   Num (if pi < vs ! i / sum_list vs * 2 * pi then Fin 1 else Fin 0), Lit '' 1 '',
                   Num (?cx + ?r * Fin (cos (- pi / 2 + (\<Sum>v\<leftarrow>take i vs. v / sum_list vs * 2 * pi) + vs ! i / sum_list vs * 2 * pi))),
                   Lit '' '', Num (?cy + ?r * Fin (sin (- pi / 2 + (\<Sum>v\<leftarrow>take i vs. v / sum_list vs * 2 * pi) + vs ! i / sum_list vs * 2 * pi))), Lit '' Z'']),
          (''fill'', [Lit ([''#4285f4'', ''#ea4335'', ''#fbbc04'', ''#34a853'', ''#9aa0a6'',
                            ''#ff6d01'', ''#ab47bc'', ''#26c6da''] ! (i mod 8))]),
          (''stroke'', [Lit ''#fff'']), (''stroke-width'', [Lit ''2''])] None) [0..<length vs]"
    by (simp only: filter_append map_map comp_def filter_concat_map_none[OF pie_legend_no_path]
        append_Nil2 filter_concat_map_single[OF pie_slice_paths])
  have labels: "filter is_percentage_label ?es
      = concat (map (\<lambda>i. if 2 / 10 < vs ! i / ?S * 2 * pi then [Elem ''text''
         [(''x'', [Num (?cx + ?r * Fin (7 / 10) * Fin (cos (- pi / 2 + (\<Sum>v\<leftarrow>take i vs. v / sum_list vs * 2 * pi) + vs ! i / sum_list vs * 2 * pi / 2)))]),
          (''y'', [Num (?cy + ?r * Fin (7 / 10) * Fin (sin (- pi / 2 + (\<Sum>v\<leftarrow>take i vs. v / sum_list vs * 2 * pi) + vs ! i / sum_list vs * 2 * pi / 2)))]),
          (''text-anchor'', [Lit ''middle'']), (''class'', [Lit ''axis-label'']),
          (''fill'', [Lit ''white'']), (''font-weight'', [Lit ''bold''])]
         (Some [Fixed 1 (Fin (vs ! i / ?S * 100)), Lit ''%''])] else [])
                  [0..<length vs])"
    by (simp only: filter_append map_map comp_def filter_concat_map_none[OF pie_legend_no_label]
        append_Nil2 filter_concat_map_on[OF pie_slice_labels[OF nz]])
  have s1: "(\<Sum>v\<leftarrow>vs. v / ?S * 2 * pi) = 2 * pi"
  proof -
    have "(\<Sum>v\<leftarrow>vs. v / ?S * 2 * pi) = (\<Sum>v\<leftarrow>vs. v / ?S * (2 * pi))"
      by (simp add: mult.assoc)
    also have "\<dots> = ?S / ?S * (2 * pi)" by (rule sum_list_scaled)
    finally show ?thesis using nz by simp
  qed
  have s2: "(\<Sum>v\<leftarrow>vs. v / ?S * 100) = 100"
    using sum_list_scaled[of ?S 100 vs] nz by simp
  have body: "let total = sum_list vs;
               centerX = w / Fin 2;
               centerY = ht / Fin 2 + Fin 20;
               radius = js_min w ht / Fin 4;
               angle = (\<lambda>i. vs ! i / total * 2 * pi);
               start = (\<lambda>i. - pi / 2 + (\<Sum>v\<leftarrow>take i vs. v / total * 2 * pi))
           in filter is_path ?es
                = map (\<lambda>i. Elem ''path''
         [(''d'', [Lit ''M '', Num centerX, Lit '' '', Num centerY,
                   Lit '' L '', Num (centerX + radius * Fin (cos (start i))),
                   Lit '' '', Num (centerY + radius * Fin (sin (start i))),
                   Lit '' A '', Num radius, Lit '' '', Num radius, Lit '' 0 '',
                   Num (if pi < angle i then Fin 1 else Fin 0), Lit '' 1 '',
                   Num (centerX + radius * Fin (cos (start i + angle i))),
                   Lit '' '', Num (centerY + radius * Fin (sin (start i + angle i))), Lit '' Z'']),
          (''fill'', [Lit ([''#4285f4'', ''#ea4335'', ''#fbbc04'', ''#34a853'', ''#9aa0a6'',
                            ''#ff6d01'', ''#ab47bc'', ''#26c6da''] ! (i mod 8))]),
          (''stroke'', [Lit ''#fff'']), (''stroke-width'', [Lit ''2''])] None) [0..<length vs]
              \<and> filter is_percentage_label ?es
                  = concat (map (\<lambda>i. if 2 / 10 < angle i then [Elem ''text''
         [(''x'', [Num (centerX + radius * Fin (7 / 10) * Fin (cos (start i + angle i / 2)))]),
          (''y'', [Num (centerY + radius * Fin (7 / 10) * Fin (sin (start i + angle i / 2)))]),
          (''text-anchor'', [Lit ''middle'']), (''class'', [Lit ''axis-label'']),
          (''fill'', [Lit ''white'']), (''font-weight'', [Lit ''bold''])]
         (Some [Fixed 1 (Fin (vs ! i / total * 100)), Lit ''%''])] else [])
                              [0..<length vs])
              \<and> (\<Sum>v\<leftarrow>vs. v / total * 2 * pi) = 2 * pi
              \<and> (\<Sum>v\<leftarrow>vs. v / total * 100) = 100"
    unfolding Let_def by (intro conjI paths labels s1 s2)
  show ?thesis by (rule exI[of _ ?es]) (intro conjI gen body)
qed

lemma digits_examples:
  "digits 50 = ''50''" "digits 33 = ''33''" "digits 16 = ''16''"
  "digits 0 = ''0''" "digits 3 = ''3''" "digits 7 = ''7''"
  by (simp_all add: digits.simps)

lemma fixed_real_examples:
  "fixed_real 1 50 = ''50.0''" "fixed_real 1 (100 / 3) = ''33.3''"
  "fixed_real 1 (50 / 3) = ''16.7''"
proof -
  have n: "nat \<lfloor>\<bar>50 :: real\<bar> * 10 ^ 1 + 1 / 2\<rfloor> = 500"
    "nat \<lfloor>\<bar>100 / 3 :: real\<bar> * 10 ^ 1 + 1 / 2\<rfloor> = 333"
    "nat \<lfloor>\<bar>50 / 3 :: real\<bar> * 10 ^ 1 + 1 / 2\<rfloor> = 167"
    by (simp_all add: floor_eq_iff)
  show "fixed_real 1 50 = ''50.0''"
    unfolding fixed_real_def Let_def n by (simp add: digits_examples pad_left_def)
  show "fixed_real 1 (100 / 3) = ''33.3''"
    unfolding fixed_real_def Let_def n by (simp add: digits_examples pad_left_def)
  show "fixed_real 1 (50 / 3) = ''16.7''"
    unfolding fixed_real_def Let_def n by (simp add: digits_examples pad_left_def)
qed

text \<open>
  Witness for C6: the slices 45, 30 and 15 of the specification's example on a canvas of
  800 by 600. The chart has three paths; the first runs from the top of the circle,
  (400, 170), clockwise to its bottom, (400, 470); the percentage labels read 50.0%,
  33.3% and 16.7%, and their ratios 50, 100/3 and 50/3 add up to 100.
\<close>

theorem pie_slices_and_percentages_witness:
  "\<exists>es. generatePieChart sample_host (DataArray pie_example) (Fin 800) (Fin 600) empty_options
           = Inr es
        \<and> length (filter is_path es) = 3
        \<and> attr ''d'' (hd (filter is_path es))
            = Some [Lit ''M '', Num (Fin 400), Lit '' '', Num (Fin 320), Lit '' L '',
                    Num (Fin 400), Lit '' '', Num (Fin 170), Lit '' A '', Num (Fin 150),
                    Lit '' '', Num (Fin 150), Lit '' 0 '', Num (Fin 0), Lit '' 1 '',
                    Num (Fin 400), Lit '' '', Num (Fin 470), Lit '' Z'']
        \<and> map body (filter is_percentage_label es)
            = [Some [Fixed 1 (Fin 50), Lit ''%''], Some [Fixed 1 (Fin (100 / 3)), Lit ''%''],
               Some [Fixed 1 (Fin (50 / 3)), Lit ''%'']]
        \<and> map (\<lambda>e. render_pieces sample_host (the (body e))) (filter is_percentage_label es)
            = [''50.0%'', ''33.3%'', ''16.7%'']
        \<and> (\<Sum>v\<leftarrow>[45, 30, 15]. v / sum_list [45, 30, 15] * 2 * pi) = 2 * pi
        \<and> (\<Sum>v\<leftarrow>[45, 30, 15]. v / sum_list [45, 30, 15] * 100) = (100 :: real)"
proof -
  have a: "pie_example \<noteq> []" "\<forall>it\<in>set pie_example. it \<noteq> Prim PNull"
    "map (\<lambda>it. snd (normalized sample_host it)) pie_example = map Fin [45, 30, 15]"
    "\<forall>v\<in>set [45, 30, 15 :: real]. 0 < v" "sum_list [45, 30, 15 :: real] \<le> 10 ^ 308"
    by (simp_all add: pie_example_def field_def)
  from pie_slices_and_percentages[OF a, of "Fin 800" "Fin 600" empty_options]
  obtain es where
    gen: "generatePieChart sample_host (DataArray pie_example) (Fin 800) (Fin 600) empty_options = Inr es"
    and body: "(let total = sum_list [45, 30, 15];
               centerX = Fin 800 / Fin 2;
               centerY = Fin 600 / Fin 2 + Fin 20;
               radius = js_min (Fin 800) (Fin 600) / Fin 4;
               angle = (\<lambda>i. [45, 30, 15] ! i / total * 2 * pi);
               start = (\<lambda>i. - pi / 2 + (\<Sum>v\<leftarrow>take i [45, 30, 15]. v / total * 2 * pi))
           in filter is_path es
                = map (\<lambda>i. Elem ''path''
         [(''d'', [Lit ''M '', Num centerX, Lit '' '', Num centerY,
                   Lit '' L '', Num (centerX + radius * Fin (cos (start i))),
                   Lit '' '', Num (centerY + radius * Fin (sin (start i))),
                   Lit '' A '', Num radius, Lit '' '', Num radius, Lit '' 0 '',
                   Num (if pi < angle i then Fin 1 else Fin 0), Lit '' 1 '',
                   Num (centerX + radius * Fin (cos (start i + angle i))),
                   Lit '' '', Num (centerY + radius * Fin (sin (start i + angle i))), Lit '' Z'']),
          (''fill'', [Lit ([''#4285f4'', ''#ea4335'', ''#fbbc04'', ''#34a853'', ''#9aa0a6'',
                            ''#ff6d01'', ''#ab47bc'', ''#26c6da''] ! (i mod 8))]),
          (''stroke'', [Lit ''#fff'']), (''stroke-width'', [Lit ''2''])] None) [0..<length [45, 30, 15 :: real]]
              \<and> filter is_percentage_label es
                  = concat (map (\<lambda>i. if 2 / 10 < angle i then [Elem ''text''
         [(''x'', [Num (centerX + radius * Fin (7 / 10) * Fin (cos (start i + angle i / 2)))]),
          (''y'', [Num (centerY + radius * Fin (7 / 10) * Fin (sin (start i + angle i / 2)))]),
          (''text-anchor'', [Lit ''middle'']), (''class'', [Lit ''axis-label'']),
          (''fill'', [Lit ''white'']), (''font-weight'', [Lit ''bold''])]
         (Some [Fixed 1 (Fin ([45, 30, 15] ! i / total * 100)), Lit ''%''])] else [])
                              [0..<length [45, 30, 15 :: real]])
              \<and> (\<Sum>v\<leftarrow>[45, 30, 15]. v / total * 2 * pi) = 2 * pi
              \<and> (\<Sum>v\<leftarrow>[45, 30, 15]. v / total * 100) = 100)"
    by blast
  have u: "[0..<3] = [0, 1, 2]" by (simp add: upt_rec)
  have p: "(2 :: real) / 10 < pi" "(2 :: real) / 10 < 2 * pi / 3" "(2 :: real) / 10 < pi / 3"
    using pi_ge_two by simp_all
  from body have paths: "filter is_path es = map (\<lambda>i. Elem ''path''
         [(''d'', [Lit ''M '', Num (Fin 800 / Fin 2), Lit '' '', Num (Fin 600 / Fin 2 + Fin 20),
                   Lit '' L '', Num ((Fin 800 / Fin 2) + (js_min (Fin 800) (Fin 600) / Fin 4) * Fin (cos (- pi / 2 + (\<Sum>v\<leftarrow>take i [45, 30, 15]. v / sum_list [45, 30, 15] * 2 * pi)))),
                   Lit '' '', Num ((Fin 600 / Fin 2 + Fin 20) + (js_min (Fin 800) (Fin 600) / Fin 4) * Fin (sin (- pi / 2 + (\<Sum>v\<leftarrow>take i [45, 30, 15]. v / sum_list [45, 30, 15] * 2 * pi)))),
                   Lit '' A '', Num (js_min (Fin 800) (Fin 600) / Fin 4), Lit '' '', Num (js_min (Fin 800) (Fin 600) / Fin 4), Lit '' 0 '',
                   Num (if pi < [45, 30, 15] ! i / sum_list [45, 30, 15] * 2 * pi then Fin 1 else Fin 0), Lit '' 1 '',
                   Num ((Fin 800 / Fin 2) + (js_min (Fin 800) (Fin 600) / Fin 4) * Fin (cos (- pi / 2 + (\<Sum>v\<leftarrow>take i [45, 30, 15]. v / sum_list [45, 30, 15] * 2 * pi) + [45, 30, 15] ! i / sum_list [45, 30, 15] * 2 * pi))),
                   Lit '' '', Num ((Fin 600 / Fin 2 + Fin 20) + (js_min (Fin 800) (Fin 600) / Fin 4) * Fin (sin (- pi / 2 + (\<Sum>v\<leftarrow>take i [45, 30, 15]. v / sum_list [45, 30, 15] * 2 * pi) + [45, 30, 15] ! i / sum_list [45, 30, 15] * 2 * pi))), Lit '' Z'']),
          (''fill'', [Lit ([''#4285f4'', ''#ea4335'', ''#fbbc04'', ''#34a853'', ''#9aa0a6'',
                            ''#ff6d01'', ''#ab47bc'', ''#26c6da''] ! (i mod 8))]),
          (''stroke'', [Lit ''#fff'']), (''stroke-width'', [Lit ''2''])] None) [0..<length [45, 30, 15 :: real]]"
    and labels: "filter is_percentage_label es
                   = concat (map (\<lambda>i. if 2 / 10 < [45, 30, 15] ! i / sum_list [45, 30, 15] * 2 * pi
                                       then [Elem ''text''
         [(''x'', [Num ((Fin 800 / Fin 2) + (js_min (Fin 800) (Fin 600) / Fin 4) * Fin (7 / 10) * Fin (cos (- pi / 2 + (\<Sum>v\<leftarrow>take i [45, 30, 15]. v / sum_list [45, 30, 15] * 2 * pi) + [45, 30, 15] ! i / sum_list [45, 30, 15] * 2 * pi / 2)))]),
          (''y'', [Num ((Fin 600 / Fin 2 + Fin 20) + (js_min (Fin 800) (Fin 600) / Fin 4) * Fin (7 / 10) * Fin (sin (- pi / 2 + (\<Sum>v\<leftarrow>take i [45, 30, 15]. v / sum_list [45, 30, 15] * 2 * pi) + [45, 30, 15] ! i / sum_list [45, 30, 15] * 2 * pi / 2)))]),
          (''text-anchor'', [Lit ''middle'']), (''class'', [Lit ''axis-label'']),
          (''fill'', [Lit ''white'']), (''font-weight'', [Lit ''bold''])]
         (Some [Fixed 1 (Fin ([45, 30, 15] ! i / sum_list [45, 30, 15] * 100)), Lit ''%''])] else [])
                               [0..<length [45, 30, 15 :: real]])"
    and s1: "(\<Sum>v\<leftarrow>[45, 30, 15]. v / sum_list [45, 30, 15] * 2 * pi) = 2 * pi"
    and s2: "(\<Sum>v\<leftarrow>[45, 30, 15]. v / sum_list [45, 30, 15] * 100) = (100 :: real)"
    unfolding Let_def by blast+
  have n: "length (filter is_path es) = 3" unfolding paths by simp
  have d: "attr ''d'' (hd (filter is_path es))
            = Some [Lit ''M '', Num (Fin 400), Lit '' '', Num (Fin 320), Lit '' L '',
                    Num (Fin 400), Lit '' '', Num (Fin 170), Lit '' A '', Num (Fin 150),
                    Lit '' '', Num (Fin 150), Lit '' 0 '', Num (Fin 0), Lit '' 1 '',
                    Num (Fin 400), Lit '' '', Num (Fin 470), Lit '' Z'']"
    unfolding paths by (simp add: u attr_def minus_jsnum_def)
  have l: "map body (filter is_percentage_label es)
            = [Some [Fixed 1 (Fin 50), Lit ''%''], Some [Fixed 1 (Fin (100 / 3)), Lit ''%''],
               Some [Fixed 1 (Fin (50 / 3)), Lit ''%'']]"
    unfolding labels using p by (simp add: u)
  note f = fixed_real_examples
  have "map (\<lambda>e. render_pieces sample_host (the (body e))) (filter is_percentage_label es)
          = map (\<lambda>b. render_pieces sample_host (the b)) (map body (filter is_percentage_label es))"
    by (simp add: comp_def)
  then have r: "map (\<lambda>e. render_pieces sample_host (the (body e))) (filter is_percentage_label es)
            = [''50.0%'', ''33.3%'', ''16.7%'']"
    unfolding l using f by (simp add: render_pieces_def sample_host_def)
  show ?thesis by (rule exI[of _ es]) (intro conjI gen n d l r s1 s2)
qed

section \<open>Zero denominators in the histogram and the funnel engine\<close>

lemma Math_minmax_55: "Math_max [Fin 5, Fin 5] = Fin 5" "Math_min [Fin 5, Fin 5] = Fin 5"
  by (simp_all add: Math_max_def Math_min_def)

lemma binWidth_55: "binWidth (Fin 10) [Fin 5, Fin 5] = Fin 0"
  by (simp add: binWidth_def Math_minmax_55 minus_jsnum_def)

lemma binIndex_55: "binIndex (Fin 10) [Fin 5, Fin 5] (Fin 5) = NaN"
  by (simp add: binIndex_def binWidth_55 Math_minmax_55 minus_jsnum_def)

lemma histogram_55: "histogram (Fin 10) 10 [Fin 5, Fin 5] = replicate 10 0"
  by (simp add: histogram_def binIndex_55)

text \<open>
  C2 fails on the code when all valid values are equal. For the data \<open>[5, 5]\<close> (and the
  default of 10 bins) the minimum and the maximum are both 5, so \<open>binWidth\<close> is 0, the
  bin index \<open>floor((5 - 5) / 0)\<close> is NaN, and \<open>histogram[NaN]++\<close> increments no bin: every
  frequency stays 0 and their sum is 0, while there are two valid values; the value
  equal to the maximum is in no bin, not in the last one.
\<close>

theorem histogram_equal_values_lost:
  "\<forall>h. generateHistogramChart h (DataArray equal_values_example) (Fin 800) (Fin 600) empty_options
         = Inr (histogram_chart (chartArea (Fin 800) (Fin 600)) (Fin 10) 10 [Fin 5, Fin 5])
       \<and> binWidth (Fin 10) [Fin 5, Fin 5] = Fin 0
       \<and> binIndex (Fin 10) [Fin 5, Fin 5] (Fin 5) = NaN
       \<and> histogram (Fin 10) 10 [Fin 5, Fin 5] = replicate 10 0
       \<and> sum_list (histogram (Fin 10) 10 [Fin 5, Fin 5]) = 0
       \<and> length [Fin 5, Fin 5 :: jsnum] = 2"
proof
  fix h
  have gen: "generateHistogramChart h (DataArray equal_values_example) (Fin 800) (Fin 600)
               empty_options
             = Inr (histogram_chart (chartArea (Fin 800) (Fin 600)) (Fin 10) 10 [Fin 5, Fin 5])"
    by (simp add: generateHistogramChart_def equal_values_example_def num_or_def empty_options_def)
  show "generateHistogramChart h (DataArray equal_values_example) (Fin 800) (Fin 600) empty_options
         = Inr (histogram_chart (chartArea (Fin 800) (Fin 600)) (Fin 10) 10 [Fin 5, Fin 5])
       \<and> binWidth (Fin 10) [Fin 5, Fin 5] = Fin 0
       \<and> binIndex (Fin 10) [Fin 5, Fin 5] (Fin 5) = NaN
       \<and> histogram (Fin 10) 10 [Fin 5, Fin 5] = replicate 10 0
       \<and> sum_list (histogram (Fin 10) 10 [Fin 5, Fin 5]) = 0
       \<and> length [Fin 5, Fin 5 :: jsnum] = 2"
    by (simp only: gen binWidth_55 binIndex_55 histogram_55) simp
qed

lemma funnel_zero_stages:
  "traverse (category_point h) zero_stage_example = Inr [(''A'', Fin 0)]"
  by (simp add: zero_stage_example_def field_def)

text \<open>
  C5 fails on the code in the funnel and in the bin width of the histogram. For a funnel
  whose one stage has the value 0, \<open>maxValue\<close> is 0 and is used as the divisor as it is:
  \<open>widthRatio\<close> is \<open>0 / 0\<close>, NaN, and so is the width of the stage's rect. For the
  histogram of \<open>[5, 5]\<close>, \<open>binWidth\<close> is 0 and divides \<open>value - minValue\<close>.
\<close>

theorem zero_denominators_unguarded:
  "\<forall>h. funnel_maxValue [(''A'', Fin 0)] = Fin 0
       \<and> widthRatio [(''A'', Fin 0)] (Fin 0) = NaN
       \<and> (\<exists>es. generateFunnelChart h (DataArray zero_stage_example) (Fin 800) (Fin 600)
                   empty_options = Inr es
                 \<and> map (attr ''width'') (filter is_stage_shape es) = [Some [Num NaN]])
       \<and> binWidth (Fin 10) [Fin 5, Fin 5] = Fin 0
       \<and> (Fin 5 - Math_min [Fin 5, Fin 5]) / binWidth (Fin 10) [Fin 5, Fin 5] = NaN"
proof
  fix h
  have m: "funnel_maxValue [(''A'', Fin 0)] = Fin 0"
    by (simp add: funnel_maxValue_def Math_max_def)
  have r: "widthRatio [(''A'', Fin 0)] (Fin 0) = NaN"
    by (simp add: widthRatio_def m)
  have gen: "generateFunnelChart h (DataArray zero_stage_example) (Fin 800) (Fin 600) empty_options
             = Inr (funnel_chart (funnelArea (Fin 800) (Fin 600)) [(''A'', Fin 0)])"
    by (simp add: generateFunnelChart_def funnel_zero_stages) (simp add: zero_stage_example_def)
  have w: "map (attr ''width'')
             (filter is_stage_shape (funnel_chart (funnelArea (Fin 800) (Fin 600)) [(''A'', Fin 0)]))
           = [Some [Num NaN]]"
    by (simp add: funnel_chart_shapes funnel_shape_def Let_def attr_def stageWidth_def r
        funnelArea_def minus_jsnum_def)
  have d: "(Fin 5 - Math_min [Fin 5, Fin 5]) / binWidth (Fin 10) [Fin 5, Fin 5] = NaN"
    by (simp add: binWidth_55 Math_minmax_55 minus_jsnum_def)
  show "funnel_maxValue [(''A'', Fin 0)] = Fin 0
       \<and> widthRatio [(''A'', Fin 0)] (Fin 0) = NaN
       \<and> (\<exists>es. generateFunnelChart h (DataArray zero_stage_example) (Fin 800) (Fin 600)
                   empty_options = Inr es
                 \<and> map (attr ''width'') (filter is_stage_shape es) = [Some [Num NaN]])
       \<and> binWidth (Fin 10) [Fin 5, Fin 5] = Fin 0
       \<and> (Fin 5 - Math_min [Fin 5, Fin 5]) / binWidth (Fin 10) [Fin 5, Fin 5] = NaN"
    using m r gen w d binWidth_55 by (intro conjI exI[of _ "funnel_chart (funnelArea (Fin 800) (Fin 600)) [(''A'', Fin 0)]"]) assumption+
qed

section \<open>The render call on well-formed requests\<close>

lemma no_null_itemsD: "no_null_items d \<Longrightarrow> it \<in> set (items_of d) \<Longrightarrow> it \<noteq> Prim PNull"
  by (simp add: no_null_items_def list_all_iff)

lemma column_ok:
  "no_null_items d \<Longrightarrow> \<exists>es. generateColumnChart h d w ht opts = Inr es"
proof -
  assume a: "no_null_items d"
  then have "\<forall>it\<in>set (items_of d). it \<noteq> Prim PNull" by (simp add: no_null_items_def list_all_iff)
  from fold_err_column_ok[OF this, of h "([], [], [])"]
  obtain st where "fold_err (column_item h) (items_of d) ([], [], []) = Inr st" by blast
  then show ?thesis by (simp add: generateColumnChart_def)
qed

lemma line_ok: "no_null_items d \<Longrightarrow> \<exists>es. generateLineChart h d w ht opts = Inr es"
proof -
  assume a: "no_null_items d"
  from traverse_ok[of "items_of d" "line_point h"] no_null_itemsD[OF a] line_point_ok
  obtain ps where "traverse (line_point h) (items_of d) = Inr ps" by blast
  then show ?thesis by (simp add: generateLineChart_def)
qed

lemma area_ok: "no_null_items d \<Longrightarrow> \<exists>es. generateAreaChart h d w ht opts = Inr es"
proof -
  assume a: "no_null_items d"
  from traverse_ok[of "items_of d" "line_point h"] no_null_itemsD[OF a] line_point_ok
  obtain ps where "traverse (line_point h) (items_of d) = Inr ps" by blast
  then show ?thesis by (simp add: generateAreaChart_def)
qed

lemma pie_ok: "no_null_items d \<Longrightarrow> \<exists>es. generatePieChart h d w ht opts = Inr es"
proof -
  assume a: "no_null_items d"
  from traverse_ok[of "items_of d" "category_point h"] no_null_itemsD[OF a] category_point_ok
  obtain ps where "traverse (category_point h) (items_of d) = Inr ps" by blast
  then show ?thesis by (simp add: generatePieChart_def)
qed

lemma funnel_ok: "no_null_items d \<Longrightarrow> \<exists>es. generateFunnelChart h d w ht opts = Inr es"
proof -
  assume a: "no_null_items d"
  from traverse_ok[of "items_of d" "category_point h"] no_null_itemsD[OF a] category_point_ok
  obtain ps where "traverse (category_point h) (items_of d) = Inr ps" by blast
  then show ?thesis by (simp add: generateFunnelChart_def)
qed

lemma scatter_xy_ok: "snd x \<noteq> Prim PNull \<Longrightarrow> \<exists>y. scatter_xy h a n x = Inr y"
  by (cases "(h, a, n, x)" rule: scatter_xy.cases) simp_all

lemma scatter_ok: "no_null_items d \<Longrightarrow> \<exists>es. generateScatterChart h d w ht opts = Inr es"
proof -
  assume a: "no_null_items d"
  have "\<And>x. x \<in> set (enumerate 0 (items_of d)) \<Longrightarrow> snd x \<noteq> Prim PNull"
    using no_null_itemsD[OF a] by (auto simp: in_set_enumerate_eq)
  with traverse_ok[of "enumerate 0 (items_of d)"
      "scatter_xy h (chartArea w ht) (length (items_of d))"] scatter_xy_ok
  obtain ps where "traverse (scatter_xy h (chartArea w ht) (length (items_of d)))
                     (enumerate 0 (items_of d)) = Inr ps" by blast
  then show ?thesis by (simp add: generateScatterChart_def Let_def)
qed

lemma radar_item_ok: "it \<noteq> Prim PNull \<Longrightarrow> \<exists>st'. radar_item h it st = Inr st'"
  by (cases "(h, it, st)" rule: radar_item.cases) simp_all

lemma fold_err_ok:
  "(\<And>x s. x \<in> set xs \<Longrightarrow> \<exists>s'. f x s = Inr s') \<Longrightarrow> \<exists>s'. fold_err f xs s = Inr s'"
proof (induction xs arbitrary: s)
  case Nil
  show ?case by (rule exI[of _ s]) simp
next
  case (Cons x xs)
  from Cons.prems[of x s] obtain s1 where s1: "f x s = Inr s1" by auto
  from Cons.IH[of s1] Cons.prems obtain s' where "fold_err f xs s1 = Inr s'" by auto
  with s1 show ?case by (intro exI[of _ s']) simp
qed

lemma radar_ok: "no_null_items d \<Longrightarrow> \<exists>es. generateRadarChart h d w ht opts = Inr es"
proof -
  assume a: "no_null_items d"
  from fold_err_ok[of "items_of d" "radar_item h" "([], [])"] no_null_itemsD[OF a] radar_item_ok
  obtain st where "fold_err (radar_item h) (items_of d) ([], []) = Inr st" by blast
  then show ?thesis by (simp add: generateRadarChart_def)
qed

lemma dual_row_ok: "it \<noteq> Prim PNull \<Longrightarrow> \<exists>y. dual_row h it = Inr y"
  by (cases "(h, it)" rule: dual_row.cases) simp_all

lemma dual_input_ok: "no_null_items d \<Longrightarrow> \<exists>r. dual_input h d opts = Inr r"
proof -
  assume a: "no_null_items d"
  from traverse_ok[of "items_of d" "dual_row h"] no_null_itemsD[OF a] dual_row_ok
  obtain ps where ps: "traverse (dual_row h) (items_of d) = Inr ps" by blast
  show ?thesis
    by (cases "series opts"; cases "categories opts") (simp_all add: dual_input_def ps)
qed

lemma dual_ok: "no_null_items d \<Longrightarrow> \<exists>es. generateDualAxesChart h d w ht opts = Inr es"
proof -
  assume a: "no_null_items d"
  from dual_input_ok[OF a, of h opts] obtain r where "dual_input h d opts = Inr r" by blast
  then show ?thesis by (simp add: generateDualAxesChart_def)
qed

lemma histogram_value_ok: "it \<noteq> Prim PNull \<Longrightarrow> \<exists>y. histogram_value h it = Inr y"
  by (cases "(h, it)" rule: histogram_value.cases) simp_all

lemma histogram_ok:
  "no_null_items d \<Longrightarrow> valid_bins opts \<Longrightarrow> \<exists>es. generateHistogramChart h d w ht opts = Inr es"
proof -
  assume a: "no_null_items d" and b: "valid_bins opts"
  from traverse_ok[of "items_of d" "histogram_value h"] no_null_itemsD[OF a] histogram_value_ok
  obtain raw where raw: "traverse (histogram_value h) (items_of d) = Inr raw" by blast
  from b obtain n where n: "array_length (num_field_or (bins opts) (Fin 10)) = Inr n"
    by (auto simp: valid_bins_def split: sum.splits)
  show ?thesis by (simp add: generateHistogramChart_def raw n Let_def)
qed

lemma chartElements_ok:
  "no_null_items d \<Longrightarrow> valid_bins opts \<Longrightarrow> \<exists>es. chartElements h type d w ht opts = Inr es"
  by (simp add: chartElements_def Let_def column_ok line_ok pie_ok area_ok scatter_ok radar_ok
      funnel_ok dual_ok histogram_ok)

lemma sublist_inside: "sublist xs ys \<Longrightarrow> sublist xs (a @ ys @ b)"
proof -
  assume "sublist xs ys"
  then obtain p q where "ys = p @ xs @ q" by (auto simp: sublist_def)
  then have "a @ ys @ b = (a @ p) @ xs @ (q @ b)" by simp
  then show ?thesis unfolding sublist_def by blast
qed

lemma document_parts:
  "\<exists>p1 p2 p3 p4 p5.
     document h w ht t c =
       p1 @ svg_open h w ht @ p2 @ render_elem h (title_elem w t) @ p3 @ c @ p4
       @ render_elem h (footer_elem ht) @ p5"
proof -
  have "document h w ht t c =
       (xml_declaration @ newline) @ svg_open h w ht
       @ (newline @ style_block @ newline @ ''  '' @ newline @ ''  <!-- Chart Title -->''
          @ newline @ ''  '')
       @ render_elem h (title_elem w t)
       @ (newline @ ''  '' @ newline @ ''  <!-- Chart Content -->'' @ newline @ ''  '')
       @ c
       @ (newline @ ''  '' @ newline @ ''  <!-- Generated locally notice -->'' @ newline @ ''  '')
       @ render_elem h (footer_elem ht) @ (newline @ ''</svg>'')"
    by (simp add: document_def)
  then show ?thesis by blast
qed

lemma document_svg_open: "sublist (svg_open h w ht) (document h w ht t c)"
proof -
  from document_parts[of h w ht t c] obtain p1 p2 p3 p4 p5 where
    "document h w ht t c =
       p1 @ svg_open h w ht @ p2 @ render_elem h (title_elem w t) @ p3 @ c @ p4
       @ render_elem h (footer_elem ht) @ p5" by blast
  then show ?thesis by (simp add: sublist_appendI)
qed



lemma document_footer_elem:
  "sublist x (render_elem h (footer_elem ht)) \<Longrightarrow> sublist x (document h w ht t c)"
proof -
  assume a: "sublist x (render_elem h (footer_elem ht))"
  from document_parts[of h w ht t c] obtain p1 p2 p3 p4 p5 where
    "document h w ht t c =
       p1 @ svg_open h w ht @ p2 @ render_elem h (title_elem w t) @ p3 @ c @ p4
       @ render_elem h (footer_elem ht) @ p5" by blast
  then have eq: "document h w ht t c
      = (p1 @ svg_open h w ht @ p2 @ render_elem h (title_elem w t) @ p3 @ c @ p4)
        @ render_elem h (footer_elem ht) @ p5" by simp
  show ?thesis by (subst eq) (rule sublist_inside[OF a])
qed

lemma body_in_elem: "sublist (render_pieces h b) (render_elem h (Elem t as (Some b)))"
proof -
  have "render_elem h (Elem t as (Some b))
          = (''<'' @ t @ concat (map (render_attr h) as) @ ''>'') @ render_pieces h b
            @ (''</'' @ t @ ''>'')" by simp
  then show ?thesis by (simp only: sublist_appendI)
qed

lemma document_footer: "sublist footer_text (document h w ht t c)"
proof -
  have "sublist (render_pieces h [Lit footer_text]) (render_elem h (footer_elem ht))"
    unfolding footer_elem_def by (rule body_in_elem)
  then have "sublist footer_text (render_elem h (footer_elem ht))"
    by (simp add: render_pieces_def)
  then show ?thesis by (rule document_footer_elem)
qed


lemma document_not_empty: "document h w ht t c \<noteq> []"
  by (simp add: document_def xml_declaration_def)

text \<open>
  Apart from that, the call returns a document. For every request whose data has no
  \<open>null\<close> item and whose \<open>bins\<close> is a bin count, with any type string,
  \<open>generateSvgContent\<close> returns a document that is not empty, contains the root
  element \<open><svg width="W" height="H" xmlns="http://www.w3.org/2000/svg">\<close>, where \<open>W\<close>
  and \<open>H\<close> are \<open>options.width || 800\<close> and \<open>options.height || 600\<close>, and contains
  the footer literal. (The model puts no bound on the number of arguments of a call:
  the RangeError of \<open>Math.max(...values)\<close> on a very long array is outside it.)
\<close>

lemma render_returns_document:
  assumes "well_formed opts"
  shows "\<exists>doc. generateSvgContent h type opts = Inr doc
               \<and> doc \<noteq> []
               \<and> sublist (svg_open h (num_field_or (width opts) (Fin 800))
                                    (num_field_or (height opts) (Fin 600))) doc
               \<and> sublist footer_text doc"
proof -
  from assms have a: "no_null_items (data_or_empty (data opts))" and b: "valid_bins opts"
    by (simp_all add: well_formed_def)
  from chartElements_ok[OF a b, of h type "num_field_or (width opts) (Fin 800)"
      "num_field_or (height opts) (Fin 600)"]
  obtain es where es: "chartElements h type (data_or_empty (data opts))
      (num_field_or (width opts) (Fin 800)) (num_field_or (height opts) (Fin 600)) opts = Inr es"
    by blast
  have gen: "generateSvgContent h type opts
      = Inr (document h (num_field_or (width opts) (Fin 800)) (num_field_or (height opts) (Fin 600))
               (str_field_or (title opts) (default_title type)) (render h es))"
    by (simp add: generateSvgContent_def Let_def es)
  show ?thesis
    unfolding gen
    apply (rule exI[of _ "document h (num_field_or (width opts) (Fin 800))
        (num_field_or (height opts) (Fin 600))
        (str_field_or (title opts) (default_title type)) (render h es)"])
    by (intro conjI refl document_not_empty document_svg_open document_footer)
qed

text \<open>
  An example: a histogram of two items in five bins on a canvas of width 400.
\<close>

lemma render_returns_document_example:
  "\<exists>doc. generateSvgContent sample_host ''histogram'' histogram_request = Inr doc
         \<and> doc \<noteq> []
         \<and> sublist (svg_open sample_host (Fin 400) (Fin 600)) doc
         \<and> sublist footer_text doc"
proof -
  have wf: "well_formed histogram_request"
    by (simp add: well_formed_def no_null_items_def valid_bins_def histogram_request_def
        empty_options_def num_or_def)
  have w: "num_field_or (width histogram_request) (Fin 800) = Fin 400"
    "num_field_or (height histogram_request) (Fin 600) = Fin 600"
    by (simp_all add: histogram_request_def empty_options_def num_or_def)
  from render_returns_document[OF wf, of sample_host "''histogram''"] show ?thesis
    by (simp only: w)
qed

lemma lower_histogram: "toLowerCase ''histogram'' = ''histogram''"
  by (simp add: toLowerCase_def toLowerCase_char_def)

text \<open>
  C1 fails on the code. \<open>options.bins\<close> is a documented optional field, and the histogram
  engine passes \<open>options.bins || 10\<close> to \<open>Array(bins)\<close> unchecked: for the data
  \<open>[1, 2]\<close> and \<open>bins\<close> 2.5 or -1 the constructor throws a RangeError, which no handler
  between the engine and the caller of \<open>generateSvgContent\<close> catches. The render call
  throws instead of returning a document.
\<close>

theorem render_throws_on_invalid_bins:
  "\<forall>h. generateSvgContent h ''histogram'' (bins_request (5 / 2)) = Inl RangeError
       \<and> generateSvgContent h ''histogram'' (bins_request (- 1)) = Inl RangeError
       \<and> generateHistogramChart h (DataArray [Prim (PNum (Fin 1)), Prim (PNum (Fin 2))])
            (Fin 800) (Fin 600) (bins_request (5 / 2)) = Inl RangeError"
  by (simp add: generateSvgContent_def chartElements_def lower_histogram
      generateHistogramChart_def bins_request_def empty_options_def Let_def num_or_def)

section \<open>Degenerate input\<close>

lemma render_placeholder:
  \<open>render h (placeholder msg)
     = ''<text x="400" y="300" text-anchor="middle" class="axis-label">'' @ msg @ ''</text>''\<close>
  by (simp add: render_def placeholder_def render_pieces_def dq_def)

lemma no_data_dual_input:
  "no_data d \<Longrightarrow> series opts = None \<or> categories opts = None
   \<Longrightarrow> dual_input h d opts = Inr ([], [], [])"
  by (cases "series opts"; cases "categories opts") (auto simp: dual_input_def)

lemma no_data_chartElements:
  assumes "no_data d"
    and "toLowerCase type = ''dual-axes'' \<longrightarrow> series opts = None \<or> categories opts = None"
  shows "chartElements h type d w ht opts = Inr (placeholder ''No data available'')"
proof (cases "toLowerCase type = ''dual-axes''")
  case True
  with assms have "dual_input h d opts = Inr ([], [], [])" by (simp add: no_data_dual_input)
  with True show ?thesis
    by (simp add: chartElements_def Let_def generateDualAxesChart_def dual_chart_def)
next
  case False
  with assms(1) show ?thesis
    by (simp add: chartElements_def Let_def generateColumnChart_def generateLineChart_def
        generatePieChart_def generateAreaChart_def generateScatterChart_def generateRadarChart_def
        generateFunnelChart_def generateHistogramChart_def)
qed

lemma pie_no_valid:
  assumes "toLowerCase type = ''pie''" and "items \<noteq> []"
    and "traverse (category_point h) items = Inr slices" and "js_le (pie_total slices) (Fin 0)"
  shows "chartElements h type (DataArray items) w ht opts
           = Inr (placeholder ''No valid data for pie chart'')"
  using assms by (simp add: chartElements_def Let_def generatePieChart_def pie_chart_def)

lemma histogram_no_valid:
  assumes "toLowerCase type = ''histogram''" and "items \<noteq> []"
    and "traverse (histogram_value h) items = Inr raw" and "\<forall>v\<in>set raw. isNaN v"
  shows "chartElements h type (DataArray items) w ht opts
           = Inr (placeholder ''No valid numeric data'')"
proof -
  from assms(4) have "filter (\<lambda>v. \<not> isNaN v) raw = []" by (simp add: filter_empty_conv)
  with assms(1,2,3) show ?thesis
    by (simp add: chartElements_def Let_def generateHistogramChart_def)
qed

lemma dual_no_series_data:
  assumes "toLowerCase type = ''dual-axes''" and "dual_input h d opts = Inr ([], [], cs)"
  shows "chartElements h type d w ht opts = Inr (placeholder ''No data available'')"
  using assms by (simp add: chartElements_def Let_def generateDualAxesChart_def dual_chart_def)

lemma generateSvgContent_placeholder:
  "chartElements h type (data_or_empty (data opts)) (num_field_or (width opts) (Fin 800))
     (num_field_or (height opts) (Fin 600)) opts = Inr (placeholder msg)
   \<Longrightarrow> generateSvgContent h type opts = Inr (placeholder_document h type opts msg)"
  by (simp add: generateSvgContent_def Let_def placeholder_document_def)

lemma document_inject:
  "document h w ht t c1 = document h w ht t c2 \<Longrightarrow> c1 = c2"
  by (simp add: document_def)

lemma render_rect_first: "take 5 (render h (Elem ''rect'' as b # rest)) = ''<rect''"
  by (cases b) (simp_all add: render_def)

lemma render_placeholder_first: "take 5 (render h (placeholder msg)) = ''<text''"
  by (simp add: render_def placeholder_def)

lemma dual_example_chart_first:
  "\<exists>as rest. dual_chart a opts ([Fin 10, Fin 20], [Fin 1, Fin 2], [''a'', ''b''])
              = Elem ''rect'' as None # rest"
proof -
  have u: "[0..<Suc (Suc 0)] = [0, Suc 0]" by (simp add: upt_rec)
  show ?thesis
    by (simp add: dual_chart_def Let_def u dual_bar_def del: upt.simps)
qed

text \<open>
  C8, as stated, fails in the dual-axes engine. When \<open>options.series\<close> and
  \<open>options.categories\<close> are given, the engine takes its numbers from them and does not
  look at the data array: with an empty (here absent) data array, the request of the bar
  values 10, 20 and the line values 1, 2 yields a chart (its first element is a rect, and
  it has the six labels of the left axis), not the document of the placeholder.
\<close>

theorem empty_data_dual_axes_counterexample:
  "\<forall>h. no_data (data_or_empty (data (dual_example [Fin 10, Fin 20] [Fin 1, Fin 2])))
       \<and> (\<exists>es. generateSvgContent h ''dual-axes'' (dual_example [Fin 10, Fin 20] [Fin 1, Fin 2])
                  = Inr (document h (Fin 800) (Fin 600) ''Dual-axes Chart'' (render h es))
                \<and> take 5 (render h es) = ''<rect''
                \<and> length (left_tick_labels es) = 6)
       \<and> generateSvgContent h ''dual-axes'' (dual_example [Fin 10, Fin 20] [Fin 1, Fin 2])
           \<noteq> Inr (placeholder_document h ''dual-axes''
                    (dual_example [Fin 10, Fin 20] [Fin 1, Fin 2]) ''No data available'')"
proof
  fix h
  let ?o = "dual_example [Fin 10, Fin 20] [Fin 1, Fin 2]"
  let ?es = "dual_chart (chartArea (Fin 800) (Fin 600)) ?o ([Fin 10, Fin 20], [Fin 1, Fin 2], [''a'', ''b''])"
  have nd: "no_data (data_or_empty (data ?o))"
    by (simp add: dual_example_def empty_options_def)
  have f: "width ?o = None" "height ?o = None" "title ?o = None"
    by (simp_all add: dual_example_def empty_options_def)
  have low: "toLowerCase ''dual-axes'' = ''dual-axes''"
    by (simp add: toLowerCase_def toLowerCase_char_def)
  have ce: "chartElements h ''dual-axes'' (data_or_empty (data ?o)) (Fin 800) (Fin 600) ?o = Inr ?es"
    by (simp add: chartElements_def Let_def low generateDualAxesChart_def dual_example_input)
  have gen: "generateSvgContent h ''dual-axes'' ?o
               = Inr (document h (Fin 800) (Fin 600) ''Dual-axes Chart'' (render h ?es))"
    by (simp add: generateSvgContent_def Let_def f ce toUpperCase_char_def)
  from dual_example_chart_first[of "chartArea (Fin 800) (Fin 600)" ?o]
  obtain as rest where first: "?es = Elem ''rect'' as None # rest" by blast
  have r5: "take 5 (render h ?es) = ''<rect''"
    unfolding first by (rule render_rect_first)
  have ticks: "length (left_tick_labels ?es) = 6"
    by (simp add: dual_chart_left del: upt.simps)
  have ne: "render h ?es \<noteq> render h (placeholder ''No data available'')"
  proof
    assume "render h ?es = render h (placeholder ''No data available'')"
    then have "take 5 (render h ?es) = take 5 (render h (placeholder ''No data available''))"
      by simp
    then show False by (simp only: r5 render_placeholder_first) simp
  qed
  have neq: "generateSvgContent h ''dual-axes'' ?o
           \<noteq> Inr (placeholder_document h ''dual-axes'' ?o ''No data available'')"
  proof
    assume "generateSvgContent h ''dual-axes'' ?o
           = Inr (placeholder_document h ''dual-axes'' ?o ''No data available'')"
    then have "document h (Fin 800) (Fin 600) ''Dual-axes Chart'' (render h ?es)
           = document h (Fin 800) (Fin 600) ''Dual-axes Chart''
               (render h (placeholder ''No data available''))"
      by (simp add: gen placeholder_document_def f toUpperCase_char_def)
    from document_inject[OF this] ne show False by simp
  qed
  show "no_data (data_or_empty (data ?o))
       \<and> (\<exists>es. generateSvgContent h ''dual-axes'' ?o
                  = Inr (document h (Fin 800) (Fin 600) ''Dual-axes Chart'' (render h es))
                \<and> take 5 (render h es) = ''<rect''
                \<and> length (left_tick_labels es) = 6)
       \<and> generateSvgContent h ''dual-axes'' ?o
           \<noteq> Inr (placeholder_document h ''dual-axes'' ?o ''No data available'')"
    by (intro conjI exI[of _ ?es] nd gen r5 ticks neq)
qed

lemma render_append: "render h (xs @ ys) = render h xs @ render h ys"
  by (simp add: render_def)

lemma render_dual_legend_end: "\<exists>p. render h (dual_legend a) = p @ ''Line</text>''"
proof -
  have "dual_legend a = butlast (dual_legend a) @ [last (dual_legend a)]"
    by (simp add: dual_legend_def)
  moreover have "\<exists>q. render h [last (dual_legend a)] = q @ ''Line</text>''"
    by (simp add: dual_legend_def render_def render_pieces_def)
  ultimately show ?thesis by (metis render_append append.assoc)
qed

lemma dual_chart_render_end:
  assumes "\<not> (barData = [] \<and> lineData = [])"
  shows "\<exists>p. render h (dual_chart a opts (barData, lineData, cs)) = p @ ''Line</text>''"
proof -
  have "\<exists>xs. dual_chart a opts (barData, lineData, cs) = xs @ dual_legend a"
    using assms by (simp add: dual_chart_def Let_def) (metis append.assoc)
  then obtain xs where "dual_chart a opts (barData, lineData, cs) = xs @ dual_legend a" ..
  with render_dual_legend_end[of h a] show ?thesis
    by (metis render_append append.assoc)
qed

lemma render_placeholder_end:
  "\<exists>q. render h (placeholder ''No data available'') = q @ ''able</text>''"
  by (simp add: render_def placeholder_def render_pieces_def)

lemma dual_chart_not_placeholder:
  assumes "\<not> (barData = [] \<and> lineData = [])"
  shows "render h (dual_chart a opts (barData, lineData, cs))
           \<noteq> render h (placeholder ''No data available'')"
proof
  assume eq: "render h (dual_chart a opts (barData, lineData, cs))
                = render h (placeholder ''No data available'')"
  from dual_chart_render_end[OF assms, of h a opts cs] obtain p where
    p: "render h (dual_chart a opts (barData, lineData, cs)) = p @ ''Line</text>''" ..
  from render_placeholder_end[of h] obtain q where
    q: "render h (placeholder ''No data available'') = q @ ''able</text>''" ..
  from eq p q have "p @ ''Line</text>'' = q @ ''able</text>''" by simp
  then have "''Line</text>'' = ''able</text>''" by (subst (asm) append_eq_append_conv) simp_all
  then show False by simp
qed

lemma dual_placeholder_iff:
  assumes "toLowerCase type = ''dual-axes''"
    and "dual_input h (data_or_empty (data opts)) opts = Inr (barData, lineData, cs)"
  shows "(\<exists>doc. generateSvgContent h type opts = Inr doc)
         \<and> (generateSvgContent h type opts
               = Inr (placeholder_document h type opts ''No data available'')
             \<longleftrightarrow> barData = [] \<and> lineData = [])"
proof -
  let ?w = "num_field_or (width opts) (Fin 800)"
  let ?ht = "num_field_or (height opts) (Fin 600)"
  let ?es = "dual_chart (chartArea ?w ?ht) opts (barData, lineData, cs)"
  have ce: "chartElements h type (data_or_empty (data opts)) ?w ?ht opts = Inr ?es"
    using assms by (simp add: chartElements_def Let_def generateDualAxesChart_def)
  have gen: "generateSvgContent h type opts
               = Inr (document h ?w ?ht (str_field_or (title opts) (default_title type))
                        (render h ?es))"
    by (simp add: generateSvgContent_def Let_def ce)
  show ?thesis
  proof (cases "barData = [] \<and> lineData = []")
    case True
    then have "?es = placeholder ''No data available''" by (simp add: dual_chart_def)
    with gen True show ?thesis by (simp add: placeholder_document_def)
  next
    case False
    from dual_chart_not_placeholder[OF False, of h "chartArea ?w ?ht" opts cs]
    have "generateSvgContent h type opts
            \<noteq> Inr (placeholder_document h type opts ''No data available'')"
      unfolding gen placeholder_document_def by (auto dest: document_inject)
    with gen False show ?thesis by simp
  qed
qed

text \<open>
  C8, amended. On degenerate input the call succeeds with the complete document around
  a plain text placeholder,
  \<open><text x="400" y="300" text-anchor="middle" class="axis-label">message</text>\<close>:
  \<^item> \<open>No data available\<close> when the data is absent, falsy, no array or an empty array, for
    every type; for the dual-axes engine, provided that \<open>options.series\<close> or
    \<open>options.categories\<close> is absent;
  \<^item> in the dual-axes engine, once the bar series, the line series and the categories
    are read (from the options, or from the rows of a data array without a \<open>null\<close>
    row), the call returns a document, and the document is that of
    \<open>No data available\<close> exactly when the bar series and the line series are both
    empty;
  \<^item> \<open>No valid data for pie chart\<close> for a pie whose items normalise to slices of a total
    that is not above 0;
  \<^item> \<open>No valid numeric data\<close> for a histogram all of whose item values are NaN.
\<close>

theorem degenerate_input_placeholder_documents:
  \<open>(no_data (data_or_empty (data opts))
      \<and> (toLowerCase type = ''dual-axes'' \<longrightarrow> series opts = None \<or> categories opts = None)
    \<longrightarrow> generateSvgContent h type opts
          = Inr (placeholder_document h type opts ''No data available''))
   \<and> (toLowerCase type = ''dual-axes''
        \<and> dual_input h (data_or_empty (data opts)) opts = Inr (barData, lineData, cs)
      \<longrightarrow> (\<exists>doc. generateSvgContent h type opts = Inr doc)
          \<and> (generateSvgContent h type opts
                = Inr (placeholder_document h type opts ''No data available'')
              \<longleftrightarrow> barData = [] \<and> lineData = []))
   \<and> (toLowerCase type = ''pie'' \<and> data opts = Some (DataArray items) \<and> items \<noteq> []
        \<and> traverse (category_point h) items = Inr slices \<and> js_le (pie_total slices) (Fin 0)
      \<longrightarrow> generateSvgContent h type opts
            = Inr (placeholder_document h type opts ''No valid data for pie chart''))
   \<and> (toLowerCase type = ''histogram'' \<and> data opts = Some (DataArray items) \<and> items \<noteq> []
        \<and> traverse (histogram_value h) items = Inr raw \<and> (\<forall>v\<in>set raw. isNaN v)
      \<longrightarrow> generateSvgContent h type opts
            = Inr (placeholder_document h type opts ''No valid numeric data''))
   \<and> placeholder_document h type opts msg
       = ''<?xml version="1.0" encoding="UTF-8"?>'' @ [CHR 0x0A]
         @ ''<svg width="'' @ num_to_string h (num_field_or (width opts) (Fin 800))
         @ ''" height="'' @ num_to_string h (num_field_or (height opts) (Fin 600))
         @ ''" xmlns="http://www.w3.org/2000/svg">'' @ [CHR 0x0A]
         @ ''  <style>'' @ [CHR 0x0A]
         @ ''    .chart-title { font-family: Arial, sans-serif; font-size: 20px; font-weight: bold; text-anchor: middle; fill: #333; }'' @ [CHR 0x0A]
         @ ''    .axis-label { font-family: Arial, sans-serif; font-size: 12px; fill: #666; }'' @ [CHR 0x0A]
         @ ''    .axis-title { font-family: Arial, sans-serif; font-size: 14px; font-weight: bold; fill: #333; }'' @ [CHR 0x0A]
         @ ''    .chart-bar { stroke: #fff; stroke-width: 1; }'' @ [CHR 0x0A]
         @ ''    .chart-line { fill: none; stroke-width: 2; }'' @ [CHR 0x0A]
         @ ''    .chart-point { stroke-width: 2; }'' @ [CHR 0x0A]
         @ ''    .chart-area { fill-opacity: 0.3; }'' @ [CHR 0x0A]
         @ ''    .axis { stroke: #333; stroke-width: 1; }'' @ [CHR 0x0A]
         @ ''    .legend-text { font-family: Arial, sans-serif; font-size: 12px; fill: #333; }'' @ [CHR 0x0A]
         @ ''  </style>'' @ [CHR 0x0A]
         @ ''  '' @ [CHR 0x0A]
         @ ''  <!-- Chart Title -->'' @ [CHR 0x0A]
         @ ''  <text x="'' @ num_to_string h (num_field_or (width opts) (Fin 800) / Fin 2)
         @ ''" y="30" class="chart-title">''
         @ (case title opts of
              Some t \<Rightarrow> if t \<noteq> [] then t else (case type of [] \<Rightarrow> [] | c # cs \<Rightarrow> toUpperCase_char c # cs) @ '' Chart''
            | None \<Rightarrow> (case type of [] \<Rightarrow> [] | c # cs \<Rightarrow> toUpperCase_char c # cs) @ '' Chart'')
         @ ''</text>'' @ [CHR 0x0A]
         @ ''  '' @ [CHR 0x0A]
         @ ''  <!-- Chart Content -->'' @ [CHR 0x0A]
         @ ''  <text x="400" y="300" text-anchor="middle" class="axis-label">'' @ msg @ ''</text>''
         @ [CHR 0x0A]
         @ ''  '' @ [CHR 0x0A]
         @ ''  <!-- Generated locally notice -->'' @ [CHR 0x0A]
         @ ''  <text x="10" y="'' @ num_to_string h (num_field_or (height opts) (Fin 600) - Fin 10)
         @ ''" class="axis-label" fill="#888">Generated locally - No remote uploads</text>''
         @ [CHR 0x0A]
         @ ''</svg>''\<close>
proof (intro conjI impI)
  assume "no_data (data_or_empty (data opts))
      \<and> (toLowerCase type = ''dual-axes'' \<longrightarrow> series opts = None \<or> categories opts = None)"
  then show "generateSvgContent h type opts
          = Inr (placeholder_document h type opts ''No data available'')"
    by (intro generateSvgContent_placeholder no_data_chartElements) simp_all
next
  assume a: "toLowerCase type = ''dual-axes''
        \<and> dual_input h (data_or_empty (data opts)) opts = Inr (barData, lineData, cs)"
  from a dual_placeholder_iff[of type h opts barData lineData cs]
  show "\<exists>doc. generateSvgContent h type opts = Inr doc" by blast
  from a dual_placeholder_iff[of type h opts barData lineData cs]
  show "generateSvgContent h type opts
                = Inr (placeholder_document h type opts ''No data available'')
              \<longleftrightarrow> barData = [] \<and> lineData = []" by blast
next
  assume a: "toLowerCase type = ''pie'' \<and> data opts = Some (DataArray items) \<and> items \<noteq> []
        \<and> traverse (category_point h) items = Inr slices \<and> js_le (pie_total slices) (Fin 0)"
  then have d: "data_or_empty (data opts) = DataArray items" by simp
  from a have "chartElements h type (DataArray items) (num_field_or (width opts) (Fin 800))
      (num_field_or (height opts) (Fin 600)) opts = Inr (placeholder ''No valid data for pie chart'')"
    by (intro pie_no_valid[where slices = slices]) simp_all
  then show "generateSvgContent h type opts
            = Inr (placeholder_document h type opts ''No valid data for pie chart'')"
    by (intro generateSvgContent_placeholder) (simp only: d)
next
  assume a: "toLowerCase type = ''histogram'' \<and> data opts = Some (DataArray items) \<and> items \<noteq> []
        \<and> traverse (histogram_value h) items = Inr raw \<and> (\<forall>v\<in>set raw. isNaN v)"
  then have d: "data_or_empty (data opts) = DataArray items" by simp
  from a have "chartElements h type (DataArray items) (num_field_or (width opts) (Fin 800))
      (num_field_or (height opts) (Fin 600)) opts = Inr (placeholder ''No valid numeric data'')"
    by (intro histogram_no_valid[where raw = raw]) simp_all
  then show "generateSvgContent h type opts
            = Inr (placeholder_document h type opts ''No valid numeric data'')"
    by (intro generateSvgContent_placeholder) (simp only: d)
next
  have t: "str_field_or (title opts) (default_title type)
             = (case title opts of
                  Some t \<Rightarrow> if t \<noteq> [] then t else (case type of [] \<Rightarrow> [] | c # cs \<Rightarrow> toUpperCase_char c # cs) @ '' Chart''
                | None \<Rightarrow> (case type of [] \<Rightarrow> [] | c # cs \<Rightarrow> toUpperCase_char c # cs) @ '' Chart'')"
    by (cases "title opts"; cases type) simp_all
  show \<open>placeholder_document h type opts msg
       = ''<?xml version="1.0" encoding="UTF-8"?>'' @ [CHR 0x0A]
         @ ''<svg width="'' @ num_to_string h (num_field_or (width opts) (Fin 800))
         @ ''" height="'' @ num_to_string h (num_field_or (height opts) (Fin 600))
         @ ''" xmlns="http://www.w3.org/2000/svg">'' @ [CHR 0x0A]
         @ ''  <style>'' @ [CHR 0x0A]
         @ ''    .chart-title { font-family: Arial, sans-serif; font-size: 20px; font-weight: bold; text-anchor: middle; fill: #333; }'' @ [CHR 0x0A]
         @ ''    .axis-label { font-family: Arial, sans-serif; font-size: 12px; fill: #666; }'' @ [CHR 0x0A]
         @ ''    .axis-title { font-family: Arial, sans-serif; font-size: 14px; font-weight: bold; fill: #333; }'' @ [CHR 0x0A]
         @ ''    .chart-bar { stroke: #fff; stroke-width: 1; }'' @ [CHR 0x0A]
         @ ''    .chart-line { fill: none; stroke-width: 2; }'' @ [CHR 0x0A]
         @ ''    .chart-point { stroke-width: 2; }'' @ [CHR 0x0A]
         @ ''    .chart-area { fill-opacity: 0.3; }'' @ [CHR 0x0A]
         @ ''    .axis { stroke: #333; stroke-width: 1; }'' @ [CHR 0x0A]
         @ ''    .legend-text { font-family: Arial, sans-serif; font-size: 12px; fill: #333; }'' @ [CHR 0x0A]
         @ ''  </style>'' @ [CHR 0x0A]
         @ ''  '' @ [CHR 0x0A]
         @ ''  <!-- Chart Title -->'' @ [CHR 0x0A]
         @ ''  <text x="'' @ num_to_string h (num_field_or (width opts) (Fin 800) / Fin 2)
         @ ''" y="30" class="chart-title">''
         @ (case title opts of
              Some t \<Rightarrow> if t \<noteq> [] then t else (case type of [] \<Rightarrow> [] | c # cs \<Rightarrow> toUpperCase_char c # cs) @ '' Chart''
            | None \<Rightarrow> (case type of [] \<Rightarrow> [] | c # cs \<Rightarrow> toUpperCase_char c # cs) @ '' Chart'')
         @ ''</text>'' @ [CHR 0x0A]
         @ ''  '' @ [CHR 0x0A]
         @ ''  <!-- Chart Content -->'' @ [CHR 0x0A]
         @ ''  <text x="400" y="300" text-anchor="middle" class="axis-label">'' @ msg @ ''</text>''
         @ [CHR 0x0A]
         @ ''  '' @ [CHR 0x0A]
         @ ''  <!-- Generated locally notice -->'' @ [CHR 0x0A]
         @ ''  <text x="10" y="'' @ num_to_string h (num_field_or (height opts) (Fin 600) - Fin 10)
         @ ''" class="axis-label" fill="#888">Generated locally - No remote uploads</text>''
         @ [CHR 0x0A]
         @ ''</svg>''\<close>
    unfolding placeholder_document_def t
    by (simp add: document_def xml_declaration_def svg_open_def style_block_def newline_def
        title_elem_def footer_elem_def footer_text_def render_def placeholder_def
        render_pieces_def dq_def)
qed

text \<open>
  Witness for C8: a line chart without data, whose whole document is shown; a dual-axes
  chart of two empty series and one of a bar series of one value; a pie of total 0; and
  a histogram of one item that is no number.
\<close>

theorem degenerate_input_placeholder_documents_witness:
  \<open>generateSvgContent sample_host ''line'' empty_options
     = Inr (placeholder_document sample_host ''line'' empty_options ''No data available'')
   \<and> placeholder_document sample_host ''line'' empty_options ''No data available''
       = ''<?xml version="1.0" encoding="UTF-8"?>'' @ [CHR 0x0A]
         @ ''<svg width="800" height="600" xmlns="http://www.w3.org/2000/svg">'' @ [CHR 0x0A]
         @ ''  <style>'' @ [CHR 0x0A]
         @ ''    .chart-title { font-family: Arial, sans-serif; font-size: 20px; font-weight: bold; text-anchor: middle; fill: #333; }'' @ [CHR 0x0A]
         @ ''    .axis-label { font-family: Arial, sans-serif; font-size: 12px; fill: #666; }'' @ [CHR 0x0A]
         @ ''    .axis-title { font-family: Arial, sans-serif; font-size: 14px; font-weight: bold; fill: #333; }'' @ [CHR 0x0A]
         @ ''    .chart-bar { stroke: #fff; stroke-width: 1; }'' @ [CHR 0x0A]
         @ ''    .chart-line { fill: none; stroke-width: 2; }'' @ [CHR 0x0A]
         @ ''    .chart-point { stroke-width: 2; }'' @ [CHR 0x0A]
         @ ''    .chart-area { fill-opacity: 0.3; }'' @ [CHR 0x0A]
         @ ''    .axis { stroke: #333; stroke-width: 1; }'' @ [CHR 0x0A]
         @ ''    .legend-text { font-family: Arial, sans-serif; font-size: 12px; fill: #333; }'' @ [CHR 0x0A]
         @ ''  </style>'' @ [CHR 0x0A]
         @ ''  '' @ [CHR 0x0A]
         @ ''  <!-- Chart Title -->'' @ [CHR 0x0A]
         @ ''  <text x="400" y="30" class="chart-title">Line Chart</text>'' @ [CHR 0x0A]
         @ ''  '' @ [CHR 0x0A]
         @ ''  <!-- Chart Content -->'' @ [CHR 0x0A]
         @ ''  <text x="400" y="300" text-anchor="middle" class="axis-label">No data available</text>''
         @ [CHR 0x0A]
         @ ''  '' @ [CHR 0x0A]
         @ ''  <!-- Generated locally notice -->'' @ [CHR 0x0A]
         @ ''  <text x="10" y="590" class="axis-label" fill="#888">Generated locally - No remote uploads</text>''
         @ [CHR 0x0A]
         @ ''</svg>''
   \<and> generateSvgContent sample_host ''dual-axes'' (dual_example [] [])
       = Inr (placeholder_document sample_host ''dual-axes'' (dual_example [] [])
                ''No data available'')
   \<and> (\<exists>doc. generateSvgContent sample_host ''dual-axes'' (dual_example [Fin 10] []) = Inr doc)
   \<and> generateSvgContent sample_host ''dual-axes'' (dual_example [Fin 10] [])
       \<noteq> Inr (placeholder_document sample_host ''dual-axes'' (dual_example [Fin 10] [])
                ''No data available'')
   \<and> generateSvgContent sample_host ''pie'' zero_pie_request
       = Inr (placeholder_document sample_host ''pie'' zero_pie_request
                ''No valid data for pie chart'')
   \<and> generateSvgContent sample_host ''histogram'' text_histogram_request
       = Inr (placeholder_document sample_host ''histogram'' text_histogram_request
                ''No valid numeric data'')\<close>
proof -
  have a: "no_data (data_or_empty (data empty_options))
           \<and> (toLowerCase ''line'' = ''dual-axes''
                \<longrightarrow> series empty_options = None \<or> categories empty_options = None)"
    by (simp add: empty_options_def)
  have b: "toLowerCase ''dual-axes'' = ''dual-axes''
           \<and> dual_input sample_host (data_or_empty (data (dual_example [] []))) (dual_example [] [])
               = Inr ([], [], [''a'', ''b''])"
    by (simp add: dual_example_input) (simp add: toLowerCase_def toLowerCase_char_def)
  have b': "toLowerCase ''dual-axes'' = ''dual-axes''
           \<and> dual_input sample_host (data_or_empty (data (dual_example [Fin 10] [])))
                 (dual_example [Fin 10] [])
               = Inr ([Fin 10], [], [''a'', ''b''])"
    by (simp add: dual_example_input) (simp add: toLowerCase_def toLowerCase_char_def)
  have c: "toLowerCase ''pie'' = ''pie''
           \<and> data zero_pie_request
               = Some (DataArray [Obj [(''category'', PStr ''A''), (''value'', PNum (Fin 0))]])
           \<and> [Obj [(''category'', PStr ''A''), (''value'', PNum (Fin 0))]] \<noteq> []
           \<and> traverse (category_point sample_host)
                 [Obj [(''category'', PStr ''A''), (''value'', PNum (Fin 0))]] = Inr [(''A'', Fin 0)]
           \<and> js_le (pie_total [(''A'', Fin 0)]) (Fin 0)"
    by (simp add: zero_pie_request_def empty_options_def field_def pie_total_def)
       (simp add: toLowerCase_def toLowerCase_char_def)
  have d: "toLowerCase ''histogram'' = ''histogram''
           \<and> data text_histogram_request = Some (DataArray [Obj [(''value'', PStr ''abc'')]])
           \<and> [Obj [(''value'', PStr ''abc'')]] \<noteq> []
           \<and> traverse (histogram_value sample_host) [Obj [(''value'', PStr ''abc'')]] = Inr [NaN]
           \<and> (\<forall>v\<in>set [NaN]. isNaN v)"
    by (simp add: text_histogram_request_def empty_options_def field_def sample_host_def)
       (simp add: toLowerCase_def toLowerCase_char_def)
  note t1 = degenerate_input_placeholder_documents[where h = sample_host and type = "''line''"
      and opts = empty_options, THEN conjunct1, rule_format, OF a]
  note t2 = degenerate_input_placeholder_documents[where h = sample_host
      and type = "''dual-axes''" and opts = "dual_example [] []" and barData = "[]"
      and lineData = "[]" and cs = "[''a'', ''b'']",
      THEN conjunct2, THEN conjunct1, rule_format, OF b]
  note t2' = degenerate_input_placeholder_documents[where h = sample_host
      and type = "''dual-axes''" and opts = "dual_example [Fin 10] []" and barData = "[Fin 10]"
      and lineData = "[]" and cs = "[''a'', ''b'']",
      THEN conjunct2, THEN conjunct1, rule_format, OF b']
  note t3 = degenerate_input_placeholder_documents[where h = sample_host and type = "''pie''"
      and opts = zero_pie_request
      and items = "[Obj [(''category'', PStr ''A''), (''value'', PNum (Fin 0))]]"
      and slices = "[(''A'', Fin 0)]",
      THEN conjunct2, THEN conjunct2, THEN conjunct1, rule_format, OF c]
  note t4 = degenerate_input_placeholder_documents[where h = sample_host
      and type = "''histogram''"
      and opts = text_histogram_request and items = "[Obj [(''value'', PStr ''abc'')]]"
      and raw = "[NaN]",
      THEN conjunct2, THEN conjunct2, THEN conjunct2, THEN conjunct1, rule_format, OF d]
  note t5 = degenerate_input_placeholder_documents[where h = sample_host and type = "''line''"
      and opts = empty_options and msg = "''No data available''",
      THEN conjunct2, THEN conjunct2, THEN conjunct2, THEN conjunct2]
  have e2: "generateSvgContent sample_host ''dual-axes'' (dual_example [] [])
       = Inr (placeholder_document sample_host ''dual-axes'' (dual_example [] [])
                ''No data available'')"
    using t2 by simp
  have e3: "generateSvgContent sample_host ''dual-axes'' (dual_example [Fin 10] [])
       \<noteq> Inr (placeholder_document sample_host ''dual-axes'' (dual_example [Fin 10] [])
                ''No data available'')"
    using t2' by simp
  have e5: \<open>placeholder_document sample_host ''line'' empty_options ''No data available''
       = ''<?xml version="1.0" encoding="UTF-8"?>'' @ [CHR 0x0A]
         @ ''<svg width="800" height="600" xmlns="http://www.w3.org/2000/svg">'' @ [CHR 0x0A]
         @ ''  <style>'' @ [CHR 0x0A]
         @ ''    .chart-title { font-family: Arial, sans-serif; font-size: 20px; font-weight: bold; text-anchor: middle; fill: #333; }'' @ [CHR 0x0A]
         @ ''    .axis-label { font-family: Arial, sans-serif; font-size: 12px; fill: #666; }'' @ [CHR 0x0A]
         @ ''    .axis-title { font-family: Arial, sans-serif; font-size: 14px; font-weight: bold; fill: #333; }'' @ [CHR 0x0A]
         @ ''    .chart-bar { stroke: #fff; stroke-width: 1; }'' @ [CHR 0x0A]
         @ ''    .chart-line { fill: none; stroke-width: 2; }'' @ [CHR 0x0A]
         @ ''    .chart-point { stroke-width: 2; }'' @ [CHR 0x0A]
         @ ''    .chart-area { fill-opacity: 0.3; }'' @ [CHR 0x0A]
         @ ''    .axis { stroke: #333; stroke-width: 1; }'' @ [CHR 0x0A]
         @ ''    .legend-text { font-family: Arial, sans-serif; font-size: 12px; fill: #333; }'' @ [CHR 0x0A]
         @ ''  </style>'' @ [CHR 0x0A]
         @ ''  '' @ [CHR 0x0A]
         @ ''  <!-- Chart Title -->'' @ [CHR 0x0A]
         @ ''  <text x="400" y="30" class="chart-title">Line Chart</text>'' @ [CHR 0x0A]
         @ ''  '' @ [CHR 0x0A]
         @ ''  <!-- Chart Content -->'' @ [CHR 0x0A]
         @ ''  <text x="400" y="300" text-anchor="middle" class="axis-label">No data available</text>''
         @ [CHR 0x0A]
         @ ''  '' @ [CHR 0x0A]
         @ ''  <!-- Generated locally notice -->'' @ [CHR 0x0A]
         @ ''  <text x="10" y="590" class="axis-label" fill="#888">Generated locally - No remote uploads</text>''
         @ [CHR 0x0A]
         @ ''</svg>''\<close>
    unfolding t5
    by (simp add: empty_options_def sample_host_def minus_jsnum_def digits.simps
        toUpperCase_char_def)
  show ?thesis by (intro conjI t1 e2 t2'[THEN conjunct1] e3 t3 t4 e5)
qed

section \<open>Title and labels in the document\<close>



















section \<open>Histogram bins when the values are spread\<close>

text \<open>
  On finite numbers the JavaScript operations agree with the operations on the reals.
\<close>

lemma js_max_fin: "js_max (Fin a) (Fin b) = Fin (max a b)"
  by (simp add: max_def)

lemma js_min_fin: "js_min (Fin a) (Fin b) = Fin (min a b)"
  by (simp add: min_def)

lemma fin_minus: "Fin a - Fin b = Fin (a - b)"
  by (simp add: minus_jsnum_def)

lemma fin_divide: "b \<noteq> 0 \<Longrightarrow> Fin a / Fin b = Fin (a / b)"
  by simp

text \<open>
  \<open>Math.max\<close> and \<open>Math.min\<close> of a non-empty list of finite numbers.
\<close>

lemma foldr_js_max_fin:
  "rs \<noteq> [] \<Longrightarrow> foldr js_max (map Fin rs) NInf = Fin (Max (set rs))"
proof (induction rs)
  case Nil
  then show ?case by simp
next
  case (Cons r rs)
  show ?case
  proof (cases "rs = []")
    case True
    then show ?thesis by simp
  next
    case False
    have "Max (set (r # rs)) = max r (Max (set rs))" using False by simp
    moreover have "foldr js_max (map Fin (r # rs)) NInf = js_max (Fin r) (Fin (Max (set rs)))"
      using Cons.IH[OF False] by simp
    ultimately show ?thesis by (simp only: js_max_fin)
  qed
qed

lemma foldr_js_min_fin:
  "rs \<noteq> [] \<Longrightarrow> foldr js_min (map Fin rs) PInf = Fin (Min (set rs))"
proof (induction rs)
  case Nil
  then show ?case by simp
next
  case (Cons r rs)
  show ?case
  proof (cases "rs = []")
    case True
    then show ?thesis by simp
  next
    case False
    have "Min (set (r # rs)) = min r (Min (set rs))" using False by simp
    moreover have "foldr js_min (map Fin (r # rs)) PInf = js_min (Fin r) (Fin (Min (set rs)))"
      using Cons.IH[OF False] by simp
    ultimately show ?thesis by (simp only: js_min_fin)
  qed
qed

lemma Math_max_fin: "rs \<noteq> [] \<Longrightarrow> Math_max (map Fin rs) = Fin (Max (set rs))"
  by (simp add: Math_max_def foldr_js_max_fin)

lemma Math_min_fin: "rs \<noteq> [] \<Longrightarrow> Math_min (map Fin rs) = Fin (Min (set rs))"
  by (simp add: Math_min_def foldr_js_min_fin)

text \<open>
  When the largest value exceeds the smallest, the bin width is positive and the bin
  index of a value of the list is the floor of its scaled offset, capped at the last bin.
\<close>

lemma binIndex_spread:
  assumes "rs \<noteq> []" and "Min (set rs) < Max (set rs)" and "0 < n" and "v \<in> set rs"
  shows "binIndex (Fin (real n)) (map Fin rs) (Fin v)
           = Fin (of_int (min \<lfloor>(v - Min (set rs)) / ((Max (set rs) - Min (set rs)) / real n)\<rfloor>
                              (int n - 1)))"
proof -
  define mn where "mn = Min (set rs)"
  define mx where "mx = Max (set rs)"
  define q where "q = (v - mn) / ((mx - mn) / real n)"
  have n0: "real n \<noteq> 0" using assms(3) by simp
  have bw0: "(mx - mn) / real n \<noteq> 0" using assms(2,3) by (simp add: mn_def mx_def)
  have w: "binWidth (Fin (real n)) (map Fin rs) = Fin ((mx - mn) / real n)"
    unfolding binWidth_def Math_max_fin[OF assms(1)] Math_min_fin[OF assms(1)]
      mn_def[symmetric] mx_def[symmetric] fin_minus
    by (rule fin_divide[OF n0])
  have d: "(Fin v - Fin mn) / Fin ((mx - mn) / real n) = Fin q"
    unfolding fin_minus q_def by (rule fin_divide[OF bw0])
  have "binIndex (Fin (real n)) (map Fin rs) (Fin v)
          = js_min (Math_floor (Fin q)) (Fin (real n) - Fin 1)"
    unfolding binIndex_def w Math_min_fin[OF assms(1)] mn_def[symmetric] d ..
  also have "\<dots> = Fin (min (of_int \<lfloor>q\<rfloor>) (real n - 1))"
    by (simp only: Math_floor.simps fin_minus js_min_fin)
  also have "min (of_int \<lfloor>q\<rfloor>) (real n - 1) = of_int (min \<lfloor>q\<rfloor> (int n - 1))"
    by (simp add: min_def)
  finally show ?thesis unfolding q_def mn_def mx_def .
qed

lemma binIndex_range:
  assumes "rs \<noteq> []" and "Min (set rs) < Max (set rs)" and "0 < n" and "v \<in> set rs"
  shows "\<exists>k. k < n \<and> binIndex (Fin (real n)) (map Fin rs) (Fin v) = Fin (real k)"
proof -
  let ?mn = "Min (set rs)" and ?mx = "Max (set rs)"
  let ?q = "(v - ?mn) / ((?mx - ?mn) / real n)"
  have "?mn \<le> v" using assms(4) by simp
  then have "0 \<le> ?q" using assms(2,3) by simp
  then have f0: "0 \<le> \<lfloor>?q\<rfloor>" by simp
  define k where "k = nat (min \<lfloor>?q\<rfloor> (int n - 1))"
  have kn: "k < n" using assms(3) f0 by (auto simp: k_def min_def)
  have "of_int (min \<lfloor>?q\<rfloor> (int n - 1)) = real k"
    using f0 assms(3) by (simp add: k_def min_def)
  with binIndex_spread[OF assms] kn show ?thesis by auto
qed

lemma binIndex_of_max:
  assumes "rs \<noteq> []" and "Min (set rs) < Max (set rs)" and "0 < n"
  shows "binIndex (Fin (real n)) (map Fin rs) (Fin (Max (set rs))) = Fin (real n - 1)"
proof -
  let ?mn = "Min (set rs)" and ?mx = "Max (set rs)"
  have mem: "?mx \<in> set rs" using assms(1) by simp
  have "(?mx - ?mn) / ((?mx - ?mn) / real n) = real n" using assms(2,3) by simp
  then have "\<lfloor>(?mx - ?mn) / ((?mx - ?mn) / real n)\<rfloor> = int n" by simp
  with binIndex_spread[OF assms mem] assms(3) show ?thesis by (simp add: min_def)
qed

text \<open>
  Incrementing at an index inside the array keeps its length and adds one to the sum of
  the frequencies.
\<close>

lemma increment_in_range:
  "k < length hist \<Longrightarrow>
   length (increment (Fin (real k)) hist) = length hist
   \<and> sum_list (increment (Fin (real k)) hist) = Suc (sum_list hist)"
  by (simp add: sum_list_update)

lemma fold_increment:
  assumes "\<And>v. v \<in> set vs \<Longrightarrow> \<exists>k. k < n \<and> f v = Fin (real k)"
  shows "length hist = n \<Longrightarrow>
         length (fold (\<lambda>v hist. increment (f v) hist) vs hist) = n
         \<and> sum_list (fold (\<lambda>v hist. increment (f v) hist) vs hist) = sum_list hist + length vs"
  using assms
proof (induction vs arbitrary: hist)
  case Nil
  then show ?case by simp
next
  case (Cons v vs)
  from Cons.prems(2)[of v] obtain k where k: "k < n" "f v = Fin (real k)" by auto
  with Cons.prems(1) have kl: "k < length hist" by simp
  from increment_in_range[OF kl] Cons.prems(1)
  have l: "length (increment (f v) hist) = n"
    and s: "sum_list (increment (f v) hist) = Suc (sum_list hist)"
    by (simp_all add: k(2))
  from Cons.IH[OF l] Cons.prems(2) s show ?case by simp
qed

text \<open>
  Outside the degenerate case the histogram engine behaves as described: for a non-empty
  list of finite values whose largest value exceeds the smallest and a positive number
  of bins, every value is counted in exactly one bin (the frequencies sum to the number
  of values, in an array of \<open>bins\<close> counters), and the largest value falls into the last
  bin.
\<close>

lemma histogram_counts_when_spread:
  assumes "rs \<noteq> []" and "Min (set rs) < Max (set rs)" and "0 < n"
  shows "sum_list (histogram (Fin (real n)) n (map Fin rs)) = length rs
         \<and> length (histogram (Fin (real n)) n (map Fin rs)) = n
         \<and> binIndex (Fin (real n)) (map Fin rs) (Fin (Max (set rs))) = Fin (real n - 1)"
proof -
  have r: "\<exists>k. k < n \<and> binIndex (Fin (real n)) (map Fin rs) v = Fin (real k)"
    if "v \<in> set (map Fin rs)" for v
  proof -
    from that obtain x where "x \<in> set rs" "v = Fin x" by auto
    with binIndex_range[OF assms, of x] show ?thesis by simp
  qed
  from fold_increment[of "map Fin rs" n "binIndex (Fin (real n)) (map Fin rs)" "replicate n 0", OF r]
  have "length (histogram (Fin (real n)) n (map Fin rs)) = n
        \<and> sum_list (histogram (Fin (real n)) n (map Fin rs)) = length rs"
    by (simp add: histogram_def)
  with binIndex_of_max[OF assms] show ?thesis by simp
qed

end
